(* ===== verification/Prelude.thy ===== *)
theory Prelude
  imports Main
begin

text \<open>
  Shared vocabulary of the dotflow development: the types that name the model's
  values (byte strings, file-system paths), the byte classification used by the
  UTF-8 validator and the TOML lexer, and the generic lemmas on association lists
  and byte ranges that the component theories share.  A Rust \<open>String\<close> is a
  sequence of bytes holding UTF-8; it is modelled as \<^typ>\<open>string\<close>, i.e. a list of
  8-bit \<^typ>\<open>char\<close>s, so that \<open>length\<close> counts bytes as Rust's \<open>len\<close> does.
\<close>

named_theorems byte_class "classification of single bytes, unfolded by the lexer proofs"

type_synonym bytes = "char list"
type_synonym path = string

text \<open>The byte value of a character, and byte ranges as the lexers test them.\<close>

abbreviation byte :: "char \<Rightarrow> nat" where
  "byte c \<equiv> of_char c"

definition in_range :: "nat \<Rightarrow> nat \<Rightarrow> char \<Rightarrow> bool" where
  "in_range lo hi c \<longleftrightarrow> lo \<le> byte c \<and> byte c \<le> hi"

definition is_digit :: "char \<Rightarrow> bool" where
  "is_digit c \<longleftrightarrow> in_range 48 57 c"

definition is_alpha :: "char \<Rightarrow> bool" where
  "is_alpha c \<longleftrightarrow> in_range 65 90 c \<or> in_range 97 122 c"

definition is_hex_digit :: "char \<Rightarrow> bool" where
  "is_hex_digit c \<longleftrightarrow> is_digit c \<or> in_range 65 70 c \<or> in_range 97 102 c"

definition digit_val :: "char \<Rightarrow> nat" where
  "digit_val c = (if is_digit c then byte c - 48
                  else if in_range 65 70 c then byte c - 55
                  else byte c - 87)"

text \<open>The lower-case hexadecimal digit of a value below 16.\<close>

definition hex_digit :: "nat \<Rightarrow> char" where
  "hex_digit n = (if n < 10 then char_of (48 + n) else char_of (87 + n))"

declare in_range_def [byte_class] is_digit_def [byte_class]
  is_alpha_def [byte_class] is_hex_digit_def [byte_class]

text \<open>The value of a list of digits in base \<open>b\<close>, most significant first.\<close>

primrec radix_val :: "nat \<Rightarrow> nat \<Rightarrow> char list \<Rightarrow> nat" where
  "radix_val b n [] = n"
| "radix_val b n (c # cs) = radix_val b (b * n + digit_val c) cs"

subsection \<open>Association lists\<close>

text \<open>
  TOML tables are kept as association lists in insertion order, without duplicate
  keys (the parser rejects duplicates).  \<open>map_of\<close> is the lookup.
\<close>

lemma map_of_append_other [simp]:
  "k \<notin> fst ` set ys \<Longrightarrow> map_of (xs @ ys) k = map_of xs k"
  by (simp add: map_of_append map_add_def split: option.splits)
    (simp add: map_of_eq_None_iff)

lemma map_of_snoc_new [simp]:
  assumes "k \<notin> fst ` set xs"
  shows "map_of (xs @ [(k, v)]) k = Some v"
proof -
  from assms have "map_of xs k = None" by (simp add: map_of_eq_None_iff)
  then show ?thesis by (simp add: map_of_append map_add_def)
qed

end
