(* ===== verification/Utf8.thy ===== *)
theory Utf8
  imports Prelude
begin

text \<open>
  UTF-8 as the Rust standard library enforces it.  \<open>fs::read_to_string\<close> (called at
  \<open>src/src/main.rs\<close> line 48) fails with \<open>InvalidData\<close> when the file's bytes are
  not well-formed UTF-8 (\<open>core::str::from_utf8\<close>); the TOML lexer turns a
  \<open>\u\<close>/\<open>\U\<close> escape into the UTF-8 encoding of a scalar value
  (\<open>char::encode_utf8\<close>).  Both are library code that the program only calls;
  they are modelled from the Unicode standard (table 3-7, well-formed byte
  sequences).  \<open>utf8_lead\<close> gives, for a leading byte, the number of
  continuation bytes and the range allowed for the first of them.
\<close>

definition is_cont :: "char \<Rightarrow> bool" where
  "is_cont c \<longleftrightarrow> in_range 128 191 c"

definition utf8_lead :: "char \<Rightarrow> (nat \<times> nat \<times> nat) option" where
  "utf8_lead c =
     (if byte c < 128 then Some (0, 128, 191)
      else if in_range 194 223 c then Some (1, 128, 191)
      else if byte c = 224 then Some (2, 160, 191)
      else if in_range 225 236 c then Some (2, 128, 191)
      else if byte c = 237 then Some (2, 128, 159)
      else if in_range 238 239 c then Some (2, 128, 191)
      else if byte c = 240 then Some (3, 144, 191)
      else if in_range 241 243 c then Some (3, 128, 191)
      else if byte c = 244 then Some (3, 128, 143)
      else None)"

text \<open>
  One well-formed sequence: the leading byte, then \<open>n\<close> continuation bytes of
  which the first lies in the lead's special range.
\<close>

definition seq_ok :: "nat \<Rightarrow> nat \<Rightarrow> nat \<Rightarrow> char list \<Rightarrow> bool" where
  "seq_ok n lo hi cs \<longleftrightarrow>
     n \<le> length cs \<and> (n = 0 \<or> in_range lo hi (hd cs)) \<and> list_all is_cont (take n cs)"

fun utf8_valid :: "bytes \<Rightarrow> bool" where
  "utf8_valid [] = True"
| "utf8_valid (c # cs) =
     (case utf8_lead c of
        None \<Rightarrow> False
      | Some (n, lo, hi) \<Rightarrow> seq_ok n lo hi cs \<and> utf8_valid (drop n cs))"

text \<open>The encoding of one code point (\<open>char::encode_utf8\<close>).\<close>

definition utf8_encode :: "nat \<Rightarrow> bytes" where
  "utf8_encode cp =
     (if cp < 128 then [char_of cp]
      else if cp < 2048 then [char_of (192 + cp div 64), char_of (128 + cp mod 64)]
      else if cp < 65536 then
        [char_of (224 + cp div 4096), char_of (128 + (cp div 64) mod 64), char_of (128 + cp mod 64)]
      else
        [char_of (240 + cp div 262144), char_of (128 + (cp div 4096) mod 64),
         char_of (128 + (cp div 64) mod 64), char_of (128 + cp mod 64)])"

text \<open>A Unicode scalar value: what \<open>char::from_u32\<close> accepts.\<close>

definition is_scalar :: "nat \<Rightarrow> bool" where
  "is_scalar cp \<longleftrightarrow> cp < 55296 \<or> (57343 < cp \<and> cp \<le> 1114111)"

definition is_ascii :: "char \<Rightarrow> bool" where
  "is_ascii c \<longleftrightarrow> byte c < 128"

text \<open>
  Lossy decoding (\<open>String::from_utf8_lossy\<close>, and \<open>Path::display\<close> followed
  by \<open>to_string\<close> on Unix, lines 24 and 36 of \<open>main.rs\<close>): each maximal
  subpart of an ill-formed sequence becomes one replacement character U+FFFD.
  \<open>match_len\<close> counts the bytes after a leading byte that still fit a
  well-formed sequence.
\<close>

fun cont_run :: "nat \<Rightarrow> bytes \<Rightarrow> nat" where
  "cont_run 0 cs = 0"
| "cont_run (Suc n) [] = 0"
| "cont_run (Suc n) (c # cs) = (if is_cont c then Suc (cont_run n cs) else 0)"

definition match_len :: "nat \<Rightarrow> nat \<Rightarrow> nat \<Rightarrow> bytes \<Rightarrow> nat" where
  "match_len n lo hi cs =
     (case cs of
        [] \<Rightarrow> 0
      | d # ds \<Rightarrow> if n \<noteq> 0 \<and> in_range lo hi d then Suc (cont_run (n - 1) ds) else 0)"

definition replacement :: bytes where
  "replacement = [CHR 0xEF, CHR 0xBF, CHR 0xBD]"

fun utf8_lossy :: "bytes \<Rightarrow> bytes" where
  "utf8_lossy [] = []"
| "utf8_lossy (c # cs) =
     (case utf8_lead c of
        None \<Rightarrow> replacement @ utf8_lossy cs
      | Some (n, lo, hi) \<Rightarrow>
          if match_len n lo hi cs = n then c # take n cs @ utf8_lossy (drop n cs)
          else replacement @ utf8_lossy (drop (match_len n lo hi cs) cs))"

subsection \<open>Validity\<close>


lemma seq_ok_append:
  assumes "seq_ok n lo hi cs"
  shows "seq_ok n lo hi (cs @ ys)"
proof -
  from assms have n: "n \<le> length cs" by (simp add: seq_ok_def)
  then have "take n (cs @ ys) = take n cs" by simp
  moreover from n have "n = 0 \<or> hd (cs @ ys) = hd cs" by (cases cs) auto
  ultimately show ?thesis using assms by (auto simp: seq_ok_def)
qed

lemma utf8_valid_append:
  "utf8_valid xs \<Longrightarrow> utf8_valid ys \<Longrightarrow> utf8_valid (xs @ ys)"
proof (induction xs rule: utf8_valid.induct)
  case 1
  then show ?case by simp
next
  case (2 c cs)
  then obtain n lo hi where l: "utf8_lead c = Some (n, lo, hi)" and s: "seq_ok n lo hi cs"
    and v: "utf8_valid (drop n cs)" by (auto split: option.splits)
  from s have "n \<le> length cs" by (simp add: seq_ok_def)
  then have "drop n (cs @ ys) = drop n cs @ ys" by simp
  with 2 l s v show ?case by (simp add: seq_ok_append)
qed

lemma utf8_lead_ascii: "is_ascii c \<Longrightarrow> utf8_lead c = Some (0, 128, 191)"
  by (simp add: utf8_lead_def is_ascii_def)

lemma utf8_valid_ascii: "list_all is_ascii xs \<Longrightarrow> utf8_valid xs"
  by (induction xs) (simp_all add: utf8_lead_ascii seq_ok_def)

lemma char_byte_range: "n < 256 \<Longrightarrow> in_range lo hi (char_of n) \<longleftrightarrow> lo \<le> n \<and> n \<le> hi"
  by (simp add: in_range_def)

lemma utf8_encode_1: "cp < 128 \<Longrightarrow> utf8_valid (utf8_encode cp)"
  by (simp add: utf8_encode_def utf8_lead_def seq_ok_def char_byte_range)

lemma utf8_encode_2: "128 \<le> cp \<Longrightarrow> cp < 2048 \<Longrightarrow> utf8_valid (utf8_encode cp)"
proof -
  assume a: "128 \<le> cp" "cp < 2048"
  then have "194 \<le> 192 + cp div 64" "192 + cp div 64 \<le> 223" by linarith+
  moreover have "128 + cp mod 64 < 256" "128 \<le> 128 + cp mod 64" "128 + cp mod 64 \<le> 191" by linarith+
  ultimately show ?thesis using a
    by (simp add: utf8_encode_def utf8_lead_def seq_ok_def is_cont_def char_byte_range)
qed

lemma utf8_lead_3:
  "byte c = 224 \<Longrightarrow> utf8_lead c = Some (2, 160, 191)"
  "225 \<le> byte c \<Longrightarrow> byte c \<le> 236 \<Longrightarrow> utf8_lead c = Some (2, 128, 191)"
  "byte c = 237 \<Longrightarrow> utf8_lead c = Some (2, 128, 159)"
  "238 \<le> byte c \<Longrightarrow> byte c \<le> 239 \<Longrightarrow> utf8_lead c = Some (2, 128, 191)"
  by (simp_all add: utf8_lead_def in_range_def)

lemma utf8_valid_seq3:
  "utf8_lead a = Some (2, lo, hi) \<Longrightarrow> in_range lo hi b \<Longrightarrow> is_cont b \<Longrightarrow> is_cont c
   \<Longrightarrow> utf8_valid [a, b, c]"
  by (simp add: seq_ok_def)

lemma utf8_valid_3bytes:
  assumes "q \<le> (15::nat)" "m1 < (64::nat)" "m0 < (64::nat)" "q = 0 \<longrightarrow> 32 \<le> m1" "q = 13 \<longrightarrow> m1 < 32"
  shows "utf8_valid [char_of (224 + q), char_of (128 + m1), char_of (128 + m0)]"
proof -
  have c1: "is_cont (char_of (128 + m1))" "is_cont (char_of (128 + m0))"
    using assms by (simp_all add: is_cont_def char_byte_range)
  have b: "byte (char_of (224 + q)) = 224 + q" using assms by simp
  consider "q = 0" | "1 \<le> q \<and> q \<le> 12" | "q = 13" | "14 \<le> q" by linarith
  then show ?thesis
  proof cases
    case 1
    then show ?thesis using assms c1 b by (intro utf8_valid_seq3; simp add: utf8_lead_3 char_byte_range; linarith)
  next
    case 2
    then show ?thesis using assms c1 b by (intro utf8_valid_seq3; simp add: utf8_lead_3 char_byte_range; linarith)
  next
    case 3
    then show ?thesis using assms c1 b by (intro utf8_valid_seq3; simp add: utf8_lead_3 char_byte_range; linarith)
  next
    case 4
    then show ?thesis using assms c1 b by (intro utf8_valid_seq3; simp add: utf8_lead_3 char_byte_range; linarith)
  qed
qed

lemma utf8_lead_4:
  "byte c = 240 \<Longrightarrow> utf8_lead c = Some (3, 144, 191)"
  "241 \<le> byte c \<Longrightarrow> byte c \<le> 243 \<Longrightarrow> utf8_lead c = Some (3, 128, 191)"
  "byte c = 244 \<Longrightarrow> utf8_lead c = Some (3, 128, 143)"
  by (simp_all add: utf8_lead_def in_range_def)

lemma utf8_valid_seq4:
  "utf8_lead a = Some (3, lo, hi) \<Longrightarrow> in_range lo hi b \<Longrightarrow> is_cont b \<Longrightarrow> is_cont c
   \<Longrightarrow> is_cont d \<Longrightarrow> utf8_valid [a, b, c, d]"
  by (simp add: seq_ok_def)

lemma utf8_valid_4bytes:
  assumes "q \<le> (4::nat)" "m2 < (64::nat)" "m1 < (64::nat)" "m0 < (64::nat)"
    "q = 0 \<longrightarrow> 16 \<le> m2" "q = 4 \<longrightarrow> m2 < 16"
  shows "utf8_valid [char_of (240 + q), char_of (128 + m2), char_of (128 + m1), char_of (128 + m0)]"
proof -
  have c1: "is_cont (char_of (128 + m2))" "is_cont (char_of (128 + m1))" "is_cont (char_of (128 + m0))"
    using assms by (simp_all add: is_cont_def char_byte_range)
  have b: "byte (char_of (240 + q)) = 240 + q" using assms by simp
  consider "q = 0" | "1 \<le> q \<and> q \<le> 3" | "q = 4" using assms(1) by linarith
  then show ?thesis
  proof cases
    case 1
    then show ?thesis using assms c1 b by (intro utf8_valid_seq4; simp add: utf8_lead_4 char_byte_range; linarith)
  next
    case 2
    then show ?thesis using assms c1 b by (intro utf8_valid_seq4; simp add: utf8_lead_4 char_byte_range; linarith)
  next
    case 3
    then show ?thesis using assms c1 b by (intro utf8_valid_seq4; simp add: utf8_lead_4 char_byte_range; linarith)
  qed
qed

lemma div_mod_64: "((cp::nat) div 64) mod 64 = (cp mod 4096) div 64"
  using mod_mult2_eq[of cp 64 64] by simp

lemma div_mod_4096: "((cp::nat) div 4096) mod 64 = (cp mod 262144) div 4096"
  using mod_mult2_eq[of cp 4096 64] by simp

lemma div_bound_3lo: "2048 \<le> (cp::nat) \<Longrightarrow> cp div 4096 = 0 \<Longrightarrow> 32 \<le> (cp div 64) mod 64"
proof -
  assume a: "2048 \<le> cp" "cp div 4096 = 0"
  then have "cp mod 4096 = cp" by simp
  moreover have "2048 div 64 \<le> cp div 64" using a(1) by (rule div_le_mono)
  ultimately show ?thesis by (simp add: div_mod_64)
qed

lemma div_bound_3sur: "(cp::nat) < 55296 \<Longrightarrow> cp div 4096 = 13 \<Longrightarrow> (cp div 64) mod 64 < 32"
proof -
  assume a: "cp < 55296" "cp div 4096 = 13"
  have "cp mod 4096 + cp div 4096 * 4096 = cp" by (rule mod_div_mult_eq)
  with a have "cp mod 4096 < 2048" by linarith
  then have "(cp mod 4096) div 64 < 32" by linarith
  then show ?thesis by (simp add: div_mod_64)
qed

lemma div_bound_4lo: "65536 \<le> (cp::nat) \<Longrightarrow> cp div 262144 = 0 \<Longrightarrow> 16 \<le> (cp div 4096) mod 64"
proof -
  assume a: "65536 \<le> cp" "cp div 262144 = 0"
  then have "cp mod 262144 = cp" by simp
  moreover have "65536 div 4096 \<le> cp div 4096" using a(1) by (rule div_le_mono)
  ultimately show ?thesis by (simp add: div_mod_4096)
qed

lemma div_bound_4hi: "(cp::nat) \<le> 1114111 \<Longrightarrow> cp div 262144 = 4 \<Longrightarrow> (cp div 4096) mod 64 < 16"
proof -
  assume a: "cp \<le> 1114111" "cp div 262144 = 4"
  have "cp mod 262144 + cp div 262144 * 262144 = cp" by (rule mod_div_mult_eq)
  with a have "cp mod 262144 < 65536" by linarith
  then have "(cp mod 262144) div 4096 < 16" by linarith
  then show ?thesis by (simp add: div_mod_4096)
qed

lemma div_bound_3q: "(cp::nat) < 65536 \<Longrightarrow> cp div 4096 \<le> 15" by linarith
lemma div_bound_4q: "(cp::nat) \<le> 1114111 \<Longrightarrow> cp div 262144 \<le> 4" by linarith
lemma utf8_encode_valid: "is_scalar cp \<Longrightarrow> utf8_valid (utf8_encode cp)"
proof -
  assume sc: "is_scalar cp"
  consider "cp < 128" | "128 \<le> cp \<and> cp < 2048" | "2048 \<le> cp \<and> cp < 65536" | "65536 \<le> cp"
    by linarith
  then show ?thesis
  proof cases
    case 1 then show ?thesis by (rule utf8_encode_1)
  next
    case 2 then show ?thesis using utf8_encode_2 by blast
  next
    case 3
    have "cp div 4096 \<le> 15" using 3 by (simp add: div_bound_3q)
    moreover have "(cp div 64) mod 64 < 64" "cp mod 64 < 64" by simp_all
    moreover have "cp div 4096 = 0 \<longrightarrow> 32 \<le> (cp div 64) mod 64" using 3 div_bound_3lo by blast
    moreover have "cp div 4096 = 13 \<longrightarrow> (cp div 64) mod 64 < 32"
    proof
      assume "cp div 4096 = 13"
      moreover from this have "cp < 55296" using 3 sc unfolding is_scalar_def by linarith
      ultimately show "(cp div 64) mod 64 < 32" by (simp add: div_bound_3sur)
    qed
    ultimately have "utf8_valid [char_of (224 + cp div 4096), char_of (128 + (cp div 64) mod 64),
        char_of (128 + cp mod 64)]" by (rule utf8_valid_3bytes)
    then show ?thesis using 3 by (simp add: utf8_encode_def)
  next
    case 4
    have "cp \<le> 1114111" using 4 sc unfolding is_scalar_def by linarith
    then have "cp div 262144 \<le> 4" by (rule div_bound_4q)
    moreover have "(cp div 4096) mod 64 < 64" "(cp div 64) mod 64 < 64" "cp mod 64 < 64" by simp_all
    moreover have "cp div 262144 = 0 \<longrightarrow> 16 \<le> (cp div 4096) mod 64" using 4 div_bound_4lo by blast
    moreover have "cp div 262144 = 4 \<longrightarrow> (cp div 4096) mod 64 < 16"
      using \<open>cp \<le> 1114111\<close> div_bound_4hi by blast
    ultimately have "utf8_valid [char_of (240 + cp div 262144), char_of (128 + (cp div 4096) mod 64),
        char_of (128 + (cp div 64) mod 64), char_of (128 + cp mod 64)]" by (rule utf8_valid_4bytes)
    then show ?thesis using 4 by (simp add: utf8_encode_def)
  qed
qed

subsection \<open>Lossy decoding\<close>

lemma cont_run_le: "cont_run n cs \<le> n"
  by (induction n cs rule: cont_run.induct) auto


lemma cont_run_full: "cont_run n cs = n \<longleftrightarrow> n \<le> length cs \<and> list_all is_cont (take n cs)"
  by (induction n cs rule: cont_run.induct) auto

lemma utf8_lead_bounds: "case utf8_lead c of None \<Rightarrow> True | Some (n, lo, hi) \<Rightarrow> 128 \<le> lo \<and> hi \<le> 191"
  by (simp add: utf8_lead_def)

lemma utf8_lead_range: "utf8_lead c = Some (n, lo, hi) \<Longrightarrow> in_range lo hi d \<Longrightarrow> is_cont d"
  using utf8_lead_bounds [of c] by (simp add: is_cont_def in_range_def)

lemma seq_ok_match_len:
  assumes "utf8_lead c = Some (n, lo, hi)"
  shows "seq_ok n lo hi cs \<longleftrightarrow> match_len n lo hi cs = n"
proof (cases "n = 0")
  case True
  then show ?thesis by (simp add: seq_ok_def match_len_def split: list.split)
next
  case False
  then obtain m where n: "n = Suc m" by (cases n) auto
  show ?thesis
  proof (cases cs)
    case Nil
    with n show ?thesis by (simp add: seq_ok_def match_len_def)
  next
    case (Cons d ds)
    with n utf8_lead_range [OF assms, of d] show ?thesis
      by (auto simp: seq_ok_def match_len_def cont_run_full)
  qed
qed

lemma utf8_valid_replacement [simp]: "utf8_valid replacement"
  by (simp add: replacement_def utf8_lead_def seq_ok_def is_cont_def in_range_def)

lemma utf8_lossy_id: "utf8_valid s \<Longrightarrow> utf8_lossy s = s"
proof (induction s rule: utf8_valid.induct)
  case (2 c cs)
  then obtain n lo hi where l: "utf8_lead c = Some (n, lo, hi)" and s: "seq_ok n lo hi cs"
    and v: "utf8_valid (drop n cs)" by (auto split: option.splits)
  with 2 show ?case by (simp add: seq_ok_match_len [OF l, symmetric])
qed simp

lemma utf8_valid_seq: "utf8_lead c = Some (n, lo, hi) \<Longrightarrow> seq_ok n lo hi cs \<Longrightarrow> utf8_valid (c # take n cs)"
  by (cases cs; cases n) (auto simp: seq_ok_def)

lemma utf8_lossy_valid: "utf8_valid (utf8_lossy s)"
proof (induction s rule: utf8_lossy.induct)
  case (2 c cs)
  show ?case
  proof (cases "utf8_lead c")
    case None
    with 2 show ?thesis by (simp add: utf8_valid_append)
  next
    case (Some t)
    then obtain n lo hi where l: "utf8_lead c = Some (n, lo, hi)" by (cases t) auto
    show ?thesis
    proof (cases "match_len n lo hi cs = n")
      case True
      then have "utf8_valid (c # take n cs)" using utf8_valid_seq [OF l] seq_ok_match_len [OF l] by blast
      with 2 l True show ?thesis using utf8_valid_append [of "c # take n cs"] by simp
    next
      case False
      with 2 l show ?thesis by (simp add: utf8_valid_append)
    qed
  qed
qed simp

lemma utf8_lossy_ascii: "list_all is_ascii s \<Longrightarrow> utf8_lossy s = s"
  by (simp add: utf8_lossy_id utf8_valid_ascii)

text \<open>Lossy decoding changes a byte string exactly when it is not UTF-8.\<close>

lemma utf8_lossy_eq_iff: "utf8_lossy s = s \<longleftrightarrow> utf8_valid s"
  using utf8_lossy_id utf8_lossy_valid by metis

end
