(* ===== verification/Sys.thy ===== *)
theory Sys
  imports Utf8
begin

text \<open>
  The part of the operating system that dotflow touches, as an explicit world
  state threaded through the program: the \<open>HOME\<close> variable, the home directory of
  the password database, and a file system mapping path strings to files or
  directories, with per-path read and write permission.  The operations are the
  four library calls of \<open>src/src/main.rs\<close>: \<open>home::home_dir\<close> (lines 23, 35),
  \<open>Path::exists\<close> (line 44), \<open>fs::File::create\<close> (line 45) and
  \<open>fs::read_to_string\<close> (line 48).  They are library code, modelled from their
  documented behaviour on Unix.  Symbolic links are not modelled (a path is a
  file, a directory or absent).
\<close>

datatype node = File bytes | Dir

record world =
  env_home :: "string option"
  pw_home :: "string option"
  files :: "path \<Rightarrow> node option"
  readable :: "path \<Rightarrow> bool"
  writable :: "path \<Rightarrow> bool"

datatype io_error = NotFound | PermissionDenied | IsADirectory | InvalidData | FilesystemLoop

text \<open>
  \<open>home::home_dir\<close> on Unix is \<open>std::env::home_dir\<close>: the value of \<open>HOME\<close> when it
  is set, otherwise the password-database entry of the current user
  (\<open>getpwuid_r\<close>).  The result is displayed with \<open>display().to_string()\<close>; the
  model keeps the bytes of the path.
\<close>

definition home_dir :: "world \<Rightarrow> string option" where
  "home_dir w = (case env_home w of Some h \<Rightarrow> Some h | None \<Rightarrow> pw_home w)"

text \<open>\<open>Path::exists\<close>: whether \<open>fs::metadata\<close> succeeds.\<close>

definition path_exists :: "path \<Rightarrow> world \<Rightarrow> bool" where
  "path_exists p w \<longleftrightarrow> files w p \<noteq> None"

text \<open>
  \<open>fs::File::create\<close> opens for writing with \<open>create\<close> and \<open>truncate\<close>: a
  directory cannot be opened, an existing file is truncated to length 0 and an
  absent one is created empty, each when the path is writable.
\<close>

definition file_create :: "path \<Rightarrow> world \<Rightarrow> (io_error + unit) \<times> world" where
  "file_create p w =
     (case files w p of
        Some Dir \<Rightarrow> (Inl IsADirectory, w)
      | _ \<Rightarrow> (if writable w p then (Inr (), w\<lparr>files := (files w)(p \<mapsto> File [])\<rparr>)
             else (Inl PermissionDenied, w)))"

text \<open>
  \<open>fs::read_to_string\<close>: open (fails on an absent or unreadable path), read
  (fails on a directory), then check the bytes are UTF-8.
\<close>

definition read_to_string :: "path \<Rightarrow> world \<Rightarrow> io_error + bytes" where
  "read_to_string p w =
     (case files w p of
        None \<Rightarrow> Inl NotFound
      | Some n \<Rightarrow>
          (if \<not> readable w p then Inl PermissionDenied
           else case n of
             Dir \<Rightarrow> Inl IsADirectory
           | File bs \<Rightarrow> (if utf8_valid bs then Inr bs else Inl InvalidData)))"

subsection \<open>Frame and effect lemmas\<close>

named_theorems sys_simps "evaluation rules of the system calls"

lemma file_create_other [sys_simps]:
  "q \<noteq> p \<Longrightarrow> files (snd (file_create p w)) q = files w q"
  by (simp add: file_create_def split: option.splits node.splits)

lemma file_create_env [sys_simps]:
  "env_home (snd (file_create p w)) = env_home w"
  "pw_home (snd (file_create p w)) = pw_home w"
  "readable (snd (file_create p w)) = readable w"
  "writable (snd (file_create p w)) = writable w"
  by (simp_all add: file_create_def split: option.splits node.splits)

lemma home_dir_file_create [sys_simps]:
  "home_dir (snd (file_create p w)) = home_dir w"
  by (simp add: home_dir_def file_create_def split: option.splits node.splits)

lemma file_create_absent [sys_simps]:
  "files w p = None \<Longrightarrow>
   file_create p w = (if writable w p then (Inr (), w\<lparr>files := (files w)(p \<mapsto> File [])\<rparr>)
                      else (Inl PermissionDenied, w))"
  by (simp add: file_create_def)

lemma read_to_string_file [sys_simps]:
  "files w p = Some (File bs) \<Longrightarrow>
   read_to_string p w = (if \<not> readable w p then Inl PermissionDenied
                         else if utf8_valid bs then Inr bs else Inl InvalidData)"
  by (simp add: read_to_string_def)

lemma read_to_string_Inr:
  "read_to_string p w = Inr bs \<Longrightarrow> files w p = Some (File bs) \<and> readable w p \<and> utf8_valid bs"
  by (simp add: read_to_string_def split: option.splits node.splits if_splits)

end
