(* ===== verification/Toml.thy ===== *)
theory Toml
  imports Utf8 "HOL-Library.AList"
begin

text \<open>
  The TOML reader behind \<open>toml::from_str\<close> (\<open>src/src/main.rs\<close> line 56): the
  values, characters, blanks and line ends, single-line strings, keys, and
  the printer of basic strings.  The \<open>toml\<close> crate is a library the program
  only calls; it is modelled from the TOML 1.0 grammar.  Every lexer returns
  \<open>perr + ('a \<times> string)\<close>: the value with the rest of the input, or an error.
  The error \<open>Invalid\<close> is returned only where the input is not TOML at all;
  valid TOML outside the modelled fragment gives \<open>Unsupported\<close>, about which
  the development claims nothing.  A float is kept as the literal it is
  written with (\<open>TFloat\<close>); its \<open>f64\<close> rounding is not modelled.
\<close>

datatype tvalue =
    TString string
  | TInteger int
  | TFloat string
  | TBoolean bool
  | TArray "tvalue list"
  | TTable "(string \<times> tvalue) list"

datatype perr = Invalid | Unsupported

type_synonym 'a lexed = "perr + ('a \<times> string)"

subsection \<open>Characters\<close>

abbreviation LF :: char where "LF \<equiv> CHR 0x0A"
abbreviation CR :: char where "CR \<equiv> CHR 0x0D"
abbreviation TAB :: char where "TAB \<equiv> CHR 0x09"
abbreviation DQ :: char where "DQ \<equiv> CHR 0x22"
abbreviation SQ :: char where "SQ \<equiv> CHR 0x27"
abbreviation BSL :: char where "BSL \<equiv> CHR 0x5C"

definition is_ws :: "char \<Rightarrow> bool" where
  "is_ws c \<longleftrightarrow> c = CHR '' '' \<or> c = TAB"

text \<open>Characters allowed in a comment: tab and everything but the controls.\<close>

definition comment_ok :: "char \<Rightarrow> bool" where
  "comment_ok c \<longleftrightarrow> c = TAB \<or> (32 \<le> byte c \<and> byte c \<noteq> 127)"

definition basic_unescaped :: "char \<Rightarrow> bool" where
  "basic_unescaped c \<longleftrightarrow> c = TAB \<or> (32 \<le> byte c \<and> byte c \<noteq> 34 \<and> byte c \<noteq> 92 \<and> byte c \<noteq> 127)"

definition literal_ok :: "char \<Rightarrow> bool" where
  "literal_ok c \<longleftrightarrow> c = TAB \<or> (32 \<le> byte c \<and> byte c \<noteq> 39 \<and> byte c \<noteq> 127)"

definition bare_key_char :: "char \<Rightarrow> bool" where
  "bare_key_char c \<longleftrightarrow> is_alpha c \<or> is_digit c \<or> c = CHR ''_'' \<or> c = CHR ''-''"

subsection \<open>Whitespace, comments and line ends\<close>

fun skip_ws :: "string \<Rightarrow> string" where
  "skip_ws [] = []"
| "skip_ws (c # cs) = (if is_ws c then skip_ws cs else c # cs)"

text \<open>
  The end of a line after a header or a key/value pair: blanks, an optional
  comment, then a newline (LF or CR LF) or the end of the input.  The flag is
  set inside the comment.
\<close>

fun line_end :: "bool \<Rightarrow> string \<Rightarrow> perr + string" where
  "line_end _ [] = Inr []"
| "line_end cmt (c # cs) =
     (if c = LF then Inr cs
      else if c = CR then (case cs of d # r \<Rightarrow> if d = LF then Inr r else Inl Invalid | [] \<Rightarrow> Inl Invalid)
      else if cmt then (if comment_ok c then line_end True cs else Inl Invalid)
      else if is_ws c then line_end False cs
      else if c = CHR ''#'' then line_end True cs
      else Inl Invalid)"

text \<open>Blanks, newlines and comments between the elements of an array.\<close>

fun skip_wscnl :: "bool \<Rightarrow> string \<Rightarrow> perr + string" where
  "skip_wscnl _ [] = Inr []"
| "skip_wscnl cmt (c # cs) =
     (if c = LF then skip_wscnl False cs
      else if c = CR then (case cs of d # r \<Rightarrow> if d = LF then skip_wscnl False r else Inl Invalid
                                    | [] \<Rightarrow> Inl Invalid)
      else if cmt then (if comment_ok c then skip_wscnl True cs else Inl Invalid)
      else if is_ws c then skip_wscnl False cs
      else if c = CHR ''#'' then skip_wscnl True cs
      else Inr (c # cs))"

subsection \<open>Strings\<close>

text \<open>The one-character escapes of a basic string.\<close>

definition simple_escape :: "char \<Rightarrow> char option" where
  "simple_escape e =
     (if e = CHR ''b'' then Some (CHR 0x08)
      else if e = CHR ''t'' then Some TAB
      else if e = CHR ''n'' then Some LF
      else if e = CHR ''f'' then Some (CHR 0x0C)
      else if e = CHR ''r'' then Some CR
      else if e = DQ then Some DQ
      else if e = BSL then Some BSL
      else None)"

text \<open>
  An escape sequence, after its backslash.  \<open>\uXXXX\<close> and \<open>\UXXXXXXXX\<close> must
  name a Unicode scalar value and stand for its UTF-8 encoding.
\<close>

definition unescape :: "string \<Rightarrow> string lexed" where
  "unescape s =
     (case s of
        [] \<Rightarrow> Inl Invalid
      | e # r \<Rightarrow>
          (case simple_escape e of
             Some x \<Rightarrow> Inr ([x], r)
           | None \<Rightarrow>
               if e = CHR ''u'' \<or> e = CHR ''U'' then
                 (let k = (if e = CHR ''u'' then 4 else 8); ds = take k r in
                  if length ds = k \<and> list_all is_hex_digit ds \<and> is_scalar (radix_val 16 0 ds)
                  then Inr (utf8_encode (radix_val 16 0 ds), drop k r)
                  else Inl Invalid)
               else if e = CHR ''e'' \<or> e = CHR ''x'' then Inl Unsupported
               else Inl Invalid))"

lemma unescape_length: "unescape s = Inr (bs, r) \<Longrightarrow> length r < length s"
  by (cases s) (auto simp: unescape_def Let_def split: option.splits if_splits)

text \<open>
  The body of a basic string after its opening quote, with the characters read
  so far reversed in \<open>acc\<close>.
\<close>

function basic_chars :: "string \<Rightarrow> string \<Rightarrow> string lexed" where
  "basic_chars acc [] = Inl Invalid"
| "basic_chars acc (c # cs) =
     (if c = DQ then Inr (rev acc, cs)
      else if c = BSL then
        (case unescape cs of
           Inl e \<Rightarrow> Inl e
         | Inr (bs, r) \<Rightarrow> basic_chars (rev bs @ acc) r)
      else if basic_unescaped c then basic_chars (c # acc) cs
      else Inl Invalid)"
  by pat_completeness auto
termination
  by (relation "measure (\<lambda>(acc, s). length s)") (auto dest: unescape_length)

fun literal_chars :: "string \<Rightarrow> string \<Rightarrow> string lexed" where
  "literal_chars acc [] = Inl Invalid"
| "literal_chars acc (c # cs) =
     (if c = SQ then Inr (rev acc, cs)
      else if literal_ok c then literal_chars (c # acc) cs
      else Inl Invalid)"

text \<open>After the opening quote: three quotes open a multi-line string.\<close>

definition basic_string :: "string \<Rightarrow> string lexed" where
  "basic_string r = (if take 2 r = [DQ, DQ] then Inl Unsupported else basic_chars [] r)"

definition literal_string :: "string \<Rightarrow> string lexed" where
  "literal_string r = (if take 2 r = [SQ, SQ] then Inl Unsupported else literal_chars [] r)"

subsection \<open>Keys\<close>

text \<open>
  A simple key is bare (ASCII letters, digits, \<open>_\<close>, \<open>-\<close>) or quoted.  A key
  followed by a dot is a dotted key, outside the fragment.  The rest returned
  has the blanks after the key removed.
\<close>

definition simple_key :: "string \<Rightarrow> string lexed" where
  "simple_key s =
     (case s of
        [] \<Rightarrow> Inl Invalid
      | c # r \<Rightarrow>
          if c = DQ then basic_string r
          else if c = SQ then literal_string r
          else if bare_key_char c then Inr (takeWhile bare_key_char s, dropWhile bare_key_char s)
          else if 128 \<le> byte c then Inl Unsupported
          else Inl Invalid)"

definition key :: "string \<Rightarrow> string lexed" where
  "key s =
     (case simple_key s of
        Inl e \<Rightarrow> Inl e
      | Inr (k, r) \<Rightarrow>
          (case skip_ws r of
             d # _ \<Rightarrow> if d = CHR ''.'' then Inl Unsupported else Inr (k, skip_ws r)
           | [] \<Rightarrow> Inr (k, [])))"

subsection \<open>Printing basic strings\<close>

text \<open>
  The inverse of the basic-string lexer, used to state round trips: every
  character is written as itself, except the quote, the backslash and the
  controls, which are written with their short escapes or as \<open>\u00XX\<close>.
\<close>

definition esc_char :: "char \<Rightarrow> string" where
  "esc_char c =
     (if c = DQ then [BSL, DQ]
      else if c = BSL then [BSL, BSL]
      else if c = CHR 0x08 then [BSL, CHR ''b'']
      else if c = TAB then [BSL, CHR ''t'']
      else if c = LF then [BSL, CHR ''n'']
      else if c = CHR 0x0C then [BSL, CHR ''f'']
      else if c = CR then [BSL, CHR ''r'']
      else if byte c < 32 \<or> byte c = 127 then
        [BSL, CHR ''u'', CHR ''0'', CHR ''0'', hex_digit (byte c div 16), hex_digit (byte c mod 16)]
      else [c])"

definition toml_escape :: "string \<Rightarrow> string" where
  "toml_escape s = concat (map esc_char s)"

subsection \<open>Lexers consume their input\<close>

lemma skip_ws_length [simp]: "length (skip_ws s) \<le> length s"
  by (induction s) auto

lemma skip_wscnl_length: "skip_wscnl b s = Inr r \<Longrightarrow> length r \<le> length s"
proof (induction b s rule: skip_wscnl.induct)
  case (1 uu)
  then show ?case by simp
next
  case (2 cmt c cs)
  consider "c = LF" | "c = CR" | "c \<noteq> LF" "c \<noteq> CR" by blast
  then show ?case
  proof cases
    case 1
    with 2 have "skip_wscnl False cs = Inr r" by simp
    with 1 2 show ?thesis by simp
  next
    case 2
    then have "c \<noteq> LF" by simp
    with 2 "2.prems" obtain x where "cs = LF # x" "skip_wscnl False x = Inr r"
      by (auto split: list.splits if_splits)
    with "2.IH"(2) 2 show ?thesis by simp
  next
    case 3
    with "2.prems" "2.IH"(3-5) show ?thesis by (auto split: if_splits)
  qed
qed

lemma line_end_length: "line_end b s = Inr r \<Longrightarrow> s \<noteq> [] \<Longrightarrow> length r < length s"
proof (induction b s rule: line_end.induct)
  case (1 uu)
  then show ?case by simp
next
  case (2 cmt c cs)
  consider "c = LF" | "c = CR" | "c \<noteq> LF" "c \<noteq> CR" by blast
  then show ?case
  proof cases
    case 1
    with 2 show ?thesis by simp
  next
    case 2
    then have "c \<noteq> LF" by simp
    with 2 "2.prems" obtain x where "cs = LF # x" "r = x"
      by (auto split: list.splits if_splits)
    then show ?thesis by simp
  next
    case 3
    show ?thesis
    proof (cases cs)
      case Nil
      with 3 "2.prems" show ?thesis by (auto split: if_splits)
    next
      case (Cons d ds)
      with 3 "2.prems" "2.IH" show ?thesis by (auto split: if_splits)
    qed
  qed
qed

lemma basic_chars_length: "basic_chars acc s = Inr (v, r) \<Longrightarrow> length r < length s"
proof (induction acc s rule: basic_chars.induct)
  case (1 acc)
  then show ?case by simp
next
  case (2 acc c cs)
  consider "c = DQ" | "c \<noteq> DQ" "c = BSL" | "c \<noteq> DQ" "c \<noteq> BSL" by blast
  then show ?case
  proof cases
    case 1
    with "2.prems" show ?thesis by simp
  next
    case 2
    with "2.prems" obtain bs r0 where u: "unescape cs = Inr (bs, r0)"
      and b: "basic_chars (rev bs @ acc) r0 = Inr (v, r)"
      by (auto split: sum.splits prod.splits)
    from "2.IH"(1) [OF 2 u] b have "length r < length r0" by simp
    with unescape_length [OF u] show ?thesis by simp
  next
    case 3
    with "2.prems" "2.IH"(2) show ?thesis by (auto split: if_splits)
  qed
qed

lemma literal_chars_length: "literal_chars acc s = Inr (v, r) \<Longrightarrow> length r < length s"
  by (induction acc s rule: literal_chars.induct) (auto split: if_splits)

lemma basic_string_length: "basic_string s = Inr (v, r) \<Longrightarrow> length r < length s"
  by (auto simp: basic_string_def split: if_splits dest: basic_chars_length)

lemma literal_string_length: "literal_string s = Inr (v, r) \<Longrightarrow> length r < length s"
  by (auto simp: literal_string_def split: if_splits dest: literal_chars_length)

lemma length_dropWhile_less_Suc [simp]: "length (dropWhile P cs) < Suc (length cs)"
  by (simp add: le_imp_less_Suc length_dropWhile_le)

lemma simple_key_length: "simple_key s = Inr (k, r) \<Longrightarrow> length r < length s"
  by (auto simp: simple_key_def split: list.splits if_splits dest!: basic_string_length literal_string_length)

lemma key_length: "key s = Inr (k, r) \<Longrightarrow> length r < length s"
proof -
  assume a: "key s = Inr (k, r)"
  then obtain r0 where sk: "simple_key s = Inr (k, r0)" and r: "r = skip_ws r0"
    by (auto simp: key_def split: sum.splits list.splits if_splits)
  have "length r0 < length s" using simple_key_length [OF sk] .
  then show ?thesis unfolding r by (meson le_less_trans skip_ws_length)
qed

subsection \<open>The basic-string lexer reads back what the printer writes\<close>

lemma hex_digit_props: "n < 16 \<Longrightarrow> is_hex_digit (hex_digit n) \<and> digit_val (hex_digit n) = n"
  by (auto simp: hex_digit_def is_hex_digit_def is_digit_def in_range_def digit_val_def)

lemma unescape_u00:
  assumes "byte c < 128"
  shows "unescape (CHR ''u'' # CHR ''0'' # CHR ''0'' # hex_digit (byte c div 16) # hex_digit (byte c mod 16) # r)
         = Inr ([c], r)"
proof -
  have h1: "is_hex_digit (hex_digit (byte c div 16))" "digit_val (hex_digit (byte c div 16)) = byte c div 16"
    using hex_digit_props [of "byte c div 16"] assms by simp_all
  have h2: "is_hex_digit (hex_digit (byte c mod 16))" "digit_val (hex_digit (byte c mod 16)) = byte c mod 16"
    using hex_digit_props [of "byte c mod 16"] by simp_all
  have v: "radix_val 16 0 [CHR ''0'', CHR ''0'', hex_digit (byte c div 16), hex_digit (byte c mod 16)] = byte c"
    using h1 h2 by (simp add: digit_val_def is_digit_def in_range_def)
  have s: "is_scalar (byte c)" using assms by (simp add: is_scalar_def)
  have e: "utf8_encode (byte c) = [c]" using assms by (simp add: utf8_encode_def)
  show ?thesis using h1 h2 v s e
    by (simp add: unescape_def simple_escape_def Let_def is_hex_digit_def is_digit_def in_range_def)
qed

lemma basic_chars_esc_char: "basic_chars acc (esc_char c @ r) = basic_chars (c # acc) r"
proof -
  consider "c = DQ" | "c = BSL" | "c = CHR 0x08" | "c = TAB" | "c = LF" | "c = CHR 0x0C" | "c = CR"
    | "c \<notin> {DQ, BSL, CHR 0x08, TAB, LF, CHR 0x0C, CR}" "byte c < 32 \<or> byte c = 127"
    | "c \<notin> {DQ, BSL, CHR 0x08, TAB, LF, CHR 0x0C, CR}" "\<not> (byte c < 32 \<or> byte c = 127)"
    by blast
  then show ?thesis
  proof cases
    case 8
    then have "byte c < 128" by auto
    with 8 show ?thesis by (simp add: esc_char_def unescape_u00)
  next
    case 9
    have inj: "\<And>d. byte c = byte d \<Longrightarrow> c = d" by simp
    have "byte c \<noteq> 34" "byte c \<noteq> 92" using 9 inj [of DQ] inj [of BSL] by auto
    with 9 have "basic_unescaped c" by (auto simp: basic_unescaped_def)
    with 9 show ?thesis by (simp add: esc_char_def)
  qed (simp_all add: esc_char_def unescape_def simple_escape_def)
qed

lemma toml_escape_Cons [simp]: "toml_escape (c # s) = esc_char c @ toml_escape s"
  by (simp add: toml_escape_def)

lemma toml_escape_Nil [simp]: "toml_escape [] = []"
  by (simp add: toml_escape_def)

lemma basic_chars_toml_escape: "basic_chars acc (toml_escape s @ DQ # r) = Inr (rev acc @ s, r)"
  by (induction s arbitrary: acc) (simp_all add: basic_chars_esc_char)

lemma esc_char_hd: "\<exists>d ds. esc_char c = d # ds \<and> d \<noteq> DQ"
  by (simp add: esc_char_def)

lemma basic_string_toml_escape:
  "take 1 r \<noteq> [DQ] \<Longrightarrow> basic_string (toml_escape s @ DQ # r) = Inr (s, r)"
proof (cases s)
  case Nil
  assume "take 1 r \<noteq> [DQ]"
  then show ?thesis using Nil basic_chars_toml_escape [of "[]" s r]
    by (cases r) (simp_all add: basic_string_def)
next
  case (Cons c s')
  obtain d ds where "esc_char c = d # ds" "d \<noteq> DQ" using esc_char_hd by blast
  with Cons show ?thesis using basic_chars_toml_escape [of "[]" s r] by (simp add: basic_string_def)
qed

subsection \<open>Escaping keeps a string well-formed UTF-8\<close>

lemma high_not_escaped: "\<not> is_ascii c \<Longrightarrow> c \<notin> {DQ, BSL, CHR 0x08, TAB, LF, CHR 0x0C, CR}"
  by (auto simp: is_ascii_def)
lemma high_not_control: "\<not> is_ascii c \<Longrightarrow> \<not> (byte c < 32 \<or> byte c = 127)"
  by (auto simp: is_ascii_def)
lemma esc_char_high: "\<not> is_ascii c \<Longrightarrow> esc_char c = [c]"
  using high_not_escaped [of c] high_not_control [of c] unfolding esc_char_def by simp
lemma hex_digit_ascii: "n < 16 \<Longrightarrow> is_ascii (hex_digit n)"
  unfolding hex_digit_def is_ascii_def by simp

lemma esc_char_ascii: "is_ascii c \<Longrightarrow> list_all is_ascii (esc_char c)"
proof -
  assume a: "is_ascii c"
  then have "byte c div 16 < 16" by (simp add: is_ascii_def)
  then have "is_ascii (hex_digit (byte c div 16))" "is_ascii (hex_digit (byte c mod 16))"
    by (simp_all add: hex_digit_ascii)
  with a show ?thesis unfolding esc_char_def by (simp add: is_ascii_def)
qed

lemma toml_escape_high: "\<not> list_ex is_ascii cs \<Longrightarrow> toml_escape cs = cs"
  by (induction cs) (simp_all add: esc_char_high)

lemma cont_high: "list_all is_cont cs \<Longrightarrow> \<not> list_ex is_ascii cs"
  by (induction cs) (auto simp: is_cont_def in_range_def is_ascii_def)

lemma toml_escape_append: "toml_escape (xs @ ys) = toml_escape xs @ toml_escape ys"
  by (simp add: toml_escape_def)

lemma utf8_valid_toml_escape: "utf8_valid s \<Longrightarrow> utf8_valid (toml_escape s)"
proof (induction s rule: utf8_valid.induct)
  case 1
  then show ?case by simp
next
  case (2 c cs)
  then obtain n lo hi where l: "utf8_lead c = Some (n, lo, hi)" and sq: "seq_ok n lo hi cs"
    and v: "utf8_valid (drop n cs)" by (auto split: option.splits)
  with 2 have ih: "utf8_valid (toml_escape (drop n cs))" by simp
  show ?case
  proof (cases "is_ascii c")
    case True
    then have "n = 0" using l by (simp add: utf8_lead_ascii)
    with True ih show ?thesis
      by (simp add: utf8_valid_append utf8_valid_ascii esc_char_ascii)
  next
    case False
    have "toml_escape (take n cs) = take n cs"
      using sq by (simp add: seq_ok_def toml_escape_high cont_high)
    then have e: "toml_escape (c # cs) = c # take n cs @ toml_escape (drop n cs)"
      using False toml_escape_append [of "take n cs" "drop n cs"] by (simp add: esc_char_high)
    have "seq_ok n lo hi (take n cs)" using sq by (cases n; cases cs) (simp_all add: seq_ok_def)
    then have "seq_ok n lo hi (take n cs @ toml_escape (drop n cs))" by (rule seq_ok_append)
    moreover have "n \<le> length cs" using sq by (simp add: seq_ok_def)
    ultimately show ?thesis using e l ih by simp
  qed
qed

end
