(* ===== verification/TomlScalar.thy ===== *)
theory TomlScalar
  imports Toml
begin

text \<open>
  The values of the TOML reader other than arrays and inline tables: strings
  (basic, literal, and their multi-line forms), integers in the four bases
  TOML has, floats and booleans.  Dates and times are outside the fragment
  (\<open>Unsupported\<close>).  An integer beyond \<open>i64\<close>, the range of
  \<open>toml::Value::Integer\<close>, is an error, as TOML 1.0 requires of an integer
  that cannot be represented losslessly.  A float is accepted when its
  magnitude is below \<open>10\<^sup>3\<^sup>0\<^sup>8\<close>, hence finite as an \<open>f64\<close>; larger literals are
  outside the fragment.  A multi-line string containing a CR LF line break
  is outside the fragment too (whether the crate normalizes it is not
  modelled).
\<close>

subsection \<open>Characters of tokens\<close>

definition token_char :: "char \<Rightarrow> bool" where
  "token_char c \<longleftrightarrow> is_alpha c \<or> is_digit c \<or> c = CHR ''_'' \<or> c = CHR ''+'' \<or> c = CHR ''-''
     \<or> c = CHR ''.'' \<or> c = CHR '':''"

definition is_oct_digit :: "char \<Rightarrow> bool" where
  "is_oct_digit c \<longleftrightarrow> in_range 48 55 c"

definition is_bin_digit :: "char \<Rightarrow> bool" where
  "is_bin_digit c \<longleftrightarrow> in_range 48 49 c"

declare is_oct_digit_def [byte_class] is_bin_digit_def [byte_class]

subsection \<open>Multi-line strings\<close>

text \<open>Blanks and line breaks skipped after a line-ending backslash.\<close>

fun skip_wsnl :: "string \<Rightarrow> string" where
  "skip_wsnl [] = []"
| "skip_wsnl (c # cs) =
     (if is_ws c \<or> c = LF then skip_wsnl cs
      else if c = CR \<and> take 1 cs = [LF] then skip_wsnl (drop 1 cs)
      else c # cs)"

text \<open>
  The newline right after the opening delimiter is not part of the string.
\<close>

definition ml_start :: "string \<Rightarrow> string" where
  "ml_start s =
     (case s of
        c # r \<Rightarrow> if c = LF then r else if c = CR \<and> take 1 r = [LF] then drop 1 r else s
      | [] \<Rightarrow> [])"

lemma skip_wsnl_length: "length (skip_wsnl s) \<le> length s"
  by (induction s rule: skip_wsnl.induct) auto

lemma ml_start_length: "length (ml_start s) \<le> length s"
  by (auto simp: ml_start_def split: list.split)

lemma ml_call: "skip_ws cs = d # r \<Longrightarrow> length (skip_wsnl (d # r)) < Suc (length cs)"
  using skip_ws_length [of cs] skip_wsnl_length [of "d # r"] by simp

text \<open>
  The body of a multi-line string after the opening delimiter, with the
  characters read so far reversed in \<open>acc\<close>; \<open>esc\<close> is set for a basic string
  (delimiter \<open>q = "\<close>, escapes), unset for a literal one (\<open>q = '\<close>).  One or
  two delimiter characters are content; a run of three to five closes the
  string, the ones before the last three being content.
\<close>

function ml_chars :: "bool \<Rightarrow> char \<Rightarrow> string \<Rightarrow> string \<Rightarrow> string lexed" where
  "ml_chars esc q acc [] = Inl Invalid"
| "ml_chars esc q acc (c # cs) =
     (if c = q then
        (let n = length (takeWhile (\<lambda>x. x = q) (c # cs)) in
         if n < 3 then ml_chars esc q (replicate n q @ acc) (drop n (c # cs))
         else Inr (rev (replicate (min n 5 - 3) q @ acc), drop (min n 5) (c # cs)))
      else if esc \<and> c = BSL then
        (case skip_ws cs of
           d # r \<Rightarrow>
             if d = LF \<or> (d = CR \<and> take 1 r = [LF]) then ml_chars esc q acc (skip_wsnl (d # r))
             else (case unescape cs of Inl e \<Rightarrow> Inl e | Inr (bs, r') \<Rightarrow> ml_chars esc q (rev bs @ acc) r')
         | [] \<Rightarrow> Inl Invalid)
      else if c = LF then ml_chars esc q (LF # acc) cs
      else if c = CR then (if take 1 cs = [LF] then Inl Unsupported else Inl Invalid)
      else if (if esc then basic_unescaped c else literal_ok c) then ml_chars esc q (c # acc) cs
      else Inl Invalid)"
  by pat_completeness auto
termination
  by (relation "measure (\<lambda>(esc, q, acc, s). length s)") (auto dest: unescape_length ml_call)

text \<open>A string value, after its first quote character.\<close>

definition string_value :: "char \<Rightarrow> string \<Rightarrow> string lexed" where
  "string_value q r =
     (if take 2 r = [q, q] then ml_chars (q = DQ) q [] (ml_start (drop 2 r))
      else if q = DQ then basic_chars [] r else literal_chars [] r)"

subsection \<open>Numbers\<close>

text \<open>
  Digits of a class with single underscores between them, as TOML writes a
  number (\<open>1_000\<close>, \<open>0xdead_beef\<close>).
\<close>

fun sep_digits :: "(char \<Rightarrow> bool) \<Rightarrow> string \<Rightarrow> bool" where
  "sep_digits P [] = False"
| "sep_digits P [c] = P c"
| "sep_digits P (c # d # r) = (P c \<and> (if d = CHR ''_'' then sep_digits P r else sep_digits P (d # r)))"

definition strip_sign :: "string \<Rightarrow> int \<times> string" where
  "strip_sign t =
     (case t of
        c # u \<Rightarrow> if c = CHR ''+'' then (1, u) else if c = CHR ''-'' then (-1, u) else (1, t)
      | [] \<Rightarrow> (1, t))"

text \<open>Decimal digits without a leading zero.\<close>

definition unsigned_dec :: "string \<Rightarrow> bool" where
  "unsigned_dec u \<longleftrightarrow> sep_digits is_digit u \<and> (u = ''0'' \<or> hd u \<noteq> CHR ''0'')"

definition dec_int :: "string \<Rightarrow> int option" where
  "dec_int t =
     (let (sg, u) = strip_sign t
      in if unsigned_dec u then Some (sg * int (radix_val 10 0 (filter is_digit u))) else None)"

text \<open>\<open>0x\<close>, \<open>0o\<close> and \<open>0b\<close> integers: no sign, leading zeros allowed.\<close>

definition prefixed_int :: "string \<Rightarrow> int option" where
  "prefixed_int t =
     (case t of
        c # b # u \<Rightarrow>
          if c \<noteq> CHR ''0'' then None
          else if b = CHR ''x'' \<and> sep_digits is_hex_digit u then Some (int (radix_val 16 0 (filter is_hex_digit u)))
          else if b = CHR ''o'' \<and> sep_digits is_oct_digit u then Some (int (radix_val 8 0 (filter is_digit u)))
          else if b = CHR ''b'' \<and> sep_digits is_bin_digit u then Some (int (radix_val 2 0 (filter is_digit u)))
          else None
      | _ \<Rightarrow> None)"

definition in_i64 :: "int \<Rightarrow> bool" where
  "in_i64 v \<longleftrightarrow> - (2 ^ 63) \<le> v \<and> v < 2 ^ 63"

text \<open>
  A finite float literal: a decimal integer part, then a fraction, an
  exponent or both.  The result is the number of digits of the integer part
  and the exponent, which bound the magnitude of the value.
\<close>

definition exp_value :: "string \<Rightarrow> int option" where
  "exp_value x =
     (let (sg, u) = strip_sign x in
      if sep_digits is_digit u then Some (sg * int (radix_val 10 0 (filter is_digit u))) else None)"

definition not_exp :: "char \<Rightarrow> bool" where
  "not_exp c \<longleftrightarrow> c \<noteq> CHR ''e'' \<and> c \<noteq> CHR ''E''"

definition float_parts :: "string \<Rightarrow> (nat \<times> int) option" where
  "float_parts t =
     (let u = snd (strip_sign t);
          ip = takeWhile (\<lambda>c. c \<noteq> CHR ''.'' \<and> not_exp c) u;
          rest = dropWhile (\<lambda>c. c \<noteq> CHR ''.'' \<and> not_exp c) u
      in if \<not> unsigned_dec ip then None
         else case rest of
           [] \<Rightarrow> None
         | d # r \<Rightarrow>
             if d = CHR ''.'' then
               (if \<not> sep_digits is_digit (takeWhile not_exp r) then None
                else case dropWhile not_exp r of
                       [] \<Rightarrow> Some (length ip, 0)
                     | _ # x \<Rightarrow> map_option (Pair (length ip)) (exp_value x))
             else map_option (Pair (length ip)) (exp_value r))"

definition special_float :: "string \<Rightarrow> bool" where
  "special_float t \<longleftrightarrow> snd (strip_sign t) \<in> {''inf'', ''nan''}"

text \<open>
  The shapes a date or time starts with (\<open>1979-05-27\<close>, \<open>07:32:00\<close>).
\<close>

definition date_like :: "string \<Rightarrow> bool" where
  "date_like t \<longleftrightarrow>
     (list_all is_digit (take 4 t) \<and> take 1 (drop 4 t) = ''-'' \<and> 4 \<le> length t) \<or>
     (list_all is_digit (take 2 t) \<and> take 1 (drop 2 t) = '':'' \<and> 2 \<le> length t)"

text \<open>A token that starts like a number.\<close>

definition number :: "string \<Rightarrow> perr + tvalue" where
  "number t =
     (case dec_int t of
        Some v \<Rightarrow> if in_i64 v then Inr (TInteger v) else Inl Invalid
      | None \<Rightarrow>
          (case prefixed_int t of
             Some v \<Rightarrow> if in_i64 v then Inr (TInteger v) else Inl Invalid
           | None \<Rightarrow>
               if special_float t then Inr (TFloat t)
               else case float_parts t of
                      Some (n, e) \<Rightarrow> if int n + e \<le> 308 then Inr (TFloat t) else Inl Unsupported
                    | None \<Rightarrow> if date_like t then Inl Unsupported else Inl Invalid))"

definition has_prefix :: "string \<Rightarrow> string \<Rightarrow> bool" where
  "has_prefix p s \<longleftrightarrow> take (length p) s = p"

subsection \<open>Scalars\<close>

text \<open>
  A value other than an array or an inline table (those are outside the
  fragment inside an array).
\<close>

definition scalar :: "string \<Rightarrow> tvalue lexed" where
  "scalar s =
     (case s of
        [] \<Rightarrow> Inl Invalid
      | c # r \<Rightarrow>
          if c = DQ \<or> c = SQ then (case string_value c r of Inl e \<Rightarrow> Inl e | Inr (v, r') \<Rightarrow> Inr (TString v, r'))
          else if c = CHR ''['' \<or> c = CHR ''{'' then Inl Unsupported
          else if has_prefix ''true'' s then Inr (TBoolean True, drop 4 s)
          else if has_prefix ''false'' s then Inr (TBoolean False, drop 5 s)
          else if is_digit c \<or> c = CHR ''+'' \<or> c = CHR ''-'' \<or> has_prefix ''inf'' s \<or> has_prefix ''nan'' s then
            (case number (takeWhile token_char s) of
               Inl e \<Rightarrow> Inl e
             | Inr v \<Rightarrow> Inr (v, dropWhile token_char s))
          else Inl Invalid)"

subsection \<open>The lexers consume their input\<close>

lemma ml_chars_length: "ml_chars esc q acc s = Inr (v, r) \<Longrightarrow> length r < length s"
proof (induction esc q acc s rule: ml_chars.induct)
  case (2 esc q acc c cs)
  show ?case
    using "2.prems" "2.IH" ml_call [of cs] unescape_length [of cs]
    by (auto simp: Let_def split: if_splits list.splits sum.splits prod.splits)
      (fastforce dest: unescape_length ml_call)+
qed simp

lemma string_value_length: "string_value q s = Inr (v, r) \<Longrightarrow> length r < length s"
proof -
  assume a: "string_value q s = Inr (v, r)"
  show ?thesis
  proof (cases "take 2 s = [q, q]")
    case True
    with a have "ml_chars (q = DQ) q [] (ml_start (drop 2 s)) = Inr (v, r)" by (simp add: string_value_def)
    from ml_chars_length [OF this] ml_start_length [of "drop 2 s"] show ?thesis by simp
  next
    case False
    with a show ?thesis
      by (auto simp: string_value_def split: if_splits dest: basic_chars_length literal_chars_length)
  qed
qed

lemma number_shape: "number t = Inr v \<Longrightarrow> (\<exists>i. v = TInteger i \<and> in_i64 i) \<or> (\<exists>f. v = TFloat f)"
  by (auto simp: number_def split: option.splits if_splits)

lemma scalar_length: "scalar s = Inr (v, r) \<Longrightarrow> length r < length s"
proof (cases s)
  case Nil
  assume "scalar s = Inr (v, r)"
  with Nil show ?thesis by (simp add: scalar_def)
next
  case (Cons c cs)
  assume a: "scalar s = Inr (v, r)"
  show ?thesis
  proof (cases "c = DQ \<or> c = SQ")
    case True
    with a Cons show ?thesis
      by (auto simp: scalar_def split: sum.splits prod.splits dest!: string_value_length)
  next
    case False
    have nt: "number (takeWhile token_char s) \<noteq> Inl Invalid \<Longrightarrow> token_char c"
      using Cons by (cases "token_char c") (auto simp: number_def dec_int_def strip_sign_def
        unsigned_dec_def prefixed_int_def special_float_def float_parts_def date_like_def)
    have "r = drop 4 s \<or> r = drop 5 s \<or> (r = dropWhile token_char s \<and> token_char c)"
      using False a Cons nt by (auto simp: scalar_def split: if_splits sum.splits)
    then show ?thesis using Cons by auto
  qed
qed

text \<open>The shape of a scalar: a string, a boolean, an \<open>i64\<close> integer or a float.\<close>

lemma scalar_cases:
  "scalar s = Inr (v, r) \<Longrightarrow>
   (\<exists>x. v = TString x) \<or> (\<exists>b. v = TBoolean b) \<or> (\<exists>i. v = TInteger i \<and> in_i64 i) \<or> (\<exists>f. v = TFloat f)"
  by (auto simp: scalar_def split: list.splits if_splits sum.splits prod.splits dest!: number_shape)

text \<open>A basic string printed by \<open>toml_escape\<close> is read back as a value.\<close>

lemma scalar_toml_escape:
  assumes "take 1 r \<noteq> [DQ]"
  shows "scalar (DQ # toml_escape s @ DQ # r) = Inr (TString s, r)"
proof -
  have "take 2 (toml_escape s @ DQ # r) \<noteq> [DQ, DQ]"
  proof (cases s)
    case Nil
    with assms show ?thesis by (cases r) auto
  next
    case (Cons c s')
    obtain d ds where "esc_char c = d # ds" "d \<noteq> DQ" using esc_char_hd by blast
    with Cons show ?thesis by simp
  qed
  then show ?thesis using basic_string_toml_escape [OF assms, of s]
    by (simp add: scalar_def string_value_def basic_string_def)
qed

text \<open>A literal string holds any text of literal characters, unescaped.\<close>

lemma literal_chars_roundtrip: "list_all literal_ok s \<Longrightarrow> literal_chars acc (s @ SQ # r) = Inr (rev acc @ s, r)"
  by (induction s arbitrary: acc) (auto simp: literal_ok_def)

lemma literal_take2: "list_all literal_ok s \<Longrightarrow> take 2 (s @ [SQ, LF]) \<noteq> [SQ, SQ]"
  by (cases s) (auto simp: literal_ok_def)

end
