(* ===== verification/TomlDoc.thy ===== *)
theory TomlDoc
  imports TomlScalar
begin

text \<open>
  The document level of the TOML reader: arrays, key/value pairs, table headers
  and the loop over the lines of a document, building the root table.  A
  document is read line by line; the state records the table the following
  key/value pairs belong to (\<open>None\<close> for the root table) and the root table
  itself, an association list in the order of the document.  Redefining a key
  in a table, or a table, is an error, as TOML 1.0 requires.  A dotted key
  \<open>a.b = v\<close> creates the nested table \<open>a = {b = v}\<close>; an inline table
  \<open>a = {b = v}\<close> is read by \<open>inline_items\<close>.
\<close>

subsection \<open>Arrays and values\<close>

text \<open>
  The elements of an array after its opening bracket: blanks, newlines and
  comments may surround each element, a trailing comma is allowed.
\<close>

function array_items :: "tvalue list \<Rightarrow> string \<Rightarrow> tvalue list lexed" where
  "array_items acc s =
     (case skip_wscnl False s of
        Inl e \<Rightarrow> Inl e
      | Inr s1 \<Rightarrow>
          (case s1 of
             [] \<Rightarrow> Inl Invalid
           | c # r \<Rightarrow>
               if c = CHR '']'' then Inr (rev acc, r)
               else
                 (case scalar s1 of
                    Inl e \<Rightarrow> Inl e
                  | Inr (v, s2) \<Rightarrow>
                      (case skip_wscnl False s2 of
                         Inl e \<Rightarrow> Inl e
                       | Inr s3 \<Rightarrow>
                           (case s3 of
                              [] \<Rightarrow> Inl Invalid
                            | d # r3 \<Rightarrow>
                                if d = CHR '','' then array_items (v # acc) r3
                                else if d = CHR '']'' then Inr (rev (v # acc), r3)
                                else Inl Invalid)))))"
  by pat_completeness auto
termination
  by (relation "measure (\<lambda>(acc, s). length s)") (auto dest!: skip_wscnl_length scalar_length)

lemma array_items_length: "array_items acc s = Inr (vs, r) \<Longrightarrow> length r < length s"
proof (induction "length s" arbitrary: acc s vs rule: less_induct)
  case less
  note eq = array_items.simps [of acc s]
  obtain s1 where k1: "skip_wscnl False s = Inr s1"
    using less.prems by (cases "skip_wscnl False s") (simp_all add: eq)
  obtain c r1 where c1: "s1 = c # r1"
    using less.prems k1 by (cases s1) (simp_all add: eq)
  show ?case
  proof (cases "c = CHR '']''")
    case True
    then show ?thesis using less.prems k1 c1 skip_wscnl_length [OF k1] by (simp add: eq)
  next
    case nb: False
    obtain v s2 where sc: "scalar s1 = Inr (v, s2)"
      using less.prems k1 c1 nb by (cases "scalar s1") (auto simp: eq)
    obtain s3 where k3: "skip_wscnl False s2 = Inr s3"
      using less.prems k1 c1 nb sc by (cases "skip_wscnl False s2") (auto simp: eq)
    obtain d r3 where c3: "s3 = d # r3"
      using less.prems k1 c1 nb sc k3 by (cases s3) (auto simp: eq)
    have l3: "length r3 < length s"
      using skip_wscnl_length [OF k1] scalar_length [OF sc] skip_wscnl_length [OF k3] c3 by simp
    have rest: "(if d = CHR '','' then array_items (v # acc) r3
                 else if d = CHR '']'' then Inr (rev (v # acc), r3) else Inl Invalid) = Inr (vs, r)"
      using less.prems k1 c1 nb sc k3 c3 by (simp add: eq)
    show ?thesis
    proof (cases "d = CHR '',''")
      case True
      with rest have "array_items (v # acc) r3 = Inr (vs, r)" by simp
      with less.hyps [OF l3] have "length r < length r3" by blast
      with l3 show ?thesis by simp
    next
      case False
      with rest l3 show ?thesis by (simp split: if_splits)
    qed
  qed
qed

declare array_items.simps [simp del]

lemma less_skip_ws: "n < length (skip_ws s) \<Longrightarrow> n < length s"
  using skip_ws_length [of s] by linarith

lemma dotted_key_call:
  assumes "simple_key s = Inr (k, r)" and "skip_ws r = d # r'"
  shows "length (skip_ws r') < length s"
proof -
  have "length (d # r') \<le> length r" using skip_ws_length [of r] assms(2) by simp
  then have "length r' < length s" using simple_key_length [OF assms(1)] by simp
  then show ?thesis by (rule le_less_trans [OF skip_ws_length])
qed

text \<open>
  A key, dotted or not: simple keys separated by dots, blanks allowed around
  the dots.  The rest returned has the blanks after the key removed.
\<close>

function dotted_key :: "string \<Rightarrow> string list lexed" where
  "dotted_key s =
     (case simple_key s of
        Inl e \<Rightarrow> Inl e
      | Inr (k, r) \<Rightarrow>
          (case skip_ws r of
             d # r' \<Rightarrow>
               if d = CHR ''.'' then
                 (case dotted_key (skip_ws r') of Inl e \<Rightarrow> Inl e | Inr (ks, r'') \<Rightarrow> Inr (k # ks, r''))
               else Inr ([k], d # r')
           | [] \<Rightarrow> Inr ([k], [])))"
  by pat_completeness auto
termination
  by (relation "measure length") (auto intro: dotted_key_call)

lemma dotted_key_length: "dotted_key s = Inr (ks, r) \<Longrightarrow> length r < length s"
proof (induction s arbitrary: ks r rule: dotted_key.induct)
  case (1 s)
  obtain k r0 where sk: "simple_key s = Inr (k, r0)"
    using "1.prems" by (cases "simple_key s") (auto simp: dotted_key.simps [of s])
  have l0: "length (skip_ws r0) < length s"
    using simple_key_length [OF sk] skip_ws_length [of r0] by linarith
  show ?case
  proof (cases "skip_ws r0")
    case Nil
    with "1.prems" sk l0 show ?thesis by (simp add: dotted_key.simps [of s])
  next
    case (Cons d r')
    show ?thesis
    proof (cases "d = CHR ''.''")
      case True
      with "1.prems" sk Cons obtain ks' where "dotted_key (skip_ws r') = Inr (ks', r)"
        by (auto simp: dotted_key.simps [of s] split: sum.splits)
      from less_skip_ws [OF "1.IH" [OF sk refl Cons True this]] l0 Cons show ?thesis by simp
    next
      case False
      with "1.prems" sk Cons l0 show ?thesis by (auto simp: dotted_key.simps [of s])
    qed
  qed
qed

lemma dotted_key_nonempty: "dotted_key s = Inr (ks, r) \<Longrightarrow> ks \<noteq> []"
  by (subst (asm) dotted_key.simps) (auto split: sum.splits list.splits if_splits)

declare dotted_key.simps [simp del]

text \<open>A value inside an inline table: a scalar or an array.\<close>

definition ivalue :: "string \<Rightarrow> tvalue lexed" where
  "ivalue s =
     (case s of
        c # r \<Rightarrow>
          if c = CHR ''['' then
            (case array_items [] r of Inl e \<Rightarrow> Inl e | Inr (vs, r') \<Rightarrow> Inr (TArray vs, r'))
          else scalar s
      | [] \<Rightarrow> Inl Invalid)"

lemma ivalue_length: "ivalue s = Inr (v, r) \<Longrightarrow> length r < length s"
  by (auto simp: ivalue_def split: list.splits if_splits sum.splits prod.splits
      dest!: array_items_length scalar_length)

lemma ivalue_skip_length: "ivalue (skip_ws s) = Inr (v, r) \<Longrightarrow> length r < length s"
  by (rule less_skip_ws, erule ivalue_length)

lemma inline_items_call:
  assumes sw: "skip_ws s = c # r" and dk: "dotted_key (c # r) = Inr (ks, d # r2)"
    and iv: "ivalue (skip_ws r2) = Inr (v, r3)" and sw3: "skip_ws r3 = e # r4"
  shows "length r4 < length s"
proof -
  have "length r < length s" using less_skip_ws [of "length r" s] sw by simp
  moreover have "length r2 < length r" using dotted_key_length [OF dk] by simp
  moreover have "length r3 < length r2" by (rule ivalue_skip_length [OF iv])
  moreover have "length r4 < length r3" using less_skip_ws [of "length r4" r3] sw3 by simp
  ultimately show ?thesis by simp
qed

text \<open>
  The pairs of an inline table after its opening brace, on one line: simple
  keys, no trailing comma; a key given twice is an error.  Dotted keys and
  inline tables nested in an inline table are outside the fragment.
\<close>

function inline_items :: "(string \<times> tvalue) list \<Rightarrow> string \<Rightarrow> (string \<times> tvalue) list lexed" where
  "inline_items acc s =
     (case skip_ws s of
        [] \<Rightarrow> Inl Invalid
      | c # r \<Rightarrow>
          if c = CHR ''}'' \<and> acc = [] then Inr ([], r)
          else
            (case dotted_key (c # r) of
               Inl e \<Rightarrow> Inl e
             | Inr (ks, r1) \<Rightarrow>
                 if length ks \<noteq> 1 then Inl Unsupported
                 else if map_of acc (hd ks) \<noteq> None then Inl Invalid
                 else
                   (case r1 of
                      d # r2 \<Rightarrow>
                        if d = CHR ''='' then
                          (case ivalue (skip_ws r2) of
                             Inl e \<Rightarrow> Inl e
                           | Inr (v, r3) \<Rightarrow>
                               (case skip_ws r3 of
                                  e # r4 \<Rightarrow>
                                    if e = CHR '','' then inline_items (acc @ [(hd ks, v)]) r4
                                    else if e = CHR ''}'' then Inr (acc @ [(hd ks, v)], r4)
                                    else Inl Invalid
                                | [] \<Rightarrow> Inl Invalid))
                        else Inl Invalid
                    | [] \<Rightarrow> Inl Invalid)))"
  by pat_completeness auto
termination
  by (relation "measure (\<lambda>(acc, s). length s)") (auto intro: inline_items_call)

lemma inline_items_length: "inline_items acc s = Inr (kvs, r) \<Longrightarrow> length r < length s"
proof (induction acc s arbitrary: kvs r rule: inline_items.induct)
  case (1 acc s)
  obtain c r0 where sw: "skip_ws s = c # r0"
    using "1.prems" by (auto simp: inline_items.simps [of acc s] split: list.splits)
  have lr: "length r0 < length s" using less_skip_ws [of "length r0" s] sw by simp
  show ?case
  proof (cases "c = CHR ''}'' \<and> acc = []")
    case True
    with "1.prems" sw lr show ?thesis by (simp add: inline_items.simps [of acc s])
  next
    case False
    with "1.prems" sw obtain ks d r2 v r3 e r4 where
      dk: "dotted_key (c # r0) = Inr (ks, d # r2)" and iv: "ivalue (skip_ws r2) = Inr (v, r3)" and
      sw3: "skip_ws r3 = e # r4" and
      tl: "(if e = CHR '','' then inline_items (acc @ [(hd ks, v)]) r4
            else if e = CHR ''}'' then Inr (acc @ [(hd ks, v)], r4) else Inl Invalid) = Inr (kvs, r)"
      and d: "d = CHR ''=''" and "length ks = 1" and "map_of acc (hd ks) = None"
      by (auto simp: inline_items.simps [of acc s] split: sum.splits list.splits if_splits)
    have l4: "length r4 < length s" by (rule inline_items_call [OF sw dk iv sw3])
    show ?thesis
    proof (cases "e = CHR '',''")
      case True
      with tl have inl: "inline_items (acc @ [(hd ks, v)]) r4 = Inr (kvs, r)" by simp
      have "length r < length r4"
        using "1.IH" [OF sw False dk refl _ _ refl d iv refl sw3 True inl] \<open>length ks = 1\<close>
          \<open>map_of acc (hd ks) = None\<close> by simp
      with l4 show ?thesis by simp
    next
      case False
      with tl l4 show ?thesis by (auto split: if_splits)
    qed
  qed
qed

declare inline_items.simps [simp del]

text \<open>A value: an inline table, an array or a scalar.\<close>

definition tvalue :: "string \<Rightarrow> tvalue lexed" where
  "tvalue s =
     (case s of
        c # r \<Rightarrow>
          if c = CHR ''{'' then
            (case inline_items [] r of Inl e \<Rightarrow> Inl e | Inr (kvs, r') \<Rightarrow> Inr (TTable kvs, r'))
          else ivalue s
      | [] \<Rightarrow> Inl Invalid)"

subsection \<open>Lines\<close>

text \<open>A key/value pair: a key, possibly dotted, \<open>=\<close>, blanks, a value.\<close>

definition keyval :: "string \<Rightarrow> (string list \<times> tvalue) lexed" where
  "keyval s =
     (case dotted_key s of
        Inl e \<Rightarrow> Inl e
      | Inr (ks, r) \<Rightarrow>
          (case r of
             d # r' \<Rightarrow>
               if d = CHR ''='' then
                 (case tvalue (skip_ws r') of Inl e \<Rightarrow> Inl e | Inr (v, r'') \<Rightarrow> Inr ((ks, v), r''))
               else Inl Invalid
           | [] \<Rightarrow> Inl Invalid))"

text \<open>
  A table header after its opening bracket.  A second bracket opens an array of
  tables, outside the fragment.
\<close>

definition header :: "string \<Rightarrow> string lexed" where
  "header s =
     (case s of
        d # _ \<Rightarrow>
          if d = CHR ''['' then Inl Unsupported
          else
            (case key (skip_ws s) of
               Inl e \<Rightarrow> Inl e
             | Inr (k, r) \<Rightarrow>
                 (case r of
                    b # r' \<Rightarrow> if b = CHR '']'' then Inr (k, r') else Inl Invalid
                  | [] \<Rightarrow> Inl Invalid))
      | [] \<Rightarrow> Inl Invalid)"

subsection \<open>Documents\<close>

record tstate =
  cur_table :: "string option"
  root :: "(string \<times> tvalue) list"

definition init_tstate :: tstate where
  "init_tstate = \<lparr>cur_table = None, root = []\<rparr>"

text \<open>\<open>[t]\<close>: a new table, which the following pairs fill.\<close>

definition add_table :: "string \<Rightarrow> tstate \<Rightarrow> perr + tstate" where
  "add_table t st =
     (if map_of (root st) t \<noteq> None then Inl Invalid
      else Inr \<lparr>cur_table = Some t, root = root st @ [(t, TTable [])]\<rparr>)"

text \<open>\<open>k = v\<close>: a new key of the current table.\<close>

definition add_pair :: "string \<Rightarrow> tvalue \<Rightarrow> tstate \<Rightarrow> perr + tstate" where
  "add_pair k v st =
     (case cur_table st of
        None \<Rightarrow>
          if map_of (root st) k \<noteq> None then Inl Invalid
          else Inr (st\<lparr>root := root st @ [(k, v)]\<rparr>)
      | Some t \<Rightarrow>
          (case map_of (root st) t of
             Some (TTable kvs) \<Rightarrow>
               if map_of kvs k \<noteq> None then Inl Invalid
               else Inr (st\<lparr>root := AList.update t (TTable (kvs @ [(k, v)])) (root st)\<rparr>)
           | _ \<Rightarrow> Inl Invalid))"

text \<open>
  The value a dotted key \<open>k1.k2. ... .kn = v\<close> gives its first part: tables
  nested down to \<open>v\<close>.
\<close>

fun nest :: "string list \<Rightarrow> tvalue \<Rightarrow> tvalue" where
  "nest [] v = v"
| "nest (k # ks) v = TTable [(k, nest ks v)]"

text \<open>Whether the current table already has a key.\<close>

definition has_key :: "string \<Rightarrow> tstate \<Rightarrow> bool" where
  "has_key k st =
     (case cur_table st of
        None \<Rightarrow> map_of (root st) k \<noteq> None
      | Some t \<Rightarrow> (case map_of (root st) t of Some (TTable kvs) \<Rightarrow> map_of kvs k \<noteq> None | _ \<Rightarrow> False))"

text \<open>
  A pair with a possibly dotted key.  A dotted key whose first part is new
  creates the nested tables.  One whose first part exists either extends a
  table that dotted keys created, or is an error; the fragment does not track
  which, so it is outside the fragment.
\<close>

fun add_kv :: "string list \<Rightarrow> tvalue \<Rightarrow> tstate \<Rightarrow> perr + tstate" where
  "add_kv [] v st = Inl Invalid"
| "add_kv [k] v st = add_pair k v st"
| "add_kv (k # ks) v st = (if has_key k st then Inl Unsupported else add_pair k (nest ks v) st)"

lemma line_end_le: "line_end b s = Inr r \<Longrightarrow> length r \<le> length s"
  using line_end_length [of b s r] by (cases s) auto

lemma header_length: "header s = Inr (t, r) \<Longrightarrow> length r < length s"
proof -
  assume a: "header s = Inr (t, r)"
  then obtain r0 where k: "key (skip_ws s) = Inr (t, r0)" and "length r < length r0"
    by (auto simp: header_def split: list.splits if_splits sum.splits prod.splits)
  with key_length [OF k] skip_ws_length [of s] show ?thesis by linarith
qed

lemma tvalue_length: "tvalue s = Inr (v, r) \<Longrightarrow> length r < length s"
  by (auto simp: tvalue_def split: list.splits if_splits sum.splits prod.splits
      dest!: inline_items_length ivalue_length)

lemma keyval_length: "keyval s = Inr (kv, r) \<Longrightarrow> length r < length s"
  by (auto simp: keyval_def split: list.splits if_splits sum.splits prod.splits
      dest!: dotted_key_length tvalue_length less_skip_ws)

text \<open>Each iteration of the loop consumes input:\<close>

lemma doc_loop_call_blank:
  "skip_ws s = c # r \<Longrightarrow> line_end b (c # r) = Inr r' \<Longrightarrow> length r' < length s"
  using skip_ws_length [of s] line_end_length [of b "c # r" r'] by simp

lemma doc_loop_call_header:
  "skip_ws s = c # r \<Longrightarrow> header r = Inr (t, y) \<Longrightarrow> line_end b y = Inr r' \<Longrightarrow> length r' < length s"
  using skip_ws_length [of s] header_length [of r t y] line_end_le [of b y r'] by simp

lemma doc_loop_call_pair:
  "skip_ws s = c # r \<Longrightarrow> keyval (c # r) = Inr (kv, y) \<Longrightarrow> line_end b y = Inr r' \<Longrightarrow>
   length r' < length s"
  using skip_ws_length [of s] keyval_length [of "c # r" kv y] line_end_le [of b y r'] by simp

text \<open>
  One iteration reads a line: a blank line, a comment, a header or a pair,
  each followed by the end of the line.
\<close>

function doc_loop :: "tstate \<Rightarrow> string \<Rightarrow> perr + tstate" where
  "doc_loop st s =
     (case skip_ws s of
        [] \<Rightarrow> Inr st
      | c # r \<Rightarrow>
          if c = LF \<or> c = CR \<or> c = CHR ''#'' then
            (case line_end False (c # r) of Inl e \<Rightarrow> Inl e | Inr r' \<Rightarrow> doc_loop st r')
          else if c = CHR ''['' then
            (case header r of
               Inl e \<Rightarrow> Inl e
             | Inr (t, r2) \<Rightarrow>
                 (case add_table t st of
                    Inl e \<Rightarrow> Inl e
                  | Inr st' \<Rightarrow> (case line_end False r2 of Inl e \<Rightarrow> Inl e | Inr r3 \<Rightarrow> doc_loop st' r3)))
          else
            (case keyval (c # r) of
               Inl e \<Rightarrow> Inl e
             | Inr ((ks, v), r2) \<Rightarrow>
                 (case add_kv ks v st of
                    Inl e \<Rightarrow> Inl e
                  | Inr st' \<Rightarrow> (case line_end False r2 of Inl e \<Rightarrow> Inl e | Inr r3 \<Rightarrow> doc_loop st' r3))))"
  by pat_completeness auto
termination
  by (relation "measure (\<lambda>(st, s). length s)")
    (auto simp del: line_end.simps intro: doc_loop_call_blank doc_loop_call_header doc_loop_call_pair)

declare doc_loop.simps [simp del]

text \<open>\<open>toml::from_str\<close> into a table: the root table of the document.\<close>

definition toml_parse :: "string \<Rightarrow> perr + (string \<times> tvalue) list" where
  "toml_parse s = (case doc_loop init_tstate s of Inl e \<Rightarrow> Inl e | Inr st \<Rightarrow> Inr (root st))"

text \<open>
  The document a configuration file holds when its only content is the
  \<open>[config]\<close> table with a \<open>path\<close> string, printed with \<open>toml_escape\<close>.
\<close>

definition config_doc :: "string \<Rightarrow> string" where
  "config_doc s = ''[config]'' @ [LF] @ ''path = '' @ [DQ] @ toml_escape s @ [DQ, LF]"

text \<open>The same table written with a dotted key, and as an inline table.\<close>

definition config_doc_dotted :: "string \<Rightarrow> string" where
  "config_doc_dotted s = ''config.path = '' @ [DQ] @ toml_escape s @ [DQ, LF]"

definition config_doc_inline :: "string \<Rightarrow> string" where
  "config_doc_inline s = ''config = { path = '' @ [DQ] @ toml_escape s @ [DQ] @ '' }'' @ [LF]"

text \<open>The \<open>[config]\<close> table with the path as a literal string, unescaped.\<close>

definition config_doc_literal :: "string \<Rightarrow> string" where
  "config_doc_literal s = ''[config]'' @ [LF] @ ''path = '' @ [SQ] @ s @ [SQ, LF]"

text \<open>
  The toml crate rejects a document that defines a key twice; the invariant of
  the reader's state: the keys of the root table are distinct, and so are the
  keys of each table in it.
\<close>

fun table_ok :: "tvalue \<Rightarrow> bool" where
  "table_ok (TTable kvs) = (distinct (map fst kvs) \<and> list_all (\<lambda>kv. table_ok (snd kv)) kvs)"
| "table_ok (TArray vs) = list_all table_ok vs"
| "table_ok _ = True"

definition keys_distinct :: "(string \<times> tvalue) list \<Rightarrow> bool" where
  "keys_distinct tbl \<longleftrightarrow> table_ok (TTable tbl)"

definition tstate_ok :: "tstate \<Rightarrow> bool" where
  "tstate_ok st \<longleftrightarrow> keys_distinct (root st)"

subsection \<open>Round trip of a configuration document\<close>

lemma header_config: "header (''config]'' @ r) = Inr (''config'', r)"
  by (simp add: header_def key_def simple_key_def bare_key_char_def byte_class is_ws_def)

lemma basic_value_toml_escape:
  "take 1 r \<noteq> [DQ] \<Longrightarrow> tvalue ([DQ] @ toml_escape s @ [DQ] @ r) = Inr (TString s, r)"
  by (simp add: tvalue_def ivalue_def scalar_toml_escape)

lemma keyval_path_value:
  "tvalue (c # x) = Inr (v, [LF]) \<Longrightarrow> \<not> is_ws c \<Longrightarrow> keyval (''path = '' @ c # x) = Inr (([''path''], v), [LF])"
  by (simp add: keyval_def dotted_key.simps simple_key_def bare_key_char_def byte_class is_ws_def)

lemma keyval_path:
  "keyval (''path = '' @ [DQ] @ toml_escape s @ [DQ, LF]) = Inr (([''path''], TString s), [LF])"
  using keyval_path_value [of DQ "toml_escape s @ [DQ, LF]"] basic_value_toml_escape [where s = s and r = "[LF]"]
  by (simp add: is_ws_def)

lemma keyval_dotted_path:
  "keyval (''config.path = '' @ [DQ] @ toml_escape s @ [DQ, LF]) =
     Inr (([''config'', ''path''], TString s), [LF])"
  using basic_value_toml_escape [where s = s and r = "[LF]"]
  by (simp add: keyval_def dotted_key.simps simple_key_def bare_key_char_def byte_class is_ws_def)

lemma inline_items_path:
  "inline_items [] ('' path = '' @ [DQ] @ toml_escape s @ [DQ] @ '' }'' @ r) = Inr ([(''path'', TString s)], r)"
proof -
  have "ivalue ([DQ] @ toml_escape s @ [DQ] @ '' }'' @ r) = Inr (TString s, '' }'' @ r)"
    using scalar_toml_escape [of "'' }'' @ r" s] by (simp add: ivalue_def)
  then show ?thesis
    by (subst inline_items.simps)
      (simp add: dotted_key.simps simple_key_def bare_key_char_def byte_class is_ws_def)
qed

lemma keyval_inline_path:
  "keyval (''config = { path = '' @ [DQ] @ toml_escape s @ [DQ] @ '' }'' @ [LF]) =
     Inr (([''config''], TTable [(''path'', TString s)]), [LF])"
  using inline_items_path [of s "[LF]"]
  by (simp add: keyval_def tvalue_def dotted_key.simps simple_key_def bare_key_char_def byte_class is_ws_def)

lemma doc_loop_end: "doc_loop st [] = Inr st"
  by (simp add: doc_loop.simps)

text \<open>
  A document holding one line with a key/value pair at the root, read from
  the initial state.
\<close>

lemma doc_loop_one_pair:
  assumes "keyval (c # r) = Inr ((ks, v), [LF])" and "c \<notin> {LF, CR, CHR ''#'', CHR ''['', CHR '' '', TAB}"
    and "add_kv ks v init_tstate = Inr st"
  shows "doc_loop init_tstate (c # r) = Inr st"
  using assms by (subst doc_loop.simps) (simp add: is_ws_def doc_loop_end)

text \<open>A \<open>[config]\<close> table holding one \<open>path\<close>, whatever the form of its value.\<close>

lemma toml_parse_config_table:
  assumes v: "keyval (''path = '' @ y) = Inr (([''path''], v), [LF])"
  shows "toml_parse (''[config]'' @ [LF] @ ''path = '' @ y) = Inr [(''config'', TTable [(''path'', v)])]"
proof -
  let ?st1 = "\<lparr>cur_table = Some ''config'', root = [(''config'', TTable [])]\<rparr>"
  let ?st2 = "\<lparr>cur_table = Some ''config'', root = [(''config'', TTable [(''path'', v)])]\<rparr>"
  have l2: "doc_loop ?st1 (''path = '' @ y) = Inr ?st2"
  proof -
    have "add_pair ''path'' v ?st1 = Inr ?st2" by (simp add: add_pair_def)
    then show ?thesis using v doc_loop_end [of ?st2]
      by (subst doc_loop.simps) (simp add: is_ws_def)
  qed
  have l1: "doc_loop init_tstate (''[config]'' @ [LF] @ ''path = '' @ y) = Inr ?st2"
  proof -
    have "add_table ''config'' init_tstate = Inr ?st1" by (simp add: add_table_def init_tstate_def)
    moreover have "line_end False (LF # ''path = '' @ y) = Inr (''path = '' @ y)" by simp
    ultimately show ?thesis using header_config [of "LF # ''path = '' @ y"] l2
      by (subst doc_loop.simps) (simp add: is_ws_def)
  qed
  then show ?thesis by (simp add: toml_parse_def)
qed

lemma toml_parse_config_doc:
  "toml_parse (config_doc s) = Inr [(''config'', TTable [(''path'', TString s)])]"
  using toml_parse_config_table [OF keyval_path] unfolding config_doc_def by simp

lemma toml_parse_config_doc_dotted:
  "toml_parse (config_doc_dotted s) = Inr [(''config'', TTable [(''path'', TString s)])]"
proof -
  have "add_kv [''config'', ''path''] (TString s) init_tstate =
          Inr \<lparr>cur_table = None, root = [(''config'', TTable [(''path'', TString s)])]\<rparr>"
    by (simp add: add_pair_def has_key_def init_tstate_def)
  then have "doc_loop init_tstate (config_doc_dotted s) =
               Inr \<lparr>cur_table = None, root = [(''config'', TTable [(''path'', TString s)])]\<rparr>"
    unfolding config_doc_dotted_def append_Cons
    by (rule doc_loop_one_pair [rotated 2]) (simp_all add: is_ws_def keyval_dotted_path [simplified])
  then show ?thesis by (simp add: toml_parse_def)
qed

lemma toml_parse_config_doc_inline:
  "toml_parse (config_doc_inline s) = Inr [(''config'', TTable [(''path'', TString s)])]"
proof -
  have "add_kv [''config''] (TTable [(''path'', TString s)]) init_tstate =
          Inr \<lparr>cur_table = None, root = [(''config'', TTable [(''path'', TString s)])]\<rparr>"
    by (simp add: add_pair_def init_tstate_def)
  then have "doc_loop init_tstate (config_doc_inline s) =
               Inr \<lparr>cur_table = None, root = [(''config'', TTable [(''path'', TString s)])]\<rparr>"
    unfolding config_doc_inline_def append_Cons
    by (rule doc_loop_one_pair [rotated 2]) (simp_all add: is_ws_def keyval_inline_path [simplified])
  then show ?thesis by (simp add: toml_parse_def)
qed

subsection \<open>Tables never hold a key twice\<close>

lemma list_all_update: "P (k, v) \<Longrightarrow> list_all P al \<Longrightarrow> list_all P (AList.update k v al)"
  by (induction al) auto

lemma distinct_snoc_fresh: "distinct (map fst al) \<Longrightarrow> map_of al k = None \<Longrightarrow> distinct (map fst (al @ [(k, v)]))"
  by (auto simp: map_of_eq_None_iff)

lemma table_ok_snoc:
  "table_ok (TTable kvs) \<Longrightarrow> map_of kvs k = None \<Longrightarrow> table_ok v \<Longrightarrow> table_ok (TTable (kvs @ [(k, v)]))"
  by (simp add: map_of_eq_None_iff)

lemma add_table_ok: "add_table t st = Inr st' \<Longrightarrow> tstate_ok st \<Longrightarrow> tstate_ok st'"
  by (auto simp: add_table_def tstate_ok_def keys_distinct_def distinct_snoc_fresh split: if_splits)

lemma map_of_list_all: "map_of al k = Some v \<Longrightarrow> list_all P al \<Longrightarrow> P (k, v)"
  by (induction al) (auto split: if_splits)

lemma scalar_not_table: "scalar s = Inr (v, r) \<Longrightarrow> table_ok v"
  using scalar_cases [of s v r] by auto

lemma array_items_ok:
  "array_items acc s = Inr (vs, r) \<Longrightarrow> list_all table_ok acc \<Longrightarrow> list_all table_ok vs"
proof (induction acc s arbitrary: vs r rule: array_items.induct)
  case (1 acc s)
  show ?case
    using "1.prems" "1.IH"
    by (auto simp: array_items.simps [of acc s] split: sum.splits list.splits if_splits prod.splits
        dest: scalar_not_table) (fastforce dest: scalar_not_table)
qed

lemma ivalue_ok: "ivalue s = Inr (v, r) \<Longrightarrow> table_ok v"
  unfolding ivalue_def
  by (cases s) (auto split: sum.splits prod.splits if_splits dest: scalar_not_table array_items_ok)

lemma inline_items_ok:
  "inline_items acc s = Inr (kvs, r) \<Longrightarrow> table_ok (TTable acc) \<Longrightarrow> table_ok (TTable kvs)"
proof (induction acc s arbitrary: kvs r rule: inline_items.induct)
  case (1 acc s)
  show ?case
    using "1.prems" "1.IH"
    by (auto simp: inline_items.simps [of acc s] simp del: table_ok.simps
        split: sum.splits list.splits if_splits prod.splits
        dest: ivalue_ok intro: table_ok_snoc) (fastforce dest: ivalue_ok intro: table_ok_snoc)+
qed

lemma tvalue_ok: "tvalue s = Inr (v, r) \<Longrightarrow> table_ok v"
  unfolding tvalue_def
  by (cases s) (auto split: sum.splits prod.splits if_splits dest: ivalue_ok inline_items_ok)

lemma keyval_ok: "keyval s = Inr ((ks, v), r) \<Longrightarrow> table_ok v"
  by (auto simp: keyval_def split: sum.splits list.splits if_splits prod.splits dest: tvalue_ok)

lemma add_pair_ok: "add_pair k v st = Inr st' \<Longrightarrow> tstate_ok st \<Longrightarrow> table_ok v \<Longrightarrow> tstate_ok st'"
proof -
  assume a: "add_pair k v st = Inr st'" and ok: "tstate_ok st" and v: "table_ok v"
  show ?thesis
  proof (cases "cur_table st")
    case None
    with a ok v show ?thesis
      by (auto simp: add_pair_def tstate_ok_def keys_distinct_def distinct_snoc_fresh split: if_splits)
  next
    case (Some t)
    with a obtain kvs where t: "map_of (root st) t = Some (TTable kvs)" and k: "map_of kvs k = None"
      and st': "st' = st\<lparr>root := AList.update t (TTable (kvs @ [(k, v)])) (root st)\<rparr>"
      by (auto simp: add_pair_def split: option.splits tvalue.splits if_splits)
    have "table_ok (TTable kvs)"
      using map_of_list_all [OF t, of "\<lambda>kv. table_ok (snd kv)"] ok by (simp add: tstate_ok_def keys_distinct_def)
    then have "table_ok (TTable (kvs @ [(k, v)]))" by (rule table_ok_snoc [OF _ k v])
    with ok st' show ?thesis
      by (auto simp: tstate_ok_def keys_distinct_def distinct_update intro!: list_all_update)
  qed
qed

lemma nest_ok: "table_ok v \<Longrightarrow> table_ok (nest ks v)"
  by (induction ks) auto

lemma add_kv_ok: "add_kv ks v st = Inr st' \<Longrightarrow> tstate_ok st \<Longrightarrow> table_ok v \<Longrightarrow> tstate_ok st'"
  by (induction ks v st rule: add_kv.induct) (auto simp del: nest.simps split: if_splits intro: add_pair_ok nest_ok)

text \<open>
  An invariant of the reader state that adding a table and adding a pair read
  by \<open>keyval\<close> keep holds after the whole document.
\<close>

lemma doc_loop_preserves:
  assumes tab: "\<And>t st st'. add_table t st = Inr st' \<Longrightarrow> I st \<Longrightarrow> I st'"
    and kv: "\<And>x ks v y st st'. keyval x = Inr ((ks, v), y) \<Longrightarrow> add_kv ks v st = Inr st' \<Longrightarrow> I st \<Longrightarrow> I st'"
  shows "doc_loop st s = Inr st' \<Longrightarrow> I st \<Longrightarrow> I st'"
proof (induction st s rule: doc_loop.induct)
  case (1 st s)
  note IH = "1.IH" and d = "1.prems"(1) and ok = "1.prems"(2)
  show ?case
  proof (cases "skip_ws s")
    case Nil
    with d ok show ?thesis by (simp add: doc_loop.simps [of st s])
  next
    case (Cons c r)
    consider (blank) "c = LF \<or> c = CR \<or> c = CHR ''#''"
      | (hdr) "\<not> (c = LF \<or> c = CR \<or> c = CHR ''#'')" "c = CHR ''[''"
      | (pair) "\<not> (c = LF \<or> c = CR \<or> c = CHR ''#'')" "c \<noteq> CHR ''[''" by blast
    then show ?thesis
    proof cases
      case blank
      with d Cons obtain b where "line_end False (c # r) = Inr b" "doc_loop st b = Inr st'"
        by (auto simp: doc_loop.simps [of st s] simp del: line_end.simps split: sum.splits)
      from IH(1) [OF Cons blank this ok] show ?thesis .
    next
      case hdr
      with d Cons obtain t y st1 b where h: "header r = Inr (t, y)" and a: "add_table t st = Inr st1"
        and l: "line_end False y = Inr b" and n: "doc_loop st1 b = Inr st'"
        by (auto simp: doc_loop.simps [of st s] simp del: line_end.simps split: sum.splits prod.splits)
      from IH(2) [OF Cons hdr h refl a l n tab [OF a ok]] show ?thesis .
    next
      case pair
      with d Cons obtain ks v y st1 b where h: "keyval (c # r) = Inr ((ks, v), y)" and a: "add_kv ks v st = Inr st1"
        and l: "line_end False y = Inr b" and n: "doc_loop st1 b = Inr st'"
        by (auto simp: doc_loop.simps [of st s] simp del: line_end.simps split: sum.splits prod.splits)
      from IH(3) [OF Cons pair h refl refl a l n kv [OF h a ok]] show ?thesis .
    qed
  qed
qed

lemma doc_loop_ok: "doc_loop st s = Inr st' \<Longrightarrow> tstate_ok st \<Longrightarrow> tstate_ok st'"
  by (rule doc_loop_preserves [where I = tstate_ok]) (blast intro: add_table_ok add_kv_ok keyval_ok)+

text \<open>
  Every table the reader returns has distinct keys, and so has each table in
  it, at any depth: a duplicate key or table is an error, never an overwrite.
\<close>

lemma toml_parse_keys_distinct: "toml_parse s = Inr tbl \<Longrightarrow> keys_distinct tbl"
  using doc_loop_ok [of init_tstate s]
  by (auto simp: toml_parse_def tstate_ok_def keys_distinct_def init_tstate_def split: sum.splits)

lemma toml_parse_config_doc_literal:
  assumes "list_all literal_ok s"
  shows "toml_parse (config_doc_literal s) = Inr [(''config'', TTable [(''path'', TString s)])]"
proof -
  have "tvalue (SQ # s @ [SQ, LF]) = Inr (TString s, [LF])"
    using literal_chars_roundtrip [OF assms, of "[]" "[LF]"] literal_take2 [OF assms]
    by (simp add: tvalue_def ivalue_def scalar_def string_value_def)
  from keyval_path_value [OF this] have "keyval (''path = '' @ SQ # s @ [SQ, LF]) = Inr (([''path''], TString s), [LF])"
    by (simp add: is_ws_def)
  from toml_parse_config_table [OF this] show ?thesis unfolding config_doc_literal_def by simp
qed

end
