(* ===== verification/TomlTypes.thy ===== *)
theory TomlTypes
  imports TomlDoc "HOL-Library.Word"
begin

text \<open>
  The types of the values the reader returns.  The toml crate's \<open>Value\<close>
  holds an integer as an \<open>i64\<close>; the model keeps integers as \<open>int\<close> and the
  reader rejects those out of range (\<open>in_i64\<close>).  \<open>value_ok\<close> is the typing
  predicate: each integer is the two's-complement reading of its 64-bit
  word, and arrays and tables are typed element by element.
\<close>

fun value_ok :: "tvalue \<Rightarrow> bool" where
  "value_ok (TString s) = True"
| "value_ok (TInteger i) = (sint (word_of_int i :: 64 word) = i)"
| "value_ok (TFloat f) = True"
| "value_ok (TBoolean b) = True"
| "value_ok (TArray vs) = list_all value_ok vs"
| "value_ok (TTable kvs) = list_all (\<lambda>kv. value_ok (snd kv)) kvs"

definition root_typed :: "tstate \<Rightarrow> bool" where
  "root_typed st \<longleftrightarrow> list_all (\<lambda>kv. value_ok (snd kv)) (root st)"

lemma in_i64_sint: "in_i64 i \<longleftrightarrow> sint (word_of_int i :: 64 word) = i"
  by (simp add: sint_sbintrunc' signed_take_bit_int_eq_self_iff in_i64_def)

lemma scalar_value_ok: "scalar s = Inr (v, r) \<Longrightarrow> value_ok v"
  using scalar_cases [of s v r] by (auto simp: in_i64_sint)

lemma array_items_typed:
  "array_items acc s = Inr (vs, r) \<Longrightarrow> list_all value_ok acc \<Longrightarrow> list_all value_ok vs"
proof (induction acc s arbitrary: vs r rule: array_items.induct)
  case (1 acc s)
  show ?case
    using "1.prems" "1.IH"
    by (auto simp: array_items.simps [of acc s] split: sum.splits list.splits if_splits prod.splits
        dest: scalar_value_ok) (fastforce dest: scalar_value_ok)
qed

lemma ivalue_typed: "ivalue s = Inr (v, r) \<Longrightarrow> value_ok v"
  unfolding ivalue_def
  by (cases s) (auto split: sum.splits prod.splits if_splits dest: scalar_value_ok array_items_typed)

lemma inline_items_typed:
  "inline_items acc s = Inr (kvs, r) \<Longrightarrow> value_ok (TTable acc) \<Longrightarrow> value_ok (TTable kvs)"
proof (induction acc s arbitrary: kvs r rule: inline_items.induct)
  case (1 acc s)
  show ?case
    using "1.prems" "1.IH"
    by (auto simp: inline_items.simps [of acc s] split: sum.splits list.splits if_splits prod.splits
        dest: ivalue_typed) (fastforce dest: ivalue_typed)+
qed

lemma tvalue_typed: "tvalue s = Inr (v, r) \<Longrightarrow> value_ok v"
  unfolding tvalue_def
  by (cases s) (auto split: sum.splits prod.splits if_splits dest: ivalue_typed inline_items_typed)

lemma keyval_typed: "keyval x = Inr ((ks, v), y) \<Longrightarrow> value_ok v"
  by (auto simp: keyval_def split: sum.splits list.splits if_splits prod.splits dest: tvalue_typed)

lemma add_table_typed: "add_table t st = Inr st' \<Longrightarrow> root_typed st \<Longrightarrow> root_typed st'"
  by (auto simp: add_table_def root_typed_def split: if_splits)

lemma add_pair_typed:
  assumes a: "add_pair k v st = Inr st'" and ok: "root_typed st" and v: "value_ok v"
  shows "root_typed st'"
proof (cases "cur_table st")
  case None
  with a ok v show ?thesis by (auto simp: add_pair_def root_typed_def split: if_splits)
next
  case (Some t)
  with a obtain kvs where t: "map_of (root st) t = Some (TTable kvs)"
    and st': "st' = st\<lparr>root := AList.update t (TTable (kvs @ [(k, v)])) (root st)\<rparr>"
    by (auto simp: add_pair_def split: option.splits tvalue.splits if_splits)
  have "value_ok (TTable kvs)"
    using map_of_list_all [OF t, of "\<lambda>kv. value_ok (snd kv)"] ok by (simp add: root_typed_def)
  with v have "value_ok (TTable (kvs @ [(k, v)]))" by simp
  with ok st' show ?thesis
    by (simp add: root_typed_def list_all_update)
qed

lemma add_kv_typed: "add_kv ks v st = Inr st' \<Longrightarrow> root_typed st \<Longrightarrow> value_ok v \<Longrightarrow> root_typed st'"
proof (induction ks v st rule: add_kv.induct)
  case (3 k k' ks v st)
  have "value_ok (nest (k' # ks) v)" using "3.prems"(3) by (induction ks arbitrary: k') auto
  with "3.prems" show ?case by (auto split: if_splits intro: add_pair_typed simp del: nest.simps)
qed (auto intro: add_pair_typed)

lemma doc_loop_typed: "doc_loop st s = Inr st' \<Longrightarrow> root_typed st \<Longrightarrow> root_typed st'"
  by (rule doc_loop_preserves [where I = root_typed]) (blast intro: add_table_typed add_kv_typed keyval_typed)+

text \<open>
  Every value in a table the reader returns is typed, at any depth.
\<close>

lemma toml_parse_typed:
  "toml_parse s = Inr tbl \<Longrightarrow> list_all (\<lambda>kv. value_ok (snd kv)) tbl"
  using doc_loop_typed [of init_tstate s]
  by (auto simp: toml_parse_def root_typed_def init_tstate_def split: sum.splits)


end
