(* ===== verification/Config.thy ===== *)
theory Config
  imports Sys TomlTypes
begin

text \<open>
  The configuration bootstrap of \<open>src/src/main.rs\<close> (lines 9--65): the typed
  configuration (\<open>Data\<close>, \<open>Config\<close>), the default of its \<open>path\<close> field
  (\<open>default_config\<close>), its deserialisation from the TOML document (what
  \<open>#[derive(Deserialize)]\<close> generates for the two structs: a struct is read
  from a table or from an array), and
  \<open>check_initialization\<close>, which resolves the home directory, makes sure
  \<open>~/.dotflow.toml\<close> exists, reads it and parses it.  A call of
  \<open>std::process::exit\<close> ends the run: the model returns \<open>Exits code message\<close>
  with the line written to standard error.  Where the file holds TOML outside
  the modelled fragment, the outcome is \<open>Beyond\<close>: the model does not say.
\<close>

datatype 'a run = Exits int string | Returns 'a | Beyond

text \<open>Sequencing: an exit ends the run.\<close>

definition run_bind :: "'a run \<Rightarrow> ('a \<Rightarrow> 'b run) \<Rightarrow> 'b run" where
  "run_bind r f = (case r of Exits c m \<Rightarrow> Exits c m | Returns x \<Rightarrow> f x | Beyond \<Rightarrow> Beyond)"

subsection \<open>The configuration (lines 9--32)\<close>

record config =
  path :: string

record data =
  config :: config

text \<open>
  \<open>home_dir()\<close> followed by \<open>path.display().to_string()\<close> (lines 23--24 and
  35--36): the home directory as a string, each ill-formed UTF-8 sequence of
  it replaced by U+FFFD.
\<close>

definition home_path :: "world \<Rightarrow> string option" where
  "home_path w = map_option utf8_lossy (home_dir w)"

text \<open>\<open>default_config\<close> (lines 22--32): \<open><home>/.config\<close>, or exit.\<close>

definition default_config :: "world \<Rightarrow> string run" where
  "default_config w =
     (case home_path w of
        Some home \<Rightarrow> Returns (home @ ''/.config'')
      | None \<Rightarrow> Exits 1 ''Unable to get home dir.'')"

datatype de_error = MissingField string | InvalidType string

text \<open>
  The field \<open>path\<close> of \<open>Config\<close> (lines 17--19), as the derived visitors read
  it: when it is absent, \<open>default_config ()\<close> is called (and may exit); a
  string is the path; any other value is a type error.
\<close>

definition config_field :: "world \<Rightarrow> tvalue option \<Rightarrow> (de_error + config) run" where
  "config_field w v =
     (case v of
        None \<Rightarrow> run_bind (default_config w) (\<lambda>p. Returns (Inr \<lparr>path = p\<rparr>))
      | Some (TString p) \<Rightarrow> Returns (Inr \<lparr>path = p\<rparr>)
      | Some _ \<Rightarrow> Returns (Inl (InvalidType ''path'')))"

text \<open>
  The derived \<open>Deserialize\<close> of \<open>Config\<close> (lines 16--20), applied to the value
  of \<open>config\<close>.  A table is read by \<open>visit_map\<close>: the value of key \<open>path\<close>,
  other keys ignored.  An array is read by \<open>visit_seq\<close>: its first element is
  \<open>path\<close>, and the empty array takes the default.  What follows an array of
  two or more elements depends on the toml version (0.5 rejects the trailing
  elements, later versions ignore them), so that case is \<open>Beyond\<close>.  Any
  other value is a type error.
\<close>

definition deserialize_config :: "world \<Rightarrow> tvalue \<Rightarrow> (de_error + config) run" where
  "deserialize_config w v =
     (case v of
        TTable kvs \<Rightarrow> config_field w (map_of kvs ''path'')
      | TArray vs \<Rightarrow>
          (case vs of
             [] \<Rightarrow> config_field w None
           | [x] \<Rightarrow> config_field w (Some x)
           | _ \<Rightarrow> Beyond)
      | _ \<Rightarrow> Returns (Inl (InvalidType ''config'')))"

text \<open>
  The derived \<open>Deserialize\<close> of \<open>Data\<close> (lines 10--13) on the document's
  table: field \<open>config\<close> is required, other keys are ignored.
\<close>

definition deserialize_data :: "world \<Rightarrow> (string \<times> tvalue) list \<Rightarrow> (de_error + data) run" where
  "deserialize_data w tbl =
     (case map_of tbl ''config'' of
        None \<Rightarrow> Returns (Inl (MissingField ''config''))
      | Some v \<Rightarrow>
          run_bind (deserialize_config w v)
            (\<lambda>r. case r of Inl e \<Rightarrow> Returns (Inl e) | Inr c \<Rightarrow> Returns (Inr \<lparr>config = c\<rparr>)))"

datatype toml_error = Syntax | De de_error

text \<open>\<open>toml::from_str::<Data>\<close>: parse the text, then deserialise the table.\<close>

definition toml_from_str :: "world \<Rightarrow> string \<Rightarrow> (toml_error + data) run" where
  "toml_from_str w s =
     (case toml_parse s of
        Inl Invalid \<Rightarrow> Returns (Inl Syntax)
      | Inl Unsupported \<Rightarrow> Beyond
      | Inr tbl \<Rightarrow>
          run_bind (deserialize_data w tbl)
            (\<lambda>r. case r of Inl e \<Rightarrow> Returns (Inl (De e)) | Inr d \<Rightarrow> Returns (Inr d)))"

subsection \<open>\<open>check_initialization\<close> (lines 34--65)\<close>

text \<open>Lines 35--41: the home directory, or exit.\<close>

definition resolve_home :: "world \<Rightarrow> string run" where
  "resolve_home w =
     (case home_path w of
        Some home \<Rightarrow> Returns home
      | None \<Rightarrow> Exits 1 ''Could not get home path'')"

text \<open>Line 43.\<close>

definition config_file_path :: "string \<Rightarrow> path" where
  "config_file_path home = home @ ''/.dotflow.toml''"

text \<open>Lines 44--46: create the file when it does not exist; the result is ignored.\<close>

definition ensure_config_file :: "path \<Rightarrow> world \<Rightarrow> world" where
  "ensure_config_file p w = (if \<not> path_exists p w then snd (file_create p w) else w)"

text \<open>Lines 48--54: the contents, or exit.\<close>

definition read_config :: "path \<Rightarrow> world \<Rightarrow> string run" where
  "read_config p w =
     (case read_to_string p w of
        Inr c \<Rightarrow> Returns c
      | Inl _ \<Rightarrow> Exits 1 (''Could not read file `'' @ p @ ''`''))"

text \<open>Lines 56--62: the typed configuration, or exit.\<close>

definition load_data :: "path \<Rightarrow> world \<Rightarrow> string \<Rightarrow> data run" where
  "load_data p w contents =
     run_bind (toml_from_str w contents)
       (\<lambda>r. case r of
              Inr d \<Rightarrow> Returns d
            | Inl _ \<Rightarrow> Exits 1 (''Unable to load data from `'' @ p @ ''`''))"

text \<open>
  The whole function: its result type is \<open>Result<Data, String>\<close>, but every
  failure exits, so \<open>Err\<close> is never returned (line 64 is its only return).
\<close>

definition check_initialization :: "world \<Rightarrow> (string + data) run \<times> world" where
  "check_initialization w =
     (case resolve_home w of
        Exits c m \<Rightarrow> (Exits c m, w)
      | Beyond \<Rightarrow> (Beyond, w)
      | Returns home \<Rightarrow>
          (let p = config_file_path home;
               w1 = ensure_config_file p w
           in (run_bind (read_config p w1)
                 (\<lambda>contents. run_bind (load_data p w1 contents) (\<lambda>d. Returns (Inr d))), w1)))"

subsection \<open>Example worlds\<close>

text \<open>
  Concrete worlds for the witnesses: a user \<open>alice\<close> with \<open>HOME=/home/alice\<close>,
  every path readable and writable, and either no configuration file or one with
  the given bytes.
\<close>

definition alice :: world where
  "alice = \<lparr>env_home = Some ''/home/alice'', pw_home = None, files = Map.empty,
            readable = (\<lambda>_. True), writable = (\<lambda>_. True)\<rparr>"

definition alice_with :: "bytes \<Rightarrow> world" where
  "alice_with c = alice\<lparr>files := [''/home/alice/.dotflow.toml'' \<mapsto> File c]\<rparr>"

definition homeless :: world where
  "homeless = alice\<lparr>env_home := None\<rparr>"

text \<open>
  A user whose home directory name is Latin-1, not UTF-8 (\<open>jos\<close> and the byte
  0xE9), with a configuration file in it.
\<close>

definition jose :: world where
  "jose = \<lparr>env_home = Some (''/home/jos'' @ [CHR 0xE9]), pw_home = None,
           files = [''/home/jos'' @ [CHR 0xE9] @ ''/.dotflow.toml'' \<mapsto> File (config_doc ''/dots'')],
           readable = (\<lambda>_. True), writable = (\<lambda>_. True)\<rparr>"

text \<open>
  What a successful deserialization read: the value of \<open>config\<close> is a table
  or an array of at most one element, and the path is the string found there
  or, when there is none, the default.
\<close>

definition config_source :: "string \<Rightarrow> (string \<times> tvalue) list \<Rightarrow> string \<Rightarrow> bool" where
  "config_source h tbl s \<longleftrightarrow>
     (\<exists>kvs. map_of tbl ''config'' = Some (TTable kvs) \<and>
        (map_of kvs ''path'' = Some (TString s) \<or> (map_of kvs ''path'' = None \<and> s = h @ ''/.config''))) \<or>
     map_of tbl ''config'' = Some (TArray [TString s]) \<or>
     (map_of tbl ''config'' = Some (TArray []) \<and> s = h @ ''/.config'')"

subsection \<open>Evaluation lemmas\<close>

lemma run_bind_simps [simp]:
  "run_bind (Exits c m) f = Exits c m"
  "run_bind (Returns x) f = f x"
  "run_bind Beyond f = Beyond"
  by (simp_all add: run_bind_def)

lemma resolve_home_not_Beyond: "resolve_home w \<noteq> Beyond"
  by (simp add: resolve_home_def split: option.splits)

lemma read_config_not_Beyond: "read_config p w \<noteq> Beyond"
  by (simp add: read_config_def split: sum.splits)

lemma check_initialization_no_home:
  "home_path w = None \<Longrightarrow> check_initialization w = (Exits 1 ''Could not get home path'', w)"
  by (simp add: check_initialization_def resolve_home_def)

lemma check_initialization_home:
  "home_path w = Some h \<Longrightarrow>
   check_initialization w =
     (run_bind (read_config (config_file_path h) (ensure_config_file (config_file_path h) w))
        (\<lambda>contents. run_bind (load_data (config_file_path h) (ensure_config_file (config_file_path h) w) contents)
                       (\<lambda>d. Returns (Inr d))),
      ensure_config_file (config_file_path h) w)"
  by (simp add: check_initialization_def resolve_home_def Let_def)

lemma home_path_file_create [simp]: "home_path (snd (file_create p w)) = home_path w"
  by (simp add: home_path_def home_dir_file_create)

lemma home_path_ensure [simp]: "home_path (ensure_config_file p w) = home_path w"
  by (simp add: ensure_config_file_def)

lemma ensure_config_file_idem [simp]:
  "ensure_config_file p (ensure_config_file p w) = ensure_config_file p w"
  by (auto simp: ensure_config_file_def path_exists_def file_create_def split: option.splits node.splits)

lemma ensure_config_file_exists: "path_exists p w \<Longrightarrow> ensure_config_file p w = w"
  by (simp add: ensure_config_file_def)

lemma ensure_config_file_absent:
  "files w p = None \<Longrightarrow>
   ensure_config_file p w = (if writable w p then w\<lparr>files := (files w)(p \<mapsto> File [])\<rparr> else w)"
  by (simp add: ensure_config_file_def path_exists_def file_create_def)

lemma toml_parse_empty: "toml_parse [] = Inr []"
  by (simp add: toml_parse_def doc_loop.simps init_tstate_def)

lemma read_to_string_exists: "read_to_string p w = Inr c \<Longrightarrow> path_exists p w"
  by (simp add: path_exists_def read_to_string_def split: option.splits)

lemma check_initialization_read:
  assumes "home_path w = Some h" and "read_to_string (config_file_path h) w = Inr c"
  shows "check_initialization w =
           (run_bind (load_data (config_file_path h) w c) (\<lambda>d. Returns (Inr d)), w)"
  using assms read_to_string_exists [OF assms(2)]
  by (simp add: check_initialization_home ensure_config_file_exists read_config_def)

lemma load_data_parsed:
  "toml_parse c = Inr tbl \<Longrightarrow>
   load_data p w c =
     run_bind (deserialize_data w tbl)
       (\<lambda>r. case r of Inr d \<Rightarrow> Returns d | Inl _ \<Rightarrow> Exits 1 (''Unable to load data from `'' @ p @ ''`''))"
  by (simp add: load_data_def toml_from_str_def run_bind_def split: run.splits sum.splits)

lemma run_bind_Inr_not_Inl: "run_bind r (\<lambda>x. run_bind (g x) (\<lambda>d. Returns (Inr d))) \<noteq> Returns (Inl e)"
  by (simp add: run_bind_def split: run.splits)

lemma load_data_not_home_exit: "load_data p w c \<noteq> Exits 1 ''Unable to get home dir.'' \<or> home_path w = None"
  by (auto simp: load_data_def toml_from_str_def deserialize_data_def deserialize_config_def config_field_def
      default_config_def run_bind_def split: run.splits sum.splits perr.splits option.splits tvalue.splits list.splits)

lemma lossy_alice: "utf8_lossy ''/home/alice'' = ''/home/alice''"
  by (rule utf8_lossy_ascii) (simp add: is_ascii_def)

lemma alice_simps [simp]:
  "home_path alice = Some ''/home/alice''"
  "home_path (alice_with c) = Some ''/home/alice''"
  "home_path homeless = None"
  "config_file_path ''/home/alice'' = ''/home/alice/.dotflow.toml''"
  by (simp_all add: alice_def alice_with_def homeless_def home_path_def home_dir_def config_file_path_def
      lossy_alice del: utf8_lossy.simps)

lemma read_alice_with:
  "utf8_valid c \<Longrightarrow> read_to_string ''/home/alice/.dotflow.toml'' (alice_with c) = Inr c"
  by (simp add: alice_with_def alice_def read_to_string_def)

lemma alice_config_section:
  "check_initialization (alice_with (''[config]'' @ [LF])) =
     (Returns (Inr \<lparr>config = \<lparr>path = ''/home/alice/.config''\<rparr>\<rparr>), alice_with (''[config]'' @ [LF]))"
proof -
  have r: "read_to_string (config_file_path ''/home/alice'') (alice_with (''[config]'' @ [LF])) =
      Inr (''[config]'' @ [LF])"
    by (simp add: read_alice_with) code_simp
  have p: "toml_parse (''[config]'' @ [LF]) = Inr [(''config'', TTable [])]" by code_simp
  show ?thesis using r p
    by (simp add: check_initialization_read load_data_parsed deserialize_data_def deserialize_config_def config_field_def
        default_config_def)
qed

lemma utf8_valid_escaped:
  "utf8_valid s \<Longrightarrow> list_all is_ascii a \<Longrightarrow> list_all is_ascii b \<Longrightarrow> utf8_valid (a @ toml_escape s @ b)"
  by (blast intro: utf8_valid_append utf8_valid_toml_escape utf8_valid_ascii)

lemma utf8_valid_config_doc: "utf8_valid s \<Longrightarrow> utf8_valid (config_doc s)"
  using utf8_valid_escaped [of s "''[config]'' @ [LF] @ ''path = '' @ [DQ]" "[DQ, LF]"]
  unfolding config_doc_def by (simp add: is_ascii_def)

lemma utf8_valid_config_doc_dotted: "utf8_valid s \<Longrightarrow> utf8_valid (config_doc_dotted s)"
  using utf8_valid_escaped [of s "''config.path = '' @ [DQ]" "[DQ, LF]"]
  unfolding config_doc_dotted_def by (simp add: is_ascii_def)

lemma utf8_valid_config_doc_inline: "utf8_valid s \<Longrightarrow> utf8_valid (config_doc_inline s)"
  using utf8_valid_escaped [of s "''config = { path = '' @ [DQ]" "[DQ] @ '' }'' @ [LF]"]
  unfolding config_doc_inline_def by (simp add: is_ascii_def)

lemma utf8_valid_config_doc_literal: "utf8_valid s \<Longrightarrow> utf8_valid (config_doc_literal s)"
proof -
  assume u: "utf8_valid s"
  have a: "utf8_valid (''[config]'' @ [LF] @ ''path = '' @ [SQ])" "utf8_valid [SQ, LF]"
    by (simp_all add: utf8_lead_def seq_ok_def)
  show ?thesis unfolding config_doc_literal_def
    using utf8_valid_append [OF a(1) utf8_valid_append [OF u a(2)]] by simp
qed

lemma run_bind_Returns_iff: "run_bind r f = Returns y \<longleftrightarrow> (\<exists>x. r = Returns x \<and> f x = Returns y)"
  by (simp add: run_bind_def split: run.splits)

lemma config_field_Returns:
  "config_field w v = Returns (Inr c) \<Longrightarrow> home_path w = Some h \<Longrightarrow>
   v = Some (TString (path c)) \<or> (v = None \<and> path c = h @ ''/.config'')"
  by (auto simp: config_field_def default_config_def run_bind_Returns_iff split: option.splits tvalue.splits)

lemma deserialize_data_Returns:
  assumes "deserialize_data w tbl = Returns (Inr d)" and "home_path w = Some h"
  shows "config_source h tbl (path (config d))"
proof -
  obtain v where v: "map_of tbl ''config'' = Some v"
    using assms(1) by (auto simp: deserialize_data_def split: option.splits)
  then obtain r where "deserialize_config w v = Returns r"
    and "(case r of Inl e \<Rightarrow> Returns (Inl e) | Inr c \<Rightarrow> Returns (Inr \<lparr>config = c\<rparr>)) = Returns (Inr d)"
    using assms(1) by (auto simp: deserialize_data_def run_bind_Returns_iff)
  then obtain c where dc: "deserialize_config w v = Returns (Inr c)" and d: "d = \<lparr>config = c\<rparr>"
    by (auto split: sum.splits)
  show ?thesis
  proof (cases v)
    case (TTable kvs)
    with dc assms(2) v d show ?thesis
      by (auto simp: deserialize_config_def config_source_def dest: config_field_Returns)
  next
    case (TArray vs)
    with dc assms(2) v d show ?thesis
      by (auto simp: deserialize_config_def config_source_def split: list.splits dest: config_field_Returns)
  qed (use dc in \<open>simp_all add: deserialize_config_def\<close>)
qed

lemma check_initialization_loaded:
  assumes "home_path w = Some h" and "read_to_string (config_file_path h) w = Inr c"
    and "fst (check_initialization w) = Returns (Inr d)"
  shows "\<exists>tbl. toml_parse c = Inr tbl \<and> deserialize_data w tbl = Returns (Inr d)"
proof -
  have ld: "load_data (config_file_path h) w c = Returns d"
    using assms by (simp add: check_initialization_read run_bind_Returns_iff)
  then obtain tbl where p: "toml_parse c = Inr tbl"
    by (cases "toml_parse c") (auto simp: load_data_def toml_from_str_def split: perr.splits)
  with ld have "deserialize_data w tbl = Returns (Inr d)"
    by (cases "deserialize_data w tbl")
      (auto simp: load_data_parsed run_bind_def split: sum.splits)
  with p show ?thesis by blast
qed

subsection \<open>Properties of the bootstrap\<close>

text \<open>
  C1 (first run). On a first run (home directory known, no \<open>~/.dotflow.toml\<close>, the path
  writable and readable) bootstrap creates the empty file and then exits with
  status 1 and \<open>Unable to load data from `~/.dotflow.toml`\<close>: the empty file has
  no \<open>[config]\<close> table.  The spec (scenario A) expects the default
  configuration instead.
\<close>

theorem first_run_exits:
  assumes "home_path w = Some h" and "files w (config_file_path h) = None"
    and "writable w (config_file_path h)" and "readable w (config_file_path h)"
  shows "check_initialization w =
           (Exits 1 (''Unable to load data from `'' @ config_file_path h @ ''`''),
            w\<lparr>files := (files w)(config_file_path h \<mapsto> File [])\<rparr>)"
  using assms
  by (simp add: check_initialization_home ensure_config_file_absent read_config_def read_to_string_def
      load_data_def toml_from_str_def toml_parse_empty deserialize_data_def)

theorem first_run_exits_witness:
  "check_initialization alice =
     (Exits 1 ''Unable to load data from `/home/alice/.dotflow.toml`'',
      alice\<lparr>files := [''/home/alice/.dotflow.toml'' \<mapsto> File []]\<rparr>)"
proof -
  have "files alice (config_file_path ''/home/alice'') = None"
    "writable alice (config_file_path ''/home/alice'')" "readable alice (config_file_path ''/home/alice'')"
    by (simp_all add: alice_def)
  from first_run_exits [OF alice_simps(1) this] show ?thesis by (simp add: alice_def)
qed

text \<open>
  C2 (idempotent bootstrap). Bootstrap is idempotent: running it again in the world it leaves gives the same
  outcome and the same world, for every world (property P3 of the spec, which asks
  it only for an existing valid file).
\<close>

theorem check_initialization_idempotent:
  "check_initialization (snd (check_initialization w)) = check_initialization w"
proof (cases "home_path w")
  case None
  then show ?thesis by (simp add: check_initialization_no_home)
next
  case (Some h)
  then have "home_path (snd (check_initialization w)) = Some h"
    by (simp add: check_initialization_home)
  with Some show ?thesis by (simp add: check_initialization_home)
qed

text \<open>
  C3 (default path). When the file parses and its \<open>[config]\<close> table has no \<open>path\<close>, the
  configuration is \<open><home>/.config\<close> and the world is unchanged (property P1).
\<close>

theorem default_path_synthesised:
  assumes "home_path w = Some h" and "read_to_string (config_file_path h) w = Inr c"
    and "toml_parse c = Inr tbl" and "map_of tbl ''config'' = Some (TTable kvs)"
    and "map_of kvs ''path'' = None"
  shows "check_initialization w = (Returns (Inr \<lparr>config = \<lparr>path = h @ ''/.config''\<rparr>\<rparr>), w)"
  using assms
  by (simp add: check_initialization_read load_data_parsed deserialize_data_def deserialize_config_def config_field_def
      default_config_def)

theorem default_path_synthesised_witness:
  "check_initialization (alice_with (''[config]'' @ [LF])) =
     (Returns (Inr \<lparr>config = \<lparr>path = ''/home/alice/.config''\<rparr>\<rparr>), alice_with (''[config]'' @ [LF]))"
proof -
  have r: "read_to_string (config_file_path ''/home/alice'') (alice_with (''[config]'' @ [LF])) =
      Inr (''[config]'' @ [LF])"
    by (simp add: read_alice_with) code_simp
  have p: "toml_parse (''[config]'' @ [LF]) = Inr [(''config'', TTable [])]" by code_simp
  from default_path_synthesised [OF alice_simps(2) r p] show ?thesis by simp
qed

text \<open>
  C4 (malformed file). A file that is not TOML makes bootstrap exit with status 1 and a message that
  names the file (property P5; scenario C).
\<close>

theorem malformed_config_exits:
  assumes "home_path w = Some h" and "read_to_string (config_file_path h) w = Inr c"
    and "toml_parse c = Inl Invalid"
  shows "check_initialization w = (Exits 1 (''Unable to load data from `'' @ config_file_path h @ ''`''), w)"
  using assms by (simp add: check_initialization_read load_data_def toml_from_str_def)

theorem malformed_config_exits_witness:
  "check_initialization (alice_with ''not valid = [toml'') =
     (Exits 1 ''Unable to load data from `/home/alice/.dotflow.toml`'', alice_with ''not valid = [toml'')"
proof -
  have r: "read_to_string (config_file_path ''/home/alice'') (alice_with ''not valid = [toml'') =
      Inr ''not valid = [toml''"
    by (simp add: read_alice_with) code_simp
  have p: "toml_parse ''not valid = [toml'' = Inl Invalid" by code_simp
  from malformed_config_exits [OF alice_simps(2) r p] show ?thesis by simp
qed

text \<open>
  C5 (lazy creation). When the file is absent and its path writable, bootstrap leaves an empty file at
  \<open><home>/.dotflow.toml\<close>, whatever its outcome (property P4).
\<close>

theorem lazy_creation:
  assumes "home_path w = Some h" and "files w (config_file_path h) = None"
    and "writable w (config_file_path h)"
  shows "files (snd (check_initialization w)) (config_file_path h) = Some (File [])"
  using assms by (simp add: check_initialization_home ensure_config_file_absent)

theorem lazy_creation_witness:
  "files (snd (check_initialization alice)) ''/home/alice/.dotflow.toml'' = Some (File [])"
proof -
  have "files alice (config_file_path ''/home/alice'') = None" "writable alice (config_file_path ''/home/alice'')"
    by (simp_all add: alice_def)
  from lazy_creation [OF alice_simps(1) this] show ?thesis by simp
qed

text \<open>
  C6 (no home directory). Without a home directory bootstrap exits with status 1 and
  \<open>Could not get home path\<close> before touching any file (scenario D).
\<close>

theorem no_home_exits:
  "home_path w = None \<Longrightarrow> check_initialization w = (Exits 1 ''Could not get home path'', w)"
  by (simp add: check_initialization_def resolve_home_def)

theorem no_home_exits_witness:
  "check_initialization homeless = (Exits 1 ''Could not get home path'', homeless)"
  using no_home_exits [OF alice_simps(3)] .

text \<open>
  C7 (frame). The only change bootstrap makes to the file system is creating an empty
  \<open><home>/.dotflow.toml\<close> where there was none.
\<close>

theorem check_initialization_frame:
  assumes "files (snd (check_initialization w)) q \<noteq> files w q"
  shows "\<exists>h. home_path w = Some h \<and> q = config_file_path h \<and> files w q = None
              \<and> files (snd (check_initialization w)) q = Some (File [])"
proof (cases "home_path w")
  case None
  with assms show ?thesis by (simp add: check_initialization_no_home)
next
  case (Some h)
  with assms show ?thesis
    by (auto simp: check_initialization_home ensure_config_file_def path_exists_def file_create_def
             split: option.splits node.splits if_splits)
qed

theorem check_initialization_frame_witness:
  "files (snd (check_initialization alice)) ''/home/alice/.dotflow.toml'' \<noteq> files alice ''/home/alice/.dotflow.toml''
   \<and> files alice ''/home/alice/.dotflow.toml'' = None"
proof -
  have a: "files alice ''/home/alice/.dotflow.toml'' = None" "writable alice ''/home/alice/.dotflow.toml''"
    by (simp_all add: alice_def)
  then have d: "files (snd (check_initialization alice)) ''/home/alice/.dotflow.toml''
      \<noteq> files alice ''/home/alice/.dotflow.toml''"
    by (simp add: check_initialization_home ensure_config_file_absent)
  from check_initialization_frame [OF d] show ?thesis using d by auto
qed

text \<open>
  C8 (no Err). \<open>check_initialization\<close> never returns \<open>Err\<close>: every failure exits, so the
  \<open>Err\<close> arm of \<open>main\<close> (lines 87--90, \<open>Unable to initialize dotflow\<close>) is dead code.
\<close>

theorem check_initialization_never_err: "fst (check_initialization w) \<noteq> Returns (Inl e)"
proof (cases "home_path w")
  case None
  then show ?thesis by (simp add: check_initialization_no_home)
next
  case (Some h)
  then show ?thesis by (simp add: check_initialization_home run_bind_Inr_not_Inl)
qed

text \<open>
  C9 (default_config exit). The exit of \<open>default_config\<close> (\<open>Unable to get home dir.\<close>) never happens in a
  run: the home directory was resolved before, and the world has not changed it.
\<close>

theorem default_config_exit_unreachable:
  "fst (check_initialization w) \<noteq> Exits 1 ''Unable to get home dir.''"
proof (cases "home_path w")
  case None
  then show ?thesis by (simp add: check_initialization_no_home)
next
  case (Some h)
  let ?p = "config_file_path h" and ?w1 = "ensure_config_file (config_file_path h) w"
  have "home_path ?w1 = Some h" using Some by simp
  then have "load_data ?p ?w1 c \<noteq> Exits 1 ''Unable to get home dir.''" for c
    using load_data_not_home_exit [of ?p ?w1 c] by simp
  with Some show ?thesis
    by (auto simp: check_initialization_home read_config_def run_bind_def split: sum.splits run.splits)
qed

text \<open>
  C10 (configured path). A \<open>path\<close> string in the \<open>[config]\<close> table is the configured path (scenario B).
\<close>

theorem configured_path_loaded:
  assumes "home_path w = Some h" and "read_to_string (config_file_path h) w = Inr c"
    and "toml_parse c = Inr tbl" and "map_of tbl ''config'' = Some (TTable kvs)"
    and "map_of kvs ''path'' = Some (TString s)"
  shows "check_initialization w = (Returns (Inr \<lparr>config = \<lparr>path = s\<rparr>\<rparr>), w)"
  using assms
  by (simp add: check_initialization_read load_data_parsed deserialize_data_def deserialize_config_def config_field_def)

theorem configured_path_loaded_witness:
  "check_initialization (alice_with (''[config]'' @ [LF] @ ''path = '' @ [DQ] @ ''/opt/dotfiles'' @ [DQ])) =
     (Returns (Inr \<lparr>config = \<lparr>path = ''/opt/dotfiles''\<rparr>\<rparr>),
      alice_with (''[config]'' @ [LF] @ ''path = '' @ [DQ] @ ''/opt/dotfiles'' @ [DQ]))"
proof -
  let ?c = "''[config]'' @ [LF] @ ''path = '' @ [DQ] @ ''/opt/dotfiles'' @ [DQ]"
  have r: "read_to_string (config_file_path ''/home/alice'') (alice_with ?c) = Inr ?c"
    by (simp add: read_alice_with) code_simp
  have p: "toml_parse ?c = Inr [(''config'', TTable [(''path'', TString ''/opt/dotfiles'')])]" by code_simp
  from configured_path_loaded [OF alice_simps(2) r p] show ?thesis by simp
qed

text \<open>
  C11 (missing section). A file without a \<open>config\<close> table makes bootstrap exit with status 1.
\<close>

theorem missing_config_section_exits:
  assumes "home_path w = Some h" and "read_to_string (config_file_path h) w = Inr c"
    and "toml_parse c = Inr tbl" and "map_of tbl ''config'' = None"
  shows "check_initialization w = (Exits 1 (''Unable to load data from `'' @ config_file_path h @ ''`''), w)"
  using assms
  by (simp add: check_initialization_read load_data_parsed deserialize_data_def)

theorem missing_config_section_exits_witness:
  "check_initialization (alice_with (''[other]'' @ [LF])) =
     (Exits 1 ''Unable to load data from `/home/alice/.dotflow.toml`'', alice_with (''[other]'' @ [LF]))"
proof -
  have r: "read_to_string (config_file_path ''/home/alice'') (alice_with (''[other]'' @ [LF])) =
      Inr (''[other]'' @ [LF])"
    by (simp add: read_alice_with) code_simp
  have p: "toml_parse (''[other]'' @ [LF]) = Inr [(''other'', TTable [])]" by code_simp
  from missing_config_section_exits [OF alice_simps(2) r p] show ?thesis by simp
qed

text \<open>
  C12 (unreadable file). When the file cannot be read (absent after a failed creation, a directory,
  unreadable, not UTF-8) bootstrap exits with status 1 and
  \<open>Could not read file `<path>`\<close>.
\<close>

theorem unreadable_config_exits:
  assumes "home_path w = Some h"
    and "read_to_string (config_file_path h) (ensure_config_file (config_file_path h) w) = Inl e"
  shows "check_initialization w =
           (Exits 1 (''Could not read file `'' @ config_file_path h @ ''`''),
            ensure_config_file (config_file_path h) w)"
  using assms by (simp add: check_initialization_home read_config_def)

theorem unreadable_config_exits_witness:
  "fst (check_initialization (alice\<lparr>writable := (\<lambda>_. False)\<rparr>)) =
     Exits 1 ''Could not read file `/home/alice/.dotflow.toml`''"
proof -
  let ?w = "alice\<lparr>writable := (\<lambda>_. False)\<rparr>"
  have h: "home_path ?w = Some ''/home/alice''" by (simp add: alice_def home_path_def home_dir_def lossy_alice del: utf8_lossy.simps)
  have r: "read_to_string (config_file_path ''/home/alice'') (ensure_config_file (config_file_path ''/home/alice'') ?w)
      = Inl NotFound"
    by (simp add: ensure_config_file_def path_exists_def file_create_def alice_def read_to_string_def)
  from unreadable_config_exits [OF h r] show ?thesis by simp
qed

text \<open>
  C13 (first run fails). No first run succeeds: with a home directory and no configuration file,
  bootstrap always exits with status 1, whatever the permissions.
\<close>

theorem first_run_never_succeeds:
  assumes "home_path w = Some h" and "files w (config_file_path h) = None"
  shows "\<exists>m. fst (check_initialization w) = Exits 1 m"
  using assms
  by (auto simp: check_initialization_home ensure_config_file_absent read_config_def read_to_string_def
      load_data_def toml_from_str_def toml_parse_empty deserialize_data_def)

theorem first_run_never_succeeds_witness:
  "\<exists>m. fst (check_initialization (alice\<lparr>readable := (\<lambda>_. False)\<rparr>)) = Exits 1 m"
proof -
  let ?w = "alice\<lparr>readable := (\<lambda>_. False)\<rparr>"
  have h: "home_path ?w = Some ''/home/alice''" by (simp add: alice_def home_path_def home_dir_def lossy_alice del: utf8_lossy.simps)
  have f: "files ?w (config_file_path ''/home/alice'') = None" by (simp add: alice_def)
  from first_run_never_succeeds [OF h f] show ?thesis .
qed



text \<open>
  C18 (loaded configuration).  Whenever bootstrap succeeds, the file parsed,
  none of its tables defines a key twice, and the configured path comes from
  the value of \<open>config\<close> (\<open>config_source\<close>): it is the \<open>path\<close> string of
  the \<open>config\<close> table, or the one string of a one-element \<open>config\<close> array,
  or \<open><home>/.config\<close> when the table has no \<open>path\<close> or the array is empty.
\<close>

theorem loaded_config_from_file:
  assumes "home_path w = Some h" and "read_to_string (config_file_path h) w = Inr c"
    and "fst (check_initialization w) = Returns (Inr d)"
  shows "\<exists>tbl. toml_parse c = Inr tbl \<and> keys_distinct tbl \<and> config_source h tbl (path (config d))"
proof -
  obtain tbl where p: "toml_parse c = Inr tbl" and "deserialize_data w tbl = Returns (Inr d)"
    using check_initialization_loaded [OF assms] by blast
  with assms(1) show ?thesis
    using deserialize_data_Returns toml_parse_keys_distinct [OF p] by blast
qed

theorem loaded_config_from_file_witness:
  "toml_parse (''config = ['' @ [DQ] @ ''/opt/dots'' @ [DQ] @ '']'' @ [LF]) = Inr [(''config'', TArray [TString ''/opt/dots''])]
   \<and> keys_distinct [(''config'', TArray [TString ''/opt/dots''])]
   \<and> config_source ''/home/alice'' [(''config'', TArray [TString ''/opt/dots''])] ''/opt/dots''"
proof -
  let ?c = "''config = ['' @ [DQ] @ ''/opt/dots'' @ [DQ] @ '']'' @ [LF]"
  let ?t = "[(''config'', TArray [TString ''/opt/dots''])]"
  have r: "read_to_string (config_file_path ''/home/alice'') (alice_with ?c) = Inr ?c"
    by (simp add: read_alice_with) code_simp
  have p: "toml_parse ?c = Inr ?t" by code_simp
  have c: "fst (check_initialization (alice_with ?c)) = Returns (Inr \<lparr>config = \<lparr>path = ''/opt/dots''\<rparr>\<rparr>)"
    using r p by (simp add: check_initialization_read load_data_parsed deserialize_data_def
        deserialize_config_def config_field_def)
  from loaded_config_from_file [OF alice_simps(2) r c] p show ?thesis by simp
qed

text \<open>
  C19 (ill-typed path).  A \<open>path\<close> in the \<open>[config]\<close> table that is not a
  string (an integer, a boolean, an array) fails the derived deserializer, and
  bootstrap exits with status 1 and \<open>Unable to load data from `<path>`\<close>,
  leaving the world unchanged.
\<close>

theorem ill_typed_path_exits:
  assumes "home_path w = Some h" and "read_to_string (config_file_path h) w = Inr c"
    and "toml_parse c = Inr tbl" and "map_of tbl ''config'' = Some (TTable kvs)"
    and "map_of kvs ''path'' = Some v" and "\<forall>s. v \<noteq> TString s"
  shows "check_initialization w = (Exits 1 (''Unable to load data from `'' @ config_file_path h @ ''`''), w)"
  using assms
  by (cases v) (simp_all add: check_initialization_read load_data_parsed deserialize_data_def deserialize_config_def config_field_def)

theorem ill_typed_path_exits_witness:
  "check_initialization (alice_with (''[config]'' @ [LF] @ ''path = 5'' @ [LF])) =
     (Exits 1 ''Unable to load data from `/home/alice/.dotflow.toml`'', alice_with (''[config]'' @ [LF] @ ''path = 5'' @ [LF]))"
proof -
  let ?c = "''[config]'' @ [LF] @ ''path = 5'' @ [LF]"
  have r: "read_to_string (config_file_path ''/home/alice'') (alice_with ?c) = Inr ?c"
    by (simp add: read_alice_with) code_simp
  have p: "toml_parse ?c = Inr [(''config'', TTable [(''path'', TInteger 5)])]" by code_simp
  have "\<forall>s. TInteger 5 \<noteq> TString s" by simp
  from ill_typed_path_exits [OF alice_simps(2) r p _ _ this] show ?thesis by simp
qed

text \<open>
  C20 (three spellings).  TOML offers three ways to write the configured
  path: a \<open>[config]\<close> table with a \<open>path\<close> pair, the dotted key
  \<open>config.path\<close>, and the inline table \<open>config = { path = ... }\<close>.  Whichever
  a user writes, with the path \<open>S\<close> (well-formed UTF-8, possibly empty) in
  TOML's escaped form, bootstrap loads exactly \<open>S\<close> and leaves the file
  system unchanged.  The empty path is accepted, against the spec's invariant
  that the path is never empty after loading.
\<close>

theorem config_spellings_load_same:
  assumes "home_path w = Some h" and "files w (config_file_path h) = Some (File c)"
    and "readable w (config_file_path h)" and "utf8_valid s"
    and "c = config_doc s \<or> c = config_doc_dotted s \<or> c = config_doc_inline s"
  shows "check_initialization w = (Returns (Inr \<lparr>config = \<lparr>path = s\<rparr>\<rparr>), w)"
proof -
  have "utf8_valid c" and "toml_parse c = Inr [(''config'', TTable [(''path'', TString s)])]"
    using assms(4,5) utf8_valid_config_doc utf8_valid_config_doc_dotted utf8_valid_config_doc_inline
      toml_parse_config_doc toml_parse_config_doc_dotted toml_parse_config_doc_inline by auto
  moreover have "read_to_string (config_file_path h) w = Inr c"
    using assms(2,3) calculation(1) by (simp add: read_to_string_def)
  ultimately show ?thesis using assms(1)
    by (simp add: check_initialization_read load_data_parsed deserialize_data_def deserialize_config_def config_field_def)
qed

theorem config_spellings_load_same_witness:
  "check_initialization (alice_with (config_doc_inline [])) =
     (Returns (Inr \<lparr>config = \<lparr>path = []\<rparr>\<rparr>), alice_with (config_doc_inline []))"
proof -
  have f: "files (alice_with (config_doc_inline [])) (config_file_path ''/home/alice'') = Some (File (config_doc_inline []))"
    "readable (alice_with (config_doc_inline [])) (config_file_path ''/home/alice'')"
    by (simp_all add: alice_with_def alice_def)
  have u: "utf8_valid []" by simp
  have "config_doc_inline [] = config_doc [] \<or> config_doc_inline [] = config_doc_dotted [] \<or>
        config_doc_inline [] = config_doc_inline []" by simp
  from config_spellings_load_same [OF alice_simps(2) f u this] show ?thesis .
qed

text \<open>
  C21 (sequence form).  The derived deserializer of \<open>Config\<close> also reads an
  array as the struct, its elements being the fields in order: a file holding
  \<open>config = ["S"]\<close> loads the path \<open>S\<close>, and \<open>config = []\<close> loads the
  default \<open><home>/.config\<close>, with the world unchanged.  Neither the spec nor
  the code's comments (a \<open>[config]\<close> section) mention this form.
\<close>

theorem config_sequence_form:
  assumes "home_path w = Some h" and "read_to_string (config_file_path h) w = Inr c"
    and "toml_parse c = Inr tbl" and "map_of tbl ''config'' = Some (TArray vs)"
    and "vs = [TString s] \<or> (vs = [] \<and> s = h @ ''/.config'')"
  shows "check_initialization w = (Returns (Inr \<lparr>config = \<lparr>path = s\<rparr>\<rparr>), w)"
  using assms
  by (auto simp: check_initialization_read load_data_parsed deserialize_data_def deserialize_config_def
      config_field_def default_config_def)

theorem config_sequence_form_witness:
  "check_initialization (alice_with (''config = []'' @ [LF])) =
     (Returns (Inr \<lparr>config = \<lparr>path = ''/home/alice/.config''\<rparr>\<rparr>), alice_with (''config = []'' @ [LF]))"
proof -
  let ?c = "''config = []'' @ [LF]"
  have r: "read_to_string (config_file_path ''/home/alice'') (alice_with ?c) = Inr ?c"
    by (simp add: read_alice_with) code_simp
  have p: "toml_parse ?c = Inr [(''config'', TArray [])]" by code_simp
  have "map_of [(''config'', TArray [])] ''config'' = Some (TArray [])"
    "[] = [TString ''/home/alice/.config''] \<or> ([] = [] \<and> ''/home/alice/.config'' = ''/home/alice'' @ ''/.config'')"
    by simp_all
  from config_sequence_form [OF alice_simps(2) r p this] show ?thesis .
qed

text \<open>
  C14 (literal path).  The spec's P2, that a file holding \<open>path = "S"\<close> loads
  \<open>S\<close>, holds when the path is written as a TOML literal string: for every
  well-formed UTF-8 path \<open>S\<close> of literal characters (no \<open>'\<close>, no control
  character but tab), \<open>[config] path = 'S'\<close> loads exactly \<open>S\<close>, backslashes
  included, and leaves the file system unchanged.
\<close>

theorem literal_path_roundtrip:
  assumes "home_path w = Some h" and "files w (config_file_path h) = Some (File (config_doc_literal s))"
    and "readable w (config_file_path h)" and "utf8_valid s" and "list_all literal_ok s"
  shows "check_initialization w = (Returns (Inr \<lparr>config = \<lparr>path = s\<rparr>\<rparr>), w)"
proof -
  have "read_to_string (config_file_path h) w = Inr (config_doc_literal s)"
    using assms(2-4) by (simp add: read_to_string_def utf8_valid_config_doc_literal)
  with assms(1) show ?thesis
    by (simp add: check_initialization_read load_data_parsed toml_parse_config_doc_literal [OF assms(5)]
        deserialize_data_def deserialize_config_def config_field_def)
qed

theorem literal_path_roundtrip_witness:
  "check_initialization (alice_with (config_doc_literal (''C:'' @ [BSL] @ ''temp''))) =
     (Returns (Inr \<lparr>config = \<lparr>path = ''C:'' @ [BSL] @ ''temp''\<rparr>\<rparr>),
      alice_with (config_doc_literal (''C:'' @ [BSL] @ ''temp'')))"
proof -
  let ?s = "''C:'' @ [BSL] @ ''temp''"
  have f: "files (alice_with (config_doc_literal ?s)) (config_file_path ''/home/alice'') = Some (File (config_doc_literal ?s))"
    "readable (alice_with (config_doc_literal ?s)) (config_file_path ''/home/alice'')"
    by (simp_all add: alice_with_def alice_def)
  have u: "utf8_valid ?s" by code_simp
  have l: "list_all literal_ok ?s" by (simp add: literal_ok_def)
  from literal_path_roundtrip [OF alice_simps(2) f u l] show ?thesis .
qed

subsection \<open>A home directory that is not UTF-8\<close>

lemma home_path_files [simp]: "home_path (w\<lparr>files := f\<rparr>) = home_path w"
  by (simp add: home_path_def home_dir_def cong: option.case_cong)

lemma default_config_files [simp]: "default_config (w\<lparr>files := f\<rparr>) = default_config w"
  by (simp add: default_config_def)

lemma config_field_files [simp]: "config_field (w\<lparr>files := f\<rparr>) v = config_field w v"
  by (simp add: config_field_def cong: option.case_cong)

lemma deserialize_config_files [simp]: "deserialize_config (w\<lparr>files := f\<rparr>) v = deserialize_config w v"
  by (simp add: deserialize_config_def cong: tvalue.case_cong list.case_cong)

lemma load_data_files [simp]: "load_data p (w\<lparr>files := f\<rparr>) c = load_data p w c"
  by (simp add: load_data_def toml_from_str_def deserialize_data_def
      cong: option.case_cong sum.case_cong perr.case_cong)

lemma ensure_config_file_other:
  "q \<noteq> p \<Longrightarrow>
   ensure_config_file p (w\<lparr>files := (files w)(q := n)\<rparr>) =
     (ensure_config_file p w)\<lparr>files := (files (ensure_config_file p w))(q := n)\<rparr>"
  by (auto simp: ensure_config_file_def path_exists_def file_create_def fun_upd_twist
      split: option.splits node.splits)

lemma read_config_other:
  "q \<noteq> p \<Longrightarrow> read_config p (w\<lparr>files := (files w)(q := n)\<rparr>) = read_config p w"
  by (simp add: read_config_def read_to_string_def cong: option.case_cong)

text \<open>
  Bootstrap touches the file system only at the configuration path of the
  displayed home: changing any other path changes nothing else.
\<close>

lemma check_initialization_other_path:
  assumes "home_path w = Some h'" and "q \<noteq> config_file_path h'"
  shows "check_initialization (w\<lparr>files := (files w)(q := n)\<rparr>) =
           (fst (check_initialization w),
            (snd (check_initialization w))\<lparr>files := (files (snd (check_initialization w)))(q := n)\<rparr>)"
  using assms by (simp add: check_initialization_home ensure_config_file_other read_config_other)

lemma config_file_path_inj: "config_file_path a = config_file_path b \<longleftrightarrow> a = b"
  by (simp add: config_file_path_def)

text \<open>
  C16 (non-UTF-8 home).  When the home directory is not well-formed UTF-8,
  \<open>display().to_string()\<close> (line 36) replaces its bad bytes, so bootstrap
  works on a path that is not the user's \<open><home>/.dotflow.toml\<close>: whatever
  that file holds, or whether it exists, the outcome is the same, and the
  file is left as it was.
\<close>

theorem non_utf8_home_ignores_config:
  assumes "home_dir w = Some h" and "\<not> utf8_valid h"
  shows "check_initialization (w\<lparr>files := (files w)(config_file_path h := n)\<rparr>) =
           (fst (check_initialization w),
            (snd (check_initialization w))\<lparr>files := (files (snd (check_initialization w)))(config_file_path h := n)\<rparr>)"
proof -
  have "home_path w = Some (utf8_lossy h)" using assms(1) by (simp add: home_path_def)
  moreover have "config_file_path h \<noteq> config_file_path (utf8_lossy h)"
    using assms(2) utf8_lossy_eq_iff [of h] by (auto simp: config_file_path_inj)
  ultimately show ?thesis by (rule check_initialization_other_path)
qed

theorem non_utf8_home_ignores_config_witness:
  "check_initialization (jose\<lparr>files := (files jose)(config_file_path (''/home/jos'' @ [CHR 0xE9]) := None)\<rparr>) =
     (fst (check_initialization jose),
      (snd (check_initialization jose))\<lparr>files := (files (snd (check_initialization jose)))
         (config_file_path (''/home/jos'' @ [CHR 0xE9]) := None)\<rparr>)"
proof -
  have "home_dir jose = Some (''/home/jos'' @ [CHR 0xE9])" by (simp add: jose_def home_dir_def)
  moreover have "\<not> utf8_valid (''/home/jos'' @ [CHR 0xE9])" by (simp add: utf8_lead_def seq_ok_def in_range_def)
  ultimately show ?thesis by (rule non_utf8_home_ignores_config)
qed

end
