(* ===== verification/Cli.thy ===== *)
theory Cli
  imports Config
begin

text \<open>
  The entry point of \<open>src/src/main.rs\<close> (lines 67--101): \<open>link\<close>, the only
  subcommand, and \<open>main\<close>, which parses the arguments with clap, runs the
  bootstrap and dispatches.  Argument parsing is the clap library; the model
  takes its result as an interface value: either clap has already exited (help,
  version or a usage error, with its exit code and output), or it hands over the
  matched subcommand, as \<open>matches.subcommand()\<close> does.  A run of \<open>main\<close> ends
  with an exit status and the lines written to standard output and standard
  error, or with a panic.
\<close>

datatype cli = CliExit int "string list" "string list" | CliMatches "(string \<times> string option) option"

datatype proc_result = Exited int "string list" "string list" | Panicked string | Undetermined

text \<open>The exit status of a finished run (a panic in \<open>main\<close> exits with 101).\<close>

fun exit_status :: "proc_result \<Rightarrow> int option" where
  "exit_status (Exited c _ _) = Some c"
| "exit_status (Panicked _) = Some 101"
| "exit_status Undetermined = None"

subsection \<open>\<open>{:?}\<close> of \<open>Option<&String>\<close>\<close>

text \<open>
  Rust's \<open>Debug\<close> of a string: in double quotes, with \<open>\0 \t \r \n \\ \"\<close> and the
  other ASCII controls escaped (\<open>\u{1b}\<close>, lower-case hexadecimal without leading
  zeros).  A string with bytes outside ASCII is left undetermined (\<open>None\<close>):
  Rust escapes the code points among them that are not printable or extend a
  grapheme, by Unicode tables the model does not hold.
\<close>

definition hex_min :: "nat \<Rightarrow> string" where
  "hex_min n = (if n < 16 then [hex_digit n] else [hex_digit (n div 16), hex_digit (n mod 16)])"

definition debug_char :: "char \<Rightarrow> string" where
  "debug_char c =
     (if c = CHR 0x00 then [BSL, CHR ''0'']
      else if c = TAB then [BSL, CHR ''t'']
      else if c = CR then [BSL, CHR ''r'']
      else if c = LF then [BSL, CHR ''n'']
      else if c = BSL then [BSL, BSL]
      else if c = DQ then [BSL, DQ]
      else if byte c < 32 \<or> byte c = 127 then [BSL, CHR ''u'', CHR ''{''] @ hex_min (byte c) @ [CHR ''}'']
      else [c])"

definition debug_str :: "string \<Rightarrow> string option" where
  "debug_str s = (if list_all is_ascii s then Some ([DQ] @ concat (map debug_char s) @ [DQ]) else None)"

definition debug_opt_str :: "string option \<Rightarrow> string option" where
  "debug_opt_str p =
     (case p of
        None \<Rightarrow> Some ''None''
      | Some s \<Rightarrow> map_option (\<lambda>q. ''Some('' @ q @ '')'') (debug_str s))"

text \<open>
  Reading a \<open>Debug\<close> string back (between the quotes): the inverse the
  properties below use to show that the printed name determines the argument.
\<close>

definition simple_undebug :: "char \<Rightarrow> char option" where
  "simple_undebug d =
     (if d = CHR ''0'' then Some (CHR 0x00)
      else if d = CHR ''t'' then Some TAB
      else if d = CHR ''r'' then Some CR
      else if d = CHR ''n'' then Some LF
      else if d = BSL then Some BSL
      else if d = DQ then Some DQ
      else None)"

fun undebug :: "string \<Rightarrow> string option"
and undebug_esc :: "string \<Rightarrow> string option"
and undebug_u :: "string \<Rightarrow> string option" where
  "undebug [] = Some []"
| "undebug (c # s) =
     (if c = BSL then undebug_esc s else if c = DQ then None else map_option (Cons c) (undebug s))"
| "undebug_esc [] = None"
| "undebug_esc (d # s) =
     (if d = CHR ''u'' then undebug_u s
      else (case simple_undebug d of Some x \<Rightarrow> map_option (Cons x) (undebug s) | None \<Rightarrow> None))"
| "undebug_u (a # h # b # s) =
     (if a = CHR ''{'' \<and> is_hex_digit h then
        (if b = CHR ''}'' then map_option (Cons (char_of (digit_val h))) (undebug s)
         else if is_hex_digit b \<and> take 1 s = [CHR ''}'']
         then map_option (Cons (char_of (16 * digit_val h + digit_val b))) (undebug (drop 1 s))
         else None)
      else None)"
| "undebug_u _ = None"

text \<open>A character a terminal shows as itself: printable ASCII.\<close>

definition printable :: "char \<Rightarrow> bool" where
  "printable c \<longleftrightarrow> 32 \<le> byte c \<and> byte c < 127"

subsection \<open>\<open>link\<close> (lines 67--71)\<close>

text \<open>The two lines printed, and the result \<open>Ok(true)\<close>; \<open>None\<close> when the \<open>Debug\<close> form is undetermined.\<close>

definition link :: "string option \<Rightarrow> data \<Rightarrow> (string list \<times> (string + bool)) option" where
  "link p d =
     map_option (\<lambda>q. ([[SQ] @ ''dotflow link'' @ [SQ] @ '' was used, name is: '' @ q, path (config d)], Inr True))
       (debug_opt_str p)"

subsection \<open>\<open>main\<close> (lines 73--102)\<close>

definition unreachable_msg :: string where
  "unreachable_msg =
     ''internal error: entered unreachable code: Exhausted list of subcommands and subcommand_required prevents `None`''"

text \<open>
  Lines 93--101: the subcommand.  \<open>link\<close>'s result is matched and dropped, so
  \<open>main\<close> returns and the status is 0; any other case reaches \<open>unreachable!\<close>.
\<close>

definition dispatch :: "(string \<times> string option) option \<Rightarrow> data \<Rightarrow> proc_result" where
  "dispatch sc d =
     (case sc of
        Some (name, p) \<Rightarrow>
          if name = ''link'' then (case link p d of Some (out, _) \<Rightarrow> Exited 0 out [] | None \<Rightarrow> Undetermined)
          else Panicked unreachable_msg
      | None \<Rightarrow> Panicked unreachable_msg)"

text \<open>
  Lines 73--102: clap first (lines 74--83), then the bootstrap (lines 85--91, whose
  \<open>Err\<close> arm prints \<open>Unable to initialize dotflow\<close> and exits), then the dispatch.
\<close>

definition main_run :: "cli \<Rightarrow> world \<Rightarrow> proc_result \<times> world" where
  "main_run a w =
     (case a of
        CliExit c out err \<Rightarrow> (Exited c out err, w)
      | CliMatches sc \<Rightarrow>
          (case check_initialization w of
             (Exits c m, w') \<Rightarrow> (Exited c [] [m], w')
           | (Beyond, w') \<Rightarrow> (Undetermined, w')
           | (Returns (Inl _), w') \<Rightarrow> (Exited 1 [] [''Unable to initialize dotflow''], w')
           | (Returns (Inr d), w') \<Rightarrow> (dispatch sc d, w')))"

subsection \<open>Properties of \<open>main\<close>\<close>

lemma check_initialization_exit_code:
  "fst (check_initialization w) = Exits c m \<Longrightarrow> c = 1"
  by (auto simp: check_initialization_def resolve_home_def read_config_def load_data_def toml_from_str_def
      deserialize_data_def deserialize_config_def config_field_def default_config_def run_bind_def Let_def
      split: option.splits sum.splits run.splits perr.splits tvalue.splits list.splits)

text \<open>Every outcome of the bootstrap is an exit with status 1, a success, or undetermined.\<close>

lemma check_initialization_cases:
  "(\<exists>m. fst (check_initialization w) = Exits 1 m) \<or> fst (check_initialization w) = Beyond
   \<or> (\<exists>d. fst (check_initialization w) = Returns (Inr d))"
proof (cases "fst (check_initialization w)")
  case (Exits c m)
  then show ?thesis using check_initialization_exit_code [of w c m] by simp
next
  case (Returns x)
  have "x \<noteq> Inl e" for e
  proof (cases "home_path w")
    case None
    with Returns show ?thesis by (simp add: check_initialization_no_home)
  next
    case (Some h)
    with Returns show ?thesis using run_bind_Inr_not_Inl by (metis check_initialization_home fst_conv)
  qed
  with Returns show ?thesis by (cases x) auto
qed simp

subsection \<open>The \<open>Debug\<close> form is printable and determines the string\<close>

lemma hex_digit_not_brace: "n < 16 \<Longrightarrow> hex_digit n \<noteq> CHR ''}''"
  using hex_digit_props [of n] by (auto simp: is_hex_digit_def is_digit_def in_range_def)

lemma undebug_control:
  assumes "byte c < 32 \<or> byte c = 127"
  shows "undebug ([BSL, CHR ''u'', CHR ''{''] @ hex_min (byte c) @ [CHR ''}''] @ r) = map_option (Cons c) (undebug r)"
proof (cases "byte c < 16")
  case True
  then show ?thesis using hex_digit_props [of "byte c"] by (simp add: hex_min_def simple_undebug_def)
next
  case False
  let ?h = "hex_digit (byte c div 16)" and ?l = "hex_digit (byte c mod 16)"
  have "byte c < 16 * 16" using assms by auto
  then have "byte c div 16 < 16" by (rule less_mult_imp_div_less)
  then have h: "is_hex_digit ?h" "digit_val ?h = byte c div 16" using hex_digit_props by blast+
  have l: "is_hex_digit ?l" "digit_val ?l = byte c mod 16" using hex_digit_props [of "byte c mod 16"] by simp_all
  have "?l \<noteq> CHR ''}''" by (simp add: hex_digit_not_brace)
  moreover have "char_of (16 * (byte c div 16) + byte c mod 16) = c" by simp
  ultimately show ?thesis using False h l by (simp add: hex_min_def simple_undebug_def)
qed

lemma undebug_debug_char: "is_ascii c \<Longrightarrow> undebug (debug_char c @ r) = map_option (Cons c) (undebug r)"
proof -
  consider "c \<in> {CHR 0x00, TAB, CR, LF, BSL, DQ}"
    | "c \<notin> {CHR 0x00, TAB, CR, LF, BSL, DQ}" "byte c < 32 \<or> byte c = 127"
    | "c \<notin> {CHR 0x00, TAB, CR, LF, BSL, DQ}" "\<not> (byte c < 32 \<or> byte c = 127)"
    by blast
  then show ?thesis
  proof cases
    case 1
    then show ?thesis by (auto simp: debug_char_def simple_undebug_def)
  next
    case 2
    then show ?thesis using undebug_control [OF 2(2), of r] by (simp add: debug_char_def)
  qed (simp add: debug_char_def)
qed

lemma undebug_debug_chars:
  "list_all is_ascii s \<Longrightarrow> undebug (concat (map debug_char s) @ r) = map_option ((@) s) (undebug r)"
proof (induction s)
  case Nil
  show ?case by (cases "undebug r") simp_all
next
  case (Cons a s)
  then show ?case by (cases "undebug r") (simp_all add: undebug_debug_char)
qed

lemma printable_hex_digit: "n < 16 \<Longrightarrow> printable (hex_digit n)"
  by (simp add: printable_def hex_digit_def)

lemma printable_debug_char: "is_ascii c \<Longrightarrow> list_all printable (debug_char c)"
proof -
  assume a: "is_ascii c"
  then have "byte c < 16 * 8" by (simp add: is_ascii_def)
  then have "byte c div 16 < 16" using less_mult_imp_div_less [of "byte c" 8 16] by simp
  then have "printable (hex_digit (byte c div 16))" "printable (hex_digit (byte c mod 16))"
    by (simp_all add: printable_hex_digit)
  with a show ?thesis
    by (auto simp: debug_char_def hex_min_def printable_def is_ascii_def)
qed

lemma debug_str_ascii:
  assumes "list_all is_ascii s"
  shows "\<exists>e. debug_str s = Some ([DQ] @ e @ [DQ]) \<and> list_all printable e \<and> undebug e = Some s"
proof -
  have "list_all printable (concat (map debug_char s))"
    using assms by (induction s) (simp_all add: printable_debug_char)
  moreover have "undebug (concat (map debug_char s)) = Some s"
    using undebug_debug_chars [OF assms, of "[]"] by simp
  ultimately show ?thesis using assms by (simp add: debug_str_def)
qed

end
