(* ===== verification/Clap.thy ===== *)
theory Clap
  imports Cli
begin

text \<open>
  The command line of \<open>dotflow\<close>: the \<open>Command\<close> built at lines 74--83 of
  \<open>src/src/main.rs\<close> as data, clap's matching of the arguments against it,
  and \<open>main\<close> run from the arguments.  The matcher is the clap library,
  modelled from its documented behaviour for the features this command uses:
  a command with a version and subcommands, whose automatic \<open>-h\<close>/\<open>--help\<close>,
  \<open>-V\<close>/\<open>--version\<close> and \<open>help\<close> subcommand print and exit with status 0,
  and a subcommand whose argument has a short and a long name and takes one
  value (\<open>ArgAction::Set\<close>), written \<open>-p v\<close>, \<open>-pv\<close>, \<open>-p=v\<close>, \<open>--path v\<close> or
  \<open>--path=v\<close>.  A usage error exits with status 2.  Texts of help and error
  messages are not modelled: a usage error is its kind.
\<close>

subsection \<open>The command (lines 74--83)\<close>

record arg_spec =
  arg_id :: string
  arg_short :: "char option"
  arg_long :: "string option"
  arg_required :: bool

text \<open>A command: its name, its version, its arguments and its subcommands.\<close>

datatype cmd = Cmd string "string option" "arg_spec list" "cmd list"

definition path_arg :: arg_spec where
  "path_arg = \<lparr>arg_id = ''PATH'', arg_short = Some (CHR ''p''), arg_long = Some ''path'', arg_required = True\<rparr>"

definition dotflow_command :: cmd where
  "dotflow_command = Cmd ''Dotflow'' (Some ''1.0'') [] [Cmd ''link'' None [path_arg] []]"

subsection \<open>Matching the arguments\<close>

datatype clap_error =
    UnknownArgument string
  | InvalidSubcommand string
  | MissingRequired string
  | NoValue string
  | ArgumentTwice string

datatype 'a clap = CHelp | CVersion | CErr clap_error | COk 'a

text \<open>A token clap reads as a flag rather than as a value.\<close>

definition is_flag :: "string \<Rightarrow> bool" where
  "is_flag t \<longleftrightarrow> 2 \<le> length t \<and> hd t = CHR ''-''"

definition find_long :: "arg_spec list \<Rightarrow> string \<Rightarrow> arg_spec option" where
  "find_long as n = find (\<lambda>a. arg_long a = Some n) as"

definition find_short :: "arg_spec list \<Rightarrow> char \<Rightarrow> arg_spec option" where
  "find_short as c = find (\<lambda>a. arg_short a = Some c) as"

text \<open>
  The values of the arguments of a command without subcommands: each token is
  a help flag, a long or short argument with its value, the end of options
  \<open>--\<close>, or an unexpected argument.  At the end the required arguments must
  be present.
\<close>

definition store :: "arg_spec \<Rightarrow> string \<Rightarrow> (string \<times> string) list \<Rightarrow> (string \<times> string) list clap" where
  "store a v vals = (if map_of vals (arg_id a) \<noteq> None then CErr (ArgumentTwice (arg_id a)) else COk (vals @ [(arg_id a, v)]))"

fun parse_args :: "arg_spec list \<Rightarrow> (string \<times> string) list \<Rightarrow> string list \<Rightarrow> (string \<times> string) list clap" where
  "parse_args as vals [] =
     (case find (\<lambda>a. arg_required a \<and> map_of vals (arg_id a) = None) as of
        Some a \<Rightarrow> CErr (MissingRequired (arg_id a))
      | None \<Rightarrow> COk vals)"
| "parse_args as vals (t # ts) =
     (if t = ''-h'' \<or> t = ''--help'' then CHelp
      else if t = ''--'' then (case ts of [] \<Rightarrow> parse_args as vals [] | u # _ \<Rightarrow> CErr (UnknownArgument u))
      else if take 2 t = ''--'' then
        (let n = takeWhile (\<lambda>c. c \<noteq> CHR ''='') (drop 2 t);
             e = dropWhile (\<lambda>c. c \<noteq> CHR ''='') (drop 2 t)
         in case find_long as n of
              None \<Rightarrow> CErr (UnknownArgument t)
            | Some a \<Rightarrow>
                if e \<noteq> [] then
                  (case store a (tl e) vals of COk vals' \<Rightarrow> parse_args as vals' ts | r \<Rightarrow> r)
                else
                  (case ts of
                     v # ts' \<Rightarrow>
                       if is_flag v then CErr (NoValue (arg_id a))
                       else (case store a v vals of COk vals' \<Rightarrow> parse_args as vals' ts' | r \<Rightarrow> r)
                   | [] \<Rightarrow> CErr (NoValue (arg_id a))))
      else if is_flag t then
        (case find_short as (t ! 1) of
           None \<Rightarrow> CErr (UnknownArgument t)
         | Some a \<Rightarrow>
             (let r = drop 2 t
              in if r \<noteq> [] then
                   (let v = (if hd r = CHR ''='' then tl r else r)
                    in case store a v vals of COk vals' \<Rightarrow> parse_args as vals' ts | x \<Rightarrow> x)
                 else
                   (case ts of
                      v # ts' \<Rightarrow>
                        if is_flag v then CErr (NoValue (arg_id a))
                        else (case store a v vals of COk vals' \<Rightarrow> parse_args as vals' ts' | x \<Rightarrow> x)
                    | [] \<Rightarrow> CErr (NoValue (arg_id a)))))
      else CErr (UnknownArgument t))"

fun cmd_name :: "cmd \<Rightarrow> string" where
  "cmd_name (Cmd n _ _ _) = n"

text \<open>
  The top level of a command that has subcommands and no arguments of its own,
  as \<open>dotflow\<close>: help, version, the \<open>help\<close> subcommand clap adds, or a
  subcommand and its arguments.  No arguments at all is no subcommand.
\<close>

definition parse_top :: "cmd \<Rightarrow> string list \<Rightarrow> (string \<times> (string \<times> string) list) option clap" where
  "parse_top c argv =
     (case c of
        Cmd n ver as subs \<Rightarrow>
          (case argv of
             [] \<Rightarrow> COk None
           | t # ts \<Rightarrow>
               if t = ''-h'' \<or> t = ''--help'' then CHelp
               else if (t = ''-V'' \<or> t = ''--version'') \<and> ver \<noteq> None then CVersion
               else if t = ''help'' \<and> subs \<noteq> [] then CHelp
               else
                 (case find (\<lambda>s. cmd_name s = t) subs of
                    Some (Cmd sn _ sas _) \<Rightarrow>
                      (case parse_args sas [] ts of
                         COk vals \<Rightarrow> COk (Some (sn, vals))
                       | CHelp \<Rightarrow> CHelp
                       | CVersion \<Rightarrow> CVersion
                       | CErr e \<Rightarrow> CErr e)
                  | None \<Rightarrow> if is_flag t then CErr (UnknownArgument t) else CErr (InvalidSubcommand t))))"

text \<open>\<open>--version\<close> prints the command's name and version.\<close>

fun version_line :: "cmd \<Rightarrow> string" where
  "version_line (Cmd n ver _ _) = n @ '' '' @ (case ver of Some v \<Rightarrow> v | None \<Rightarrow> [])"

subsection \<open>\<open>main\<close> from its arguments\<close>

datatype argv_outcome = HelpShown | VersionShown string | UsageError clap_error | Main proc_result

text \<open>
  \<open>get_matches()\<close> (line 83) exits on help, version and usage errors before
  the bootstrap runs; otherwise \<open>main\<close> continues with the matches, and
  \<open>sub_matches.get_one("PATH")\<close> (line 95) is the value stored for \<open>PATH\<close>.
\<close>

definition argv_main :: "string list \<Rightarrow> world \<Rightarrow> argv_outcome \<times> world" where
  "argv_main argv w =
     (case parse_top dotflow_command argv of
        CHelp \<Rightarrow> (HelpShown, w)
      | CVersion \<Rightarrow> (VersionShown (version_line dotflow_command), w)
      | CErr e \<Rightarrow> (UsageError e, w)
      | COk sc \<Rightarrow>
          (case main_run (CliMatches (map_option (\<lambda>(n, vals). (n, map_of vals ''PATH'')) sc)) w of
             (r, w') \<Rightarrow> (Main r, w')))"

fun argv_status :: "argv_outcome \<Rightarrow> int option" where
  "argv_status HelpShown = Some 0"
| "argv_status (VersionShown _) = Some 0"
| "argv_status (UsageError _) = Some 2"
| "argv_status (Main r) = exit_status r"

subsection \<open>Properties\<close>

lemma parse_top_empty: "parse_top dotflow_command [] = COk None"
  by (simp add: parse_top_def dotflow_command_def)

lemma parse_link_value:
  assumes "v \<noteq> []" and "\<not> is_flag v" and "hd v \<noteq> CHR ''=''"
  shows "parse_args [path_arg] [] [''-p'', v] = COk [(''PATH'', v)]"
    and "parse_args [path_arg] [] [''--path'', v] = COk [(''PATH'', v)]"
    and "parse_args [path_arg] [] [''--path='' @ v] = COk [(''PATH'', v)]"
    and "parse_args [path_arg] [] [''-p'' @ v] = COk [(''PATH'', v)]"
  using assms
  by (simp_all add: path_arg_def is_flag_def find_short_def find_long_def store_def Let_def)

lemma argv_link_value:
  assumes "parse_args [path_arg] [] ts = COk [(''PATH'', v)]"
  shows "argv_main (''link'' # ts) w =
           (case main_run (CliMatches (Some (''link'', Some v))) w of (r, w') \<Rightarrow> (Main r, w'))"
  using assms by (simp add: argv_main_def parse_top_def dotflow_command_def is_flag_def)

lemma argv_clap_exit: "(\<And>sc. parse_top dotflow_command argv \<noteq> COk sc) \<Longrightarrow> snd (argv_main argv w) = w"
  by (auto simp: argv_main_def split: clap.splits)

lemma parse_top_link: "parse_top dotflow_command argv = COk (Some (n, vals)) \<Longrightarrow> n = ''link''"
  by (auto simp: parse_top_def dotflow_command_def split: list.splits if_splits option.splits cmd.splits clap.splits)

text \<open>
  C25 (no arguments).  Run as \<open>dotflow\<close> with no arguments, clap matches no
  subcommand (the command does not require one), the bootstrap runs, and when
  it succeeds \<open>main\<close> reaches \<open>unreachable!\<close> and panics.
\<close>

theorem argv_no_arguments_panics:
  "check_initialization w = (Returns (Inr d), w') \<Longrightarrow> argv_main [] w = (Main (Panicked unreachable_msg), w')"
  by (simp add: argv_main_def parse_top_empty main_run_def dispatch_def)

theorem argv_no_arguments_panics_witness:
  "argv_main [] (alice_with (''[config]'' @ [LF])) = (Main (Panicked unreachable_msg), alice_with (''[config]'' @ [LF]))"
  using argv_no_arguments_panics [OF alice_config_section] .

text \<open>
  C26 (clap exits first).  Help, version and usage errors end the run inside
  \<open>get_matches()\<close>, before the bootstrap: the file system is untouched (no
  \<open>~/.dotflow.toml\<close> is created), whatever the arguments.  \<open>dotflow link\<close>
  without \<open>--path\<close> is such a usage error, with status 2.
\<close>

theorem argv_clap_exit_untouched:
  assumes "fst (argv_main argv w) \<in> {HelpShown, VersionShown (version_line dotflow_command)} \<or>
           (\<exists>e. fst (argv_main argv w) = UsageError e)"
  shows "snd (argv_main argv w) = w"
proof -
  have "parse_top dotflow_command argv \<noteq> COk sc" for sc
    using assms by (auto simp: argv_main_def split: prod.splits)
  then show ?thesis by (rule argv_clap_exit)
qed

theorem argv_clap_exit_untouched_witness:
  "argv_main [''link''] alice = (UsageError (MissingRequired ''PATH''), alice) \<and>
   argv_status (fst (argv_main [''link''] alice)) = Some 2"
proof -
  have a: "argv_main [''link''] alice = (UsageError (MissingRequired ''PATH''), snd (argv_main [''link''] alice))"
    by (simp add: argv_main_def parse_top_def dotflow_command_def path_arg_def is_flag_def)
  then have "fst (argv_main [''link''] alice) = UsageError (MissingRequired ''PATH'')" by (metis fst_conv)
  then have "snd (argv_main [''link''] alice) = alice" using argv_clap_exit_untouched by blast
  with a show ?thesis by simp
qed

text \<open>
  C27 (spellings of the path).  \<open>dotflow link -p V\<close>, \<open>-pV\<close>, \<open>--path V\<close> and
  \<open>--path=V\<close> run the same: the same output, status and world, for every
  value \<open>V\<close> clap reads as a value (not empty, not a flag, not starting with
  \<open>=\<close>).
\<close>

theorem argv_path_spellings_equiv:
  assumes "v \<noteq> []" and "\<not> is_flag v" and "hd v \<noteq> CHR ''=''"
  shows "argv_main [''link'', ''-p'', v] w = argv_main [''link'', ''--path'', v] w
       \<and> argv_main [''link'', ''-p'' @ v] w = argv_main [''link'', ''--path'', v] w
       \<and> argv_main [''link'', ''--path='' @ v] w = argv_main [''link'', ''--path'', v] w"
  using argv_link_value [OF parse_link_value(1) [OF assms]] argv_link_value [OF parse_link_value(2) [OF assms]]
    argv_link_value [OF parse_link_value(3) [OF assms]] argv_link_value [OF parse_link_value(4) [OF assms]]
  by simp

theorem argv_path_spellings_equiv_witness:
  "argv_main [''link'', ''-p'', ''dots''] alice = argv_main [''link'', ''--path'', ''dots''] alice
   \<and> argv_main [''link'', ''-p'' @ ''dots''] alice = argv_main [''link'', ''--path'', ''dots''] alice
   \<and> argv_main [''link'', ''--path='' @ ''dots''] alice = argv_main [''link'', ''--path'', ''dots''] alice"
  by (rule argv_path_spellings_equiv) (simp_all add: is_flag_def)

text \<open>
  C28 (exit statuses).  The exit status of \<open>dotflow\<close> tells what ended the
  run: 2 exactly when clap rejects the arguments; 1 exactly when clap accepts
  them and the bootstrap exits (every exit of the bootstrap has status 1, and
  the \<open>Err\<close> arm of \<open>main\<close> is never taken); 101 exactly when clap matches
  no subcommand and the bootstrap succeeds.
\<close>

theorem argv_exit_status:
  "(argv_status (fst (argv_main argv w)) = Some 2 \<longleftrightarrow> (\<exists>e. parse_top dotflow_command argv = CErr e))
   \<and> (argv_status (fst (argv_main argv w)) = Some 1 \<longleftrightarrow>
        (\<exists>sc. parse_top dotflow_command argv = COk sc) \<and> (\<exists>m. fst (check_initialization w) = Exits 1 m))
   \<and> (argv_status (fst (argv_main argv w)) = Some 101 \<longleftrightarrow>
        parse_top dotflow_command argv = COk None \<and> (\<exists>d. fst (check_initialization w) = Returns (Inr d)))"
proof (cases "parse_top dotflow_command argv")
  case (COk sc)
  obtain r w' where ci: "check_initialization w = (r, w')" by fastforce
  have "(\<exists>m. r = Exits 1 m) \<or> r = Beyond \<or> (\<exists>d. r = Returns (Inr d))"
    using check_initialization_cases [of w] ci by simp
  then show ?thesis
  proof (elim disjE exE)
    fix d assume r: "r = Returns (Inr d)"
    show ?thesis
    proof (cases sc)
      case (Some a)
      then obtain vals where "sc = Some (''link'', vals)" using COk parse_top_link by (cases a) blast
      with COk ci r show ?thesis
        by (auto simp: argv_main_def main_run_def dispatch_def split: option.splits)
    qed (use COk ci r in \<open>simp add: argv_main_def main_run_def dispatch_def\<close>)
  qed (use COk ci in \<open>simp_all add: argv_main_def main_run_def\<close>)
qed (simp_all add: argv_main_def)

theorem argv_exit_status_witness:
  "argv_status (fst (argv_main [''link''] alice)) = Some 2"
proof -
  have "parse_top dotflow_command [''link''] = CErr (MissingRequired ''PATH'')"
    by (simp add: parse_top_def dotflow_command_def path_arg_def is_flag_def)
  then show ?thesis using argv_exit_status [of "[''link'']" alice] by blast
qed

text \<open>
  C29 (link output).  After a successful bootstrap, \<open>dotflow link --path V\<close>,
  for an ASCII value \<open>V\<close> clap reads as a value, exits with status 0 and
  prints two lines: \<open>'dotflow link' was used, name is: Some("E")\<close> and the
  configured path.  The text \<open>E\<close> that \<open>{:?}\<close> prints for \<open>V\<close> is printable
  ASCII (control characters escaped) and reads back to exactly \<open>V\<close>.
\<close>

theorem argv_link_output:
  assumes "v \<noteq> []" and "\<not> is_flag v" and "hd v \<noteq> CHR ''=''" and "list_all is_ascii v"
    and "check_initialization w = (Returns (Inr d), w')"
  shows "\<exists>e. argv_main [''link'', ''--path'', v] w =
             (Main (Exited 0 [[SQ] @ ''dotflow link'' @ [SQ] @ '' was used, name is: Some('' @ [DQ] @ e @ [DQ] @ '')'',
                              path (config d)] []), w')
           \<and> list_all printable e \<and> undebug e = Some v"
proof -
  obtain e where e: "debug_str v = Some ([DQ] @ e @ [DQ])" "list_all printable e" "undebug e = Some v"
    using debug_str_ascii [OF assms(4)] by blast
  then show ?thesis
    using argv_link_value [OF parse_link_value(2) [OF assms(1-3)], of w] assms(5)
    by (simp add: main_run_def dispatch_def link_def debug_opt_str_def)
qed

theorem argv_link_output_witness:
  "\<exists>e. argv_main [''link'', ''--path'', ''my'' @ [DQ, TAB] @ ''dots''] (alice_with (''[config]'' @ [LF])) =
        (Main (Exited 0 [[SQ] @ ''dotflow link'' @ [SQ] @ '' was used, name is: Some('' @ [DQ] @ e @ [DQ] @ '')'',
                         ''/home/alice/.config''] []), alice_with (''[config]'' @ [LF]))
      \<and> list_all printable e \<and> undebug e = Some (''my'' @ [DQ, TAB] @ ''dots'')"
proof -
  have "''my'' @ [DQ, TAB] @ ''dots'' \<noteq> []" "\<not> is_flag (''my'' @ [DQ, TAB] @ ''dots'')"
    "hd (''my'' @ [DQ, TAB] @ ''dots'') \<noteq> CHR ''=''" "list_all is_ascii (''my'' @ [DQ, TAB] @ ''dots'')"
    by (simp_all add: is_flag_def is_ascii_def)
  from argv_link_output [OF this alice_config_section] show ?thesis by simp
qed

end
