(* ===== verification/Race.thy ===== *)
theory Race
  imports Config
begin

text \<open>
  The bootstrap at the granularity of its system calls, for runs that share a
  file system: concurrent invocations of \<open>dotflow\<close>, and other programs
  writing \<open>~/.dotflow.toml\<close>.  A process of \<open>check_initialization\<close>
  (\<open>src/src/main.rs\<close> lines 34--65) is a local state \<open>proc\<close> and the world is
  shared; \<open>proc_step\<close> performs one atomic operation: resolving the home
  directory, the existence test of line 45, the \<open>File::create\<close> of line 46,
  the read of line 48, and the parse of line 56.  The spec leaves concurrent
  first runs open (section 9).
\<close>

datatype proc =
    PStart
  | PHome string
  | PChecked path bool
  | PEnsured path
  | PRead path string
  | PDone "(string + data) run"

text \<open>One atomic step of a process; \<open>None\<close> once it has finished.\<close>

definition proc_step :: "proc \<Rightarrow> world \<Rightarrow> (proc \<times> world) option" where
  "proc_step q w =
     (case q of
        PStart \<Rightarrow>
          Some (case resolve_home w of
                  Returns h \<Rightarrow> PHome h
                | Exits c m \<Rightarrow> PDone (Exits c m)
                | Beyond \<Rightarrow> PDone Beyond, w)
      | PHome h \<Rightarrow> Some (PChecked (config_file_path h) (path_exists (config_file_path h) w), w)
      | PChecked p e \<Rightarrow> Some (PEnsured p, if \<not> e then snd (file_create p w) else w)
      | PEnsured p \<Rightarrow>
          Some (case read_config p w of
                  Returns c \<Rightarrow> PRead p c
                | Exits k m \<Rightarrow> PDone (Exits k m)
                | Beyond \<Rightarrow> PDone Beyond, w)
      | PRead p c \<Rightarrow> Some (PDone (run_bind (load_data p w c) (\<lambda>d. Returns (Inr d))), w)
      | PDone _ \<Rightarrow> None)"

text \<open>Two processes interleaved on one world, one atomic step at a time.\<close>

inductive conc_step :: "proc \<times> proc \<times> world \<Rightarrow> proc \<times> proc \<times> world \<Rightarrow> bool" where
  left: "proc_step a w = Some (a', w') \<Longrightarrow> conc_step (a, b, w) (a', b, w')"
| right: "proc_step b w = Some (b', w') \<Longrightarrow> conc_step (a, b, w) (a, b', w')"

text \<open>Another program writing a file.\<close>

definition ext_write :: "path \<Rightarrow> bytes \<Rightarrow> world \<Rightarrow> world" where
  "ext_write p c w = w\<lparr>files := (files w)(p \<mapsto> File c)\<rparr>"

text \<open>
  The invariant of two bootstraps started in world \<open>w0\<close>: each process is in a
  state a sequential run from \<open>w0\<close> passes through, and the world is \<open>w0\<close> or
  the world that run leaves.
\<close>

fun proc_ok :: "world \<Rightarrow> string \<Rightarrow> proc \<Rightarrow> world \<Rightarrow> bool" where
  "proc_ok w0 h PStart w = True"
| "proc_ok w0 h (PHome h') w = (h' = h)"
| "proc_ok w0 h (PChecked p e) w =
     (p = config_file_path h \<and> (e \<longrightarrow> w = ensure_config_file p w0) \<and> (\<not> e \<longrightarrow> \<not> path_exists p w0))"
| "proc_ok w0 h (PEnsured p) w = (p = config_file_path h \<and> w = ensure_config_file p w0)"
| "proc_ok w0 h (PRead p c) w =
     (p = config_file_path h \<and> w = ensure_config_file p w0 \<and> read_config p w = Returns c)"
| "proc_ok w0 h (PDone r) w =
     (r = fst (check_initialization w0) \<and> w = ensure_config_file (config_file_path h) w0)"

definition conc_inv :: "world \<Rightarrow> proc \<times> proc \<times> world \<Rightarrow> bool" where
  "conc_inv w0 s =
     (case s of
        (a, b, w) \<Rightarrow>
          (case home_path w0 of
             None \<Rightarrow>
               w = w0 \<and> (a = PStart \<or> a = PDone (fst (check_initialization w0)))
                     \<and> (b = PStart \<or> b = PDone (fst (check_initialization w0)))
           | Some h \<Rightarrow>
               proc_ok w0 h a w \<and> proc_ok w0 h b w
                 \<and> (w = w0 \<or> w = ensure_config_file (config_file_path h) w0)))"

lemma file_create_twice:
  "\<not> path_exists p w0 \<Longrightarrow> snd (file_create p (snd (file_create p w0))) = snd (file_create p w0)"
  by (auto simp: file_create_def path_exists_def)

lemma create_from_either:
  assumes "\<not> path_exists p w0" and "w = w0 \<or> w = ensure_config_file p w0"
  shows "snd (file_create p w) = ensure_config_file p w0"
  using assms by (auto simp: ensure_config_file_def file_create_twice)

lemma home_path_either: "w = w0 \<or> w = ensure_config_file p w0 \<Longrightarrow> home_path w = home_path w0"
  by auto

lemma proc_ok_world:
  "proc_ok w0 h b w \<Longrightarrow> w' = w \<or> w' = ensure_config_file (config_file_path h) w0 \<Longrightarrow> proc_ok w0 h b w'"
  by (cases b) auto

lemma proc_step_ok:
  assumes h: "home_path w0 = Some h" and ok: "proc_ok w0 h a w"
    and w: "w = w0 \<or> w = ensure_config_file (config_file_path h) w0"
    and st: "proc_step a w = Some (a', w')"
  shows "proc_ok w0 h a' w' \<and> (w' = w \<or> w' = ensure_config_file (config_file_path h) w0)"
proof (cases a)
  case PStart
  with h w st show ?thesis by (auto simp: proc_step_def resolve_home_def dest: home_path_either)
next
  case (PHome h')
  with ok have "h' = h" by simp
  show ?thesis
  proof (cases "path_exists (config_file_path h) w")
    case True
    then have "w = ensure_config_file (config_file_path h) w0"
      using w by (auto simp: ensure_config_file_exists)
    with True PHome \<open>h' = h\<close> st show ?thesis by (auto simp: proc_step_def)
  next
    case False
    then have "\<not> path_exists (config_file_path h) w0"
      using w by (auto simp: ensure_config_file_exists)
    with False PHome \<open>h' = h\<close> st show ?thesis by (auto simp: proc_step_def)
  qed
next
  case (PChecked p e)
  with ok w st show ?thesis by (auto simp: proc_step_def create_from_either)
next
  case (PEnsured p)
  with ok have p: "p = config_file_path h" and w1: "w = ensure_config_file p w0" by simp_all
  show ?thesis
  proof (cases "read_config p w")
    case (Returns c)
    with PEnsured p w1 st show ?thesis by (auto simp: proc_step_def)
  next
    case (Exits k m)
    with PEnsured p w1 st h show ?thesis by (auto simp: proc_step_def check_initialization_home)
  next
    case Beyond
    then show ?thesis by (simp add: read_config_not_Beyond)
  qed
next
  case (PRead p c)
  with ok st h show ?thesis by (auto simp: proc_step_def check_initialization_home)
next
  case (PDone r)
  with st show ?thesis by (simp add: proc_step_def)
qed

lemma conc_step_inv: "conc_step s t \<Longrightarrow> conc_inv w0 s \<Longrightarrow> conc_inv w0 t"
proof (induction rule: conc_step.induct)
  case (left a w a' w' b)
  show ?case
  proof (cases "home_path w0")
    case None
    with left show ?thesis
      by (auto simp: conc_inv_def proc_step_def resolve_home_def check_initialization_no_home)
  next
    case (Some h)
    with left proc_step_ok [of w0 h a w a' w'] show ?thesis
      by (auto simp: conc_inv_def intro: proc_ok_world)
  qed
next
  case (right b w b' w' a)
  show ?case
  proof (cases "home_path w0")
    case None
    with right show ?thesis
      by (auto simp: conc_inv_def proc_step_def resolve_home_def check_initialization_no_home)
  next
    case (Some h)
    with right proc_step_ok [of w0 h b w b' w'] show ?thesis
      by (auto simp: conc_inv_def intro: proc_ok_world)
  qed
qed

lemma conc_steps_inv: "conc_step\<^sup>*\<^sup>* s t \<Longrightarrow> conc_inv w0 s \<Longrightarrow> conc_inv w0 t"
  by (induction rule: rtranclp_induct) (auto intro: conc_step_inv)

lemma proc_step_start_done:
  "home_path w = None \<Longrightarrow> proc_step PStart w = Some (PDone (Exits 1 ''Could not get home path''), w)"
  by (simp add: proc_step_def resolve_home_def)

text \<open>
  C22 (concurrent first runs).  Two invocations of \<open>dotflow\<close> started together
  on one file system, their system calls interleaved in any order, both end
  with the outcome of a single sequential bootstrap, and the file system is the
  one a single bootstrap leaves: the race between the existence test and
  \<open>File::create\<close> is harmless when no other program writes the file.
\<close>

theorem concurrent_bootstraps_linearizable:
  assumes "conc_step\<^sup>*\<^sup>* (PStart, PStart, w0) (PDone ra, PDone rb, w')"
  shows "ra = fst (check_initialization w0) \<and> rb = fst (check_initialization w0)
         \<and> w' = snd (check_initialization w0)"
proof -
  have "conc_inv w0 (PStart, PStart, w0)" by (simp add: conc_inv_def split: option.splits)
  with assms have i: "conc_inv w0 (PDone ra, PDone rb, w')" by (rule conc_steps_inv)
  show ?thesis
  proof (cases "home_path w0")
    case None
    with i show ?thesis by (simp add: conc_inv_def check_initialization_no_home)
  next
    case (Some h)
    with i show ?thesis by (simp add: conc_inv_def check_initialization_home)
  qed
qed

theorem concurrent_bootstraps_linearizable_witness:
  "fst (check_initialization homeless) = Exits 1 ''Could not get home path'' \<and>
   snd (check_initialization homeless) = homeless"
proof -
  have "conc_step (PStart, PStart, homeless) (PDone (Exits 1 ''Could not get home path''), PStart, homeless)"
    by (rule conc_step.left) (simp add: proc_step_start_done)
  moreover have "conc_step (PDone (Exits 1 ''Could not get home path''), PStart, homeless)
      (PDone (Exits 1 ''Could not get home path''), PDone (Exits 1 ''Could not get home path''), homeless)"
    by (rule conc_step.right) (simp add: proc_step_start_done)
  ultimately have "conc_step\<^sup>*\<^sup>* (PStart, PStart, homeless)
      (PDone (Exits 1 ''Could not get home path''), PDone (Exits 1 ''Could not get home path''), homeless)"
    by (meson rtranclp.rtrancl_into_rtrancl rtranclp.rtrancl_refl)
  from concurrent_bootstraps_linearizable [OF this] show ?thesis by simp
qed

text \<open>
  C23 (create truncates).  The existence test and the creation are two system
  calls.  When another program writes \<open>~/.dotflow.toml\<close> between them, the
  \<open>File::create\<close> of line 46 truncates what it wrote: the file is left empty,
  and the run goes on to read the empty file.
\<close>

theorem create_truncates_concurrent_write:
  assumes "home_path w = Some h" and "files w (config_file_path h) = None"
    and "writable w (config_file_path h)"
  shows "proc_step PStart w = Some (PHome h, w)
       \<and> proc_step (PHome h) w = Some (PChecked (config_file_path h) False, w)
       \<and> proc_step (PChecked (config_file_path h) False) (ext_write (config_file_path h) c w)
           = Some (PEnsured (config_file_path h), ext_write (config_file_path h) [] w)"
  using assms
  by (simp add: proc_step_def resolve_home_def path_exists_def file_create_def ext_write_def)

theorem create_truncates_concurrent_write_witness:
  "proc_step (PChecked ''/home/alice/.dotflow.toml'' False)
     (ext_write ''/home/alice/.dotflow.toml'' (config_doc ''/opt/dots'') alice)
   = Some (PEnsured ''/home/alice/.dotflow.toml'', ext_write ''/home/alice/.dotflow.toml'' [] alice)"
proof -
  have "files alice (config_file_path ''/home/alice'') = None" "writable alice (config_file_path ''/home/alice'')"
    by (simp_all add: alice_def)
  from create_truncates_concurrent_write [OF alice_simps(1) this, of "config_doc ''/opt/dots''"]
  show ?thesis by simp
qed

end
