(* ===== verification/Design.thy ===== *)
theory Design
  imports Config
begin

text \<open>
  The redesign section 9 of the spec proposes for the bootstrap, as a
  reference definition, and its equivalence with the code: a bootstrap that
  returns a typed error to a thin entry shim that performs the exit, instead
  of calling \<open>exit(1)\<close> itself, and that applies the default rule after
  parsing the value of \<open>config\<close> into an optional path, with the home
  directory resolved once, instead of serde calling \<open>default_config\<close> during
  deserialization.  The theorem shows that this design behaves exactly as
  \<open>check_initialization\<close> does, on every world.
\<close>

subsection \<open>Parsing, then filling the default\<close>

text \<open>
  The value of \<open>config\<close> read into an optional path, without the default:
  \<open>None\<close> when the value is outside the model (an array of two or more
  elements), as \<open>deserialize_config\<close> is \<open>Beyond\<close> there.
\<close>

definition raw_path :: "tvalue option \<Rightarrow> de_error + string option" where
  "raw_path v =
     (case v of
        None \<Rightarrow> Inr None
      | Some (TString p) \<Rightarrow> Inr (Some p)
      | Some _ \<Rightarrow> Inl (InvalidType ''path''))"

definition parse_raw :: "(string \<times> tvalue) list \<Rightarrow> (de_error + string option) option" where
  "parse_raw tbl =
     (case map_of tbl ''config'' of
        None \<Rightarrow> Some (Inl (MissingField ''config''))
      | Some (TTable kvs) \<Rightarrow> Some (raw_path (map_of kvs ''path''))
      | Some (TArray vs) \<Rightarrow>
          (case vs of [] \<Rightarrow> Some (raw_path None) | [x] \<Rightarrow> Some (raw_path (Some x)) | _ \<Rightarrow> None)
      | Some _ \<Rightarrow> Some (Inl (InvalidType ''config'')))"

text \<open>The default rule, applied after parsing.\<close>

definition fill_default :: "world \<Rightarrow> string option \<Rightarrow> string run" where
  "fill_default w op = (case op of None \<Rightarrow> default_config w | Some p \<Rightarrow> Returns p)"

subsection \<open>A typed result and an exit shim\<close>

datatype boot_error = NoHome | ReadFailed path | LoadFailed path

text \<open>
  The bootstrap returning its error: the home directory is resolved once and
  used both for the file and for the default path.  \<open>None\<close> stands for a file
  outside the modelled TOML fragment.
\<close>

definition bootstrap_result :: "world \<Rightarrow> (boot_error + data) option \<times> world" where
  "bootstrap_result w =
     (case home_path w of
        None \<Rightarrow> (Some (Inl NoHome), w)
      | Some h \<Rightarrow>
          (let p = config_file_path h;
               w1 = ensure_config_file p w
           in (case read_to_string p w1 of
                 Inl _ \<Rightarrow> Some (Inl (ReadFailed p))
               | Inr c \<Rightarrow>
                   (case toml_parse c of
                      Inl Invalid \<Rightarrow> Some (Inl (LoadFailed p))
                    | Inl Unsupported \<Rightarrow> None
                    | Inr tbl \<Rightarrow>
                        (case parse_raw tbl of
                           None \<Rightarrow> None
                         | Some (Inl _) \<Rightarrow> Some (Inl (LoadFailed p))
                         | Some (Inr op) \<Rightarrow>
                             Some (Inr \<lparr>config = \<lparr>path = (case op of None \<Rightarrow> h @ ''/.config'' | Some s \<Rightarrow> s)\<rparr>\<rparr>))),
               w1)))"

text \<open>The entry shim: the diagnostics and the exit of the code, in one place.\<close>

definition exit_shim :: "(boot_error + data) option \<Rightarrow> (string + data) run" where
  "exit_shim r =
     (case r of
        None \<Rightarrow> Beyond
      | Some (Inl NoHome) \<Rightarrow> Exits 1 ''Could not get home path''
      | Some (Inl (ReadFailed p)) \<Rightarrow> Exits 1 (''Could not read file `'' @ p @ ''`'')
      | Some (Inl (LoadFailed p)) \<Rightarrow> Exits 1 (''Unable to load data from `'' @ p @ ''`'')
      | Some (Inr d) \<Rightarrow> Returns (Inr d))"

subsection \<open>Equivalence\<close>

lemma deserialize_data_parse_raw:
  "deserialize_data w tbl =
     (case parse_raw tbl of
        None \<Rightarrow> Beyond
      | Some (Inl e) \<Rightarrow> Returns (Inl e)
      | Some (Inr op) \<Rightarrow> run_bind (fill_default w op) (\<lambda>s. Returns (Inr \<lparr>config = \<lparr>path = s\<rparr>\<rparr>)))"
  by (simp add: deserialize_data_def deserialize_config_def config_field_def parse_raw_def raw_path_def
      fill_default_def run_bind_def split: option.splits tvalue.splits run.splits list.splits)

lemma fill_default_home:
  "home_path w = Some h \<Longrightarrow> fill_default w op = Returns (case op of None \<Rightarrow> h @ ''/.config'' | Some s \<Rightarrow> s)"
  by (simp add: fill_default_def default_config_def split: option.splits)

text \<open>
  C24 (exit shim).  The bootstrap that returns a typed error, followed by the
  shim that prints and exits, is \<open>check_initialization\<close>: same outcome, same
  message, same world, for every world.  In particular resolving the home
  directory once gives what the code's two calls of \<open>home_dir\<close> give.
\<close>

theorem check_initialization_shim_equiv:
  "check_initialization w = (exit_shim (fst (bootstrap_result w)), snd (bootstrap_result w))"
proof (cases "home_path w")
  case None
  then show ?thesis by (simp add: check_initialization_no_home bootstrap_result_def exit_shim_def)
next
  case (Some h)
  let ?p = "config_file_path h"
  let ?w1 = "ensure_config_file ?p w"
  have h1: "home_path ?w1 = Some h" using Some by simp
  show ?thesis
  proof (cases "read_to_string ?p ?w1")
    case (Inl e)
    with Some show ?thesis
      by (simp add: check_initialization_home bootstrap_result_def exit_shim_def read_config_def Let_def)
  next
    case (Inr c)
    with Some h1 show ?thesis
      by (simp add: check_initialization_home bootstrap_result_def exit_shim_def read_config_def load_data_def Let_def
          toml_from_str_def deserialize_data_parse_raw fill_default_home run_bind_def
          split: sum.splits perr.splits run.splits option.splits)
  qed
qed

end
