(* ===== verification/Links.thy ===== *)
theory Links
  imports Config
begin

text \<open>
  Symbolic links.  \<open>Path::exists\<close> (line 44), \<open>File::create\<close> (line 45) and
  \<open>fs::read_to_string\<close> (line 48) all follow a symbolic link at the path they
  are given: \<open>stat\<close> and \<open>open\<close> resolve the last component of the path through
  at most 40 links (Linux's \<open>MAXSYMLINKS\<close>) and fail with \<open>ELOOP\<close>
  (\<open>ErrorKind::FilesystemLoop\<close>) beyond.  A world with links is a \<open>world\<close> and
  a map from link paths to their (absolute) targets; \<open>File::create\<close> creates
  or truncates the target, never the link.  Links in the directories of a
  path and relative targets are not modelled.  \<open>check_initialization_l\<close> is
  lines 34--65 over this world; the lemmas show that it is
  \<open>check_initialization\<close> when no link is at the configuration path, that a
  link to a file reads and creates that file, and that a link cycle ends in
  the read error.
\<close>

type_synonym links = "path \<Rightarrow> path option"

type_synonym lworld = "world \<times> links"

definition max_symlinks :: nat where
  "max_symlinks = 40"

text \<open>The path a path resolves to, following at most \<open>n\<close> links; \<open>None\<close> for \<open>ELOOP\<close>.\<close>

fun resolve_link :: "nat \<Rightarrow> links \<Rightarrow> path \<Rightarrow> path option" where
  "resolve_link n ln p =
     (case ln p of
        None \<Rightarrow> Some p
      | Some t \<Rightarrow> (case n of 0 \<Rightarrow> None | Suc m \<Rightarrow> resolve_link m ln t))"

declare resolve_link.simps [simp del]

text \<open>\<open>Path::exists\<close>: \<open>fs::metadata\<close> follows links; a loop is an error, so \<open>false\<close>.\<close>

definition l_exists :: "path \<Rightarrow> lworld \<Rightarrow> bool" where
  "l_exists p lw =
     (case resolve_link max_symlinks (snd lw) p of None \<Rightarrow> False | Some q \<Rightarrow> path_exists q (fst lw))"

definition l_create :: "path \<Rightarrow> lworld \<Rightarrow> (io_error + unit) \<times> lworld" where
  "l_create p lw =
     (case resolve_link max_symlinks (snd lw) p of
        None \<Rightarrow> (Inl FilesystemLoop, lw)
      | Some q \<Rightarrow> (fst (file_create q (fst lw)), (snd (file_create q (fst lw)), snd lw)))"

definition l_read :: "path \<Rightarrow> lworld \<Rightarrow> io_error + bytes" where
  "l_read p lw =
     (case resolve_link max_symlinks (snd lw) p of
        None \<Rightarrow> Inl FilesystemLoop
      | Some q \<Rightarrow> read_to_string q (fst lw))"

text \<open>Lines 44--46, 48--54 and 34--65 over a world with links.\<close>

definition ensure_config_file_l :: "path \<Rightarrow> lworld \<Rightarrow> lworld" where
  "ensure_config_file_l p lw = (if \<not> l_exists p lw then snd (l_create p lw) else lw)"

definition read_config_l :: "path \<Rightarrow> lworld \<Rightarrow> string run" where
  "read_config_l p lw =
     (case l_read p lw of
        Inr c \<Rightarrow> Returns c
      | Inl _ \<Rightarrow> Exits 1 (''Could not read file `'' @ p @ ''`''))"

definition check_initialization_l :: "lworld \<Rightarrow> (string + data) run \<times> lworld" where
  "check_initialization_l lw =
     (case resolve_home (fst lw) of
        Exits c m \<Rightarrow> (Exits c m, lw)
      | Beyond \<Rightarrow> (Beyond, lw)
      | Returns home \<Rightarrow>
          (let p = config_file_path home;
               w1 = ensure_config_file_l p lw
           in (run_bind (read_config_l p w1)
                 (\<lambda>contents. run_bind (load_data p (fst w1) contents) (\<lambda>d. Returns (Inr d))), w1)))"

text \<open>
  The world as the program sees it through a link from \<open>p\<close> to \<open>q\<close>: the
  file, the permissions of \<open>q\<close> at \<open>p\<close>.
\<close>

definition link_view :: "path \<Rightarrow> path \<Rightarrow> world \<Rightarrow> world" where
  "link_view p q w =
     w\<lparr>files := (files w)(p := files w q), readable := (readable w)(p := readable w q),
       writable := (writable w)(p := writable w q)\<rparr>"

text \<open>
  Alice's configuration as a link into her repository of dotfiles.
\<close>

definition dotfiles_link :: links where
  "dotfiles_link = [''/home/alice/.dotflow.toml'' \<mapsto> ''/home/alice/dotfiles/dotflow.toml'']"

definition alice_dotfiles :: world where
  "alice_dotfiles = alice\<lparr>files := [''/home/alice/dotfiles/dotflow.toml'' \<mapsto> File (config_doc ''/opt/dots'')]\<rparr>"

subsection \<open>Resolution\<close>

lemma resolve_link_unlinked [simp]: "ln p = None \<Longrightarrow> resolve_link n ln p = Some p"
  by (simp add: resolve_link.simps)

lemma resolve_link_end: "resolve_link n ln p = Some q \<Longrightarrow> ln q = None"
  by (induction n ln p rule: resolve_link.induct) (auto simp: resolve_link.simps split: option.splits nat.splits)

lemma home_path_link_view [simp]: "home_path (link_view p q w) = home_path w"
  by (simp add: link_view_def home_path_def home_dir_def cong: option.case_cong)

lemma load_data_same_home: "home_path w' = home_path w \<Longrightarrow> load_data p w' c = load_data p w c"
  by (simp add: load_data_def toml_from_str_def deserialize_data_def deserialize_config_def config_field_def default_config_def
      cong: option.case_cong sum.case_cong tvalue.case_cong perr.case_cong list.case_cong)

subsection \<open>The system calls through a resolved link\<close>

lemma l_calls_resolved:
  assumes "resolve_link max_symlinks ln p = Some q"
  shows "l_exists p (w, ln) = path_exists q w"
    and "ensure_config_file_l p (w, ln) = (ensure_config_file q w, ln)"
    and "l_read p (w, ln) = read_to_string q w"
  using assms by (simp_all add: l_exists_def l_create_def l_read_def ensure_config_file_l_def ensure_config_file_def)

text \<open>Reading after ensuring, through the link or at the link's target, agree.\<close>

lemma read_ensure_link_view:
  "read_to_string p (ensure_config_file p (link_view p q w)) = read_to_string q (ensure_config_file q w)"
  by (cases "files w q")
    (auto simp: link_view_def ensure_config_file_def path_exists_def file_create_def read_to_string_def
      split: node.splits)

lemma ensure_link_view_home [simp]: "home_path (ensure_config_file p (link_view p q w)) = home_path w"
  by simp

lemma check_initialization_l_home:
  assumes "home_path w = Some h" and "resolve_link max_symlinks ln (config_file_path h) = Some q"
  shows "check_initialization_l (w, ln) =
           (run_bind (case read_to_string q (ensure_config_file q w) of
                        Inr c \<Rightarrow> Returns c
                      | Inl _ \<Rightarrow> Exits 1 (''Could not read file `'' @ config_file_path h @ ''`''))
              (\<lambda>c. run_bind (load_data (config_file_path h) (ensure_config_file q w) c) (\<lambda>d. Returns (Inr d))),
            (ensure_config_file q w, ln))"
  using assms l_calls_resolved [OF assms(2)] l_calls_resolved [OF assms(2), of "ensure_config_file q w"]
  by (simp add: check_initialization_l_def resolve_home_def read_config_l_def Let_def)

lemma check_initialization_l_unlinked:
  assumes "home_path w = Some h" and "ln (config_file_path h) = None"
  shows "check_initialization_l (w, ln) = (fst (check_initialization w), (snd (check_initialization w), ln))"
  using assms by (simp add: check_initialization_l_home check_initialization_home read_config_def)

lemma check_initialization_l_no_home:
  "home_path w = None \<Longrightarrow> check_initialization_l (w, ln) = (Exits 1 ''Could not get home path'', (w, ln))"
  by (simp add: check_initialization_l_def resolve_home_def)

text \<open>Without links the model is \<open>check_initialization\<close>.\<close>

lemma check_initialization_l_no_links:
  "check_initialization_l (w, Map.empty) = (fst (check_initialization w), (snd (check_initialization w), Map.empty))"
  by (cases "home_path w") (simp_all add: check_initialization_l_no_home check_initialization_no_home
      check_initialization_l_unlinked)

text \<open>
  A cycle of links at the configuration path: \<open>exists\<close> is false, the
  \<open>File::create\<close> error is ignored, and the read fails.
\<close>

lemma check_initialization_link_loop:
  assumes "home_path w = Some h" and "resolve_link max_symlinks ln (config_file_path h) = None"
  shows "check_initialization_l (w, ln) = (Exits 1 (''Could not read file `'' @ config_file_path h @ ''`''), (w, ln))"
  using assms
  by (simp add: check_initialization_l_def resolve_home_def read_config_l_def ensure_config_file_l_def
      l_exists_def l_create_def l_read_def Let_def)

text \<open>
  C15 (symbolic link).  A dotfile manager's configuration is typically a
  symbolic link into a repository of dotfiles.  When
  \<open>~/.dotflow.toml\<close> resolves through links to a path \<open>q\<close>, bootstrap has the
  outcome it would have with \<open>q\<close>'s file and permissions at
  \<open>~/.dotflow.toml\<close>, and the only change it makes is creating \<open>q\<close> when
  \<open>q\<close> does not exist; the links are kept.
\<close>

theorem check_initialization_through_link:
  assumes "home_path w = Some h" and "resolve_link max_symlinks ln (config_file_path h) = Some q"
  shows "check_initialization_l (w, ln) =
           (fst (check_initialization (link_view (config_file_path h) q w)), (ensure_config_file q w, ln))"
  using assms
  by (simp add: check_initialization_l_def resolve_home_def read_config_l_def ensure_config_file_l_def
      l_exists_def l_create_def l_read_def ensure_config_file_def Let_def
      check_initialization_home read_ensure_link_view [unfolded ensure_config_file_def] read_config_def
      load_data_same_home [of "ensure_config_file _ (link_view _ q w)" w, unfolded ensure_config_file_def]
      load_data_same_home [of "snd (file_create q w)" w])

theorem check_initialization_through_link_witness:
  "check_initialization_l (alice_dotfiles, dotfiles_link) =
     (Returns (Inr \<lparr>config = \<lparr>path = ''/opt/dots''\<rparr>\<rparr>), (alice_dotfiles, dotfiles_link))"
proof -
  let ?p = "config_file_path ''/home/alice''" and ?q = "''/home/alice/dotfiles/dotflow.toml''"
  have h: "home_path alice_dotfiles = Some ''/home/alice''" by (simp add: alice_dotfiles_def)
  have r: "resolve_link max_symlinks dotfiles_link ?p = Some ?q"
    by (simp add: max_symlinks_def dotfiles_link_def resolve_link.simps)
  have u: "utf8_valid (config_doc ''/opt/dots'')" by code_simp
  have v: "read_to_string ?p (link_view ?p ?q alice_dotfiles) = Inr (config_doc ''/opt/dots'')"
    using u by (simp add: link_view_def alice_dotfiles_def alice_def read_to_string_def)
  have e: "ensure_config_file ?q alice_dotfiles = alice_dotfiles"
    by (simp add: ensure_config_file_def path_exists_def alice_dotfiles_def)
  show ?thesis
    using check_initialization_through_link [OF h r] check_initialization_read [of _ "''/home/alice''", OF _ v] e h
    by (simp add: load_data_parsed toml_parse_config_doc deserialize_data_def deserialize_config_def config_field_def)
qed

end
