(* ===== verification/Boot.thy ===== *)
theory Boot
  imports Config
begin

text \<open>
  The bootstrap as the state machine of the spec (section 4.2):
  \<open>START \<rightarrow> HOME_RESOLVED \<rightarrow> FILE_ENSURED \<rightarrow> FILE_READ \<rightarrow> READY\<close>, each phase able to
  end in \<open>FATAL_EXIT\<close>.  The parse and its result are one phase (\<open>Ready\<close>); the
  phase \<open>Undetermined\<close> stands for TOML outside the modelled fragment.  Each
  rule of \<open>boot_step\<close> is one statement group of \<open>check_initialization\<close>
  (\<open>src/src/main.rs\<close> lines 35--62), with the world of the process carried in the
  phase.  The lemmas show the properties the spec states of the machine: a
  phase is final exactly when it has no successor, every phase has at most one
  successor, and no phase is visited twice (no retries, no cycles).
\<close>

datatype phase =
    Start world
  | HomeResolved world string
  | FileEnsured world path
  | FileRead world path string
  | Ready world data
  | FatalExit world int string
  | Undetermined world

inductive boot_step :: "phase \<Rightarrow> phase \<Rightarrow> bool" where
  resolve: "resolve_home w = Returns h \<Longrightarrow> boot_step (Start w) (HomeResolved w h)"
| resolve_fail: "resolve_home w = Exits k m \<Longrightarrow> boot_step (Start w) (FatalExit w k m)"
| ensure: "boot_step (HomeResolved w h)
             (FileEnsured (ensure_config_file (config_file_path h) w) (config_file_path h))"
| read: "read_config p w = Returns c \<Longrightarrow> boot_step (FileEnsured w p) (FileRead w p c)"
| read_fail: "read_config p w = Exits k m \<Longrightarrow> boot_step (FileEnsured w p) (FatalExit w k m)"
| parse: "load_data p w c = Returns d \<Longrightarrow> boot_step (FileRead w p c) (Ready w d)"
| parse_fail: "load_data p w c = Exits k m \<Longrightarrow> boot_step (FileRead w p c) (FatalExit w k m)"
| parse_beyond: "load_data p w c = Beyond \<Longrightarrow> boot_step (FileRead w p c) (Undetermined w)"

fun final :: "phase \<Rightarrow> bool" where
  "final (Ready _ _) = True"
| "final (FatalExit _ _ _) = True"
| "final (Undetermined _) = True"
| "final _ = False"

text \<open>The position of a phase in the sequence of the spec.\<close>

fun rank :: "phase \<Rightarrow> nat" where
  "rank (Start _) = 0"
| "rank (HomeResolved _ _) = 1"
| "rank (FileEnsured _ _) = 2"
| "rank (FileRead _ _ _) = 3"
| "rank _ = 4"

inductive_cases boot_step_StartE [elim!]: "boot_step (Start w) t"
inductive_cases boot_step_HomeResolvedE [elim!]: "boot_step (HomeResolved w h) t"
inductive_cases boot_step_FileEnsuredE [elim!]: "boot_step (FileEnsured w p) t"
inductive_cases boot_step_FileReadE [elim!]: "boot_step (FileRead w p c) t"
inductive_cases boot_step_ReadyE [elim!]: "boot_step (Ready w d) t"
inductive_cases boot_step_FatalExitE [elim!]: "boot_step (FatalExit w k m) t"
inductive_cases boot_step_UndeterminedE [elim!]: "boot_step (Undetermined w) t"

subsection \<open>Properties of the phase machine\<close>

lemma boot_step_rank: "boot_step s t \<Longrightarrow> rank s < rank t"
  by (induction rule: boot_step.induct) simp_all

lemma final_no_step: "final s \<Longrightarrow> \<not> boot_step s t"
  by (cases s) auto

lemma boot_progress: "\<not> final s \<Longrightarrow> \<exists>t. boot_step s t"
proof (cases s)
  case (Start w)
  then show ?thesis
    using resolve_home_not_Beyond [of w] by (cases "resolve_home w") (auto intro: boot_step.intros)
next
  case (HomeResolved w h)
  then show ?thesis by (auto intro: boot_step.intros)
next
  case (FileEnsured w p)
  then show ?thesis
    using read_config_not_Beyond [of p w] by (cases "read_config p w") (auto intro: boot_step.intros)
next
  case (FileRead w p c)
  then show ?thesis by (cases "load_data p w c") (auto intro: boot_step.intros)
qed simp_all

lemma boot_steps_rank: "boot_step\<^sup>+\<^sup>+ s t \<Longrightarrow> rank s < rank t"
  by (induction rule: tranclp_induct) (auto dest: boot_step_rank)

text \<open>
  No phase is ever revisited: the step relation has no cycle, as the spec
  requires (no retries anywhere).
\<close>

lemma boot_no_cycle: "\<not> boot_step\<^sup>+\<^sup>+ s s"
  using boot_steps_rank by blast

text \<open>
  Each phase has at most one successor: the bootstrap is a deterministic,
  single-threaded sequence (spec section 5).
\<close>

lemma boot_deterministic: "boot_step s t \<Longrightarrow> boot_step s u \<Longrightarrow> t = u"
  by (induction rule: boot_step.induct) auto

end
