(* ===== verification/Spec2Isabelle.thy ===== *)
theory Spec2Isabelle
  imports Clap Race Design Links Boot
begin

text \<open>
  Verification development of dotflow, a command-line dotfile manager whose
  whole implementation is \<open>src/src/main.rs\<close> (101 lines).  The program
  resolves the user's home directory, makes sure \<open>~/.dotflow.toml\<close> exists,
  reads it, deserializes it with the toml crate and serde into \<open>Data\<close>, and
  dispatches to its one subcommand \<open>link\<close>, which prints its argument and the
  configured path.  Every failure of the bootstrap prints a message and exits
  with status 1.

  \<^bold>\<open>Theories and what they model.\<close>
  \<^item> \<open>Prelude\<close>: byte classes (\<open>in_range\<close>, \<open>is_digit\<close>, \<open>is_hex_digit\<close>, the
    collection \<open>byte_class\<close>), \<open>radix_val\<close>, \<open>hex_digit\<close> and lemmas on
    association lists shared by the components.  Strings and file contents are
    \<open>char list\<close>s of bytes (\<open>bytes\<close>).
  \<^item> \<open>Utf8\<close>: well-formed UTF-8 (Unicode table 3-7, \<open>utf8_valid\<close>), the encoder of
    a scalar value (\<open>utf8_encode\<close>) and lossy decoding (\<open>utf8_lossy\<close>, each
    maximal ill-formed subpart replaced by U+FFFD), with the proofs that every
    encoding and every lossy decoding is valid and that lossy decoding changes
    exactly the ill-formed strings.  Library code the program calls
    (\<open>fs::read_to_string\<close>, \<open>Path::display\<close>, the TOML \<open>\u\<close> escapes), modelled
    from the standard.
  \<^item> \<open>Sys\<close>: the operating system as a record \<open>world\<close>: \<open>$HOME\<close> and the password
    database entry (\<open>home_dir\<close>, the \<open>home\<close> crate), a file system mapping paths
    to files and directories, and per-path read and write permission.
    \<open>path_exists\<close>, \<open>file_create\<close> (truncating, as \<open>File::create\<close>) and
    \<open>read_to_string\<close> (with its \<open>io::Error\<close> kinds) are its operations.
  \<^item> \<open>Toml\<close>, \<open>TomlScalar\<close> and \<open>TomlDoc\<close>: the toml crate's reader on the
    fragment a configuration file uses: comments, blank lines, \<open>[table]\<close>
    headers, \<open>key = value\<close> pairs with bare, quoted or dotted keys
    (\<open>dotted_key\<close>, the nested tables built by \<open>nest\<close> and \<open>add_kv\<close>), basic
    and literal strings and their multi-line forms (\<open>string_value\<close>,
    \<open>ml_chars\<close>) with all escapes, integers in the four bases within \<open>i64\<close>
    and floats (\<open>number\<close>; a float is kept as its literal), booleans, arrays
    of these, and one-line inline tables (\<open>inline_items\<close>).  The lexers return
    \<open>perr + ('a \<times> string)\<close>: \<open>Invalid\<close> for text that is not TOML (an
    integer beyond \<open>i64\<close> included), \<open>Unsupported\<close> for TOML outside the
    fragment (dates and times, dotted headers, arrays of tables, nested arrays,
    a dotted key extending an existing table, nested or dotted keys inside
    inline tables, CR LF inside a multi-line string, floats of magnitude
    \<open>10\<^sup>3\<^sup>0\<^sup>8\<close> or more).
    \<open>doc_loop\<close> reads a line at a time into a \<open>tstate\<close>; \<open>toml_parse\<close> is
    \<open>toml::from_str\<close> into a table.  \<open>toml_escape\<close> prints a basic string.
    \<open>TomlTypes\<close> types the values as the crate's \<open>Value\<close>, integers as \<open>i64\<close>
    (\<open>sint\<close> of a \<open>64 word\<close>).
  \<^item> \<open>Config\<close>: lines 9--65 of \<open>main.rs\<close>.  \<open>data\<close> and \<open>config\<close> are the two structs;
    \<open>deserialize_data\<close>/\<open>deserialize_config\<close> their derived \<open>Deserialize\<close>
    (required \<open>config\<close>, read as a table by \<open>visit_map\<close> or as an array by
    \<open>visit_seq\<close>; \<open>config_field\<close> is its \<open>path\<close>, a string, defaulted by
    \<open>default_config\<close> when absent; unknown keys ignored).  \<open>home_path\<close> is \<open>home_dir()\<close>
    followed by \<open>display().to_string()\<close>.  \<open>check_initialization\<close> composes
    \<open>resolve_home\<close> (lines 35--41), \<open>config_file_path\<close> (43),
    \<open>ensure_config_file\<close> (44--46), \<open>read_config\<close> (48--54) and \<open>load_data\<close>
    (56--62), threading the world.  Its outcome is a \<open>run\<close>: \<open>Exits\<close> status and
    message for \<open>exit(1)\<close> after \<open>eprintln!\<close>, \<open>Returns\<close> a value, or \<open>Beyond\<close>
    when the file is TOML outside the modelled fragment.
  \<^item> \<open>Links\<close>: symbolic links at the last component of a path, followed by
    \<open>Path::exists\<close>, \<open>File::create\<close> and \<open>read_to_string\<close> through at most 40
    links (\<open>resolve_link\<close>, \<open>l_exists\<close>, \<open>l_create\<close>, \<open>l_read\<close>; \<open>ELOOP\<close> beyond),
    and \<open>check_initialization_l\<close>, lines 34--65 over a world with links.  It is
    \<open>check_initialization\<close> when no link is at the configuration path.
  \<^item> \<open>Boot\<close>: the same bootstrap as the spec's state machine (section 4.2), an
    inductive relation \<open>boot_step\<close> on phases \<open>Start\<close>, \<open>HomeResolved\<close>,
    \<open>FileEnsured\<close>, \<open>FileRead\<close>, \<open>Ready\<close>, \<open>FatalExit\<close>, one rule per statement
    group of \<open>check_initialization\<close>, with the lemmas that it is deterministic,
    has no cycle and stops exactly in the final phases.
  \<^item> \<open>Race\<close>: the bootstrap at the granularity of its system calls
    (\<open>proc_step\<close>: home lookup, the existence test of line 45, the
    \<open>File::create\<close> of line 46, the read, the parse) on a world shared by two
    invocations (\<open>conc_step\<close> interleaves them) and by other programs
    (\<open>ext_write\<close>).
  \<^item> \<open>Design\<close>: the redesign of the spec's section 9 as a reference
    definition: a bootstrap that resolves the home directory once, fills the
    default after parsing (\<open>parse_raw\<close>) and returns a typed error to an exit
    shim (\<open>bootstrap_result\<close>, \<open>exit_shim\<close>).
  \<^item> \<open>Clap\<close>: the \<open>Command\<close> of lines 74--83 as data (\<open>dotflow_command\<close>),
    clap's matching of the argument list against it (\<open>parse_top\<close>,
    \<open>parse_args\<close>, modelled from clap's documented behaviour), and \<open>main\<close>
    run from its arguments (\<open>argv_main\<close>).
  \<^item> \<open>Cli\<close>: lines 67--101: \<open>link\<close> (with Rust's \<open>Debug\<close> of \<open>Option<&String>\<close>,
    \<open>debug_opt_str\<close>, determined for ASCII strings), \<open>dispatch\<close> and
    \<open>main_run\<close>, which runs the bootstrap and the subcommand and ends with an
    exit status and the output lines, or a panic.  \<open>undebug\<close> reads a
    \<open>Debug\<close> string back.

  \<^bold>\<open>What is proved.\<close>
  \<^item> Bootstrap (\<open>Config\<close>, C1--C14, C16--C21): the first run exits with status 1
    because the empty file it creates has no \<open>config\<close> (scenario A of the spec
    fails); idempotence for every world; default path \<open><home>/.config\<close>;
    malformed, unreadable, ill-typed or section-less files exit with status 1
    naming the path; lazy creation; no home directory exits before any file
    access; the only change to the file system is creating the empty file;
    \<open>Err\<close> is never returned and \<open>default_config\<close>'s exit is unreachable; a
    path written in TOML's escaped form is read back exactly (round trip,
    through UTF-8 validation, the lexer and the deserializer), and so is one
    written as a literal string \<open>'S'\<close> (C14), backslashes included; a home
    directory that is not UTF-8 makes bootstrap work on another path, so the
    user's file is never read or written (C16); every successful load comes
    from a parsed file whose tables have distinct keys, its path taken from
    the \<open>config\<close> table or array or defaulted (C18); the three TOML spellings
    of the \<open>config\<close> table load the same path, the empty path included,
    against the spec's invariant (C20); the array form \<open>config = ["S"]\<close> or
    \<open>config = []\<close>, which the spec does not mention, loads \<open>S\<close> or the default
    (C21).
  \<^item> Symbolic links (\<open>Links\<close>, C15): a configuration reached through links
    behaves as the link's target placed at \<open>~/.dotflow.toml\<close>, only the target
    is ever created and the links are kept; a link cycle ends in the read
    error with the world unchanged (\<open>check_initialization_link_loop\<close>).
  \<^item> Concurrency (\<open>Race\<close>, C22--C23): two invocations interleaved in any order
    end with the outcome and world of one sequential run (linearizable); a
    write by another program between the existence test and \<open>File::create\<close>
    is truncated.
  \<^item> Design (\<open>Design\<close>, C24): the code is equivalent to the redesign with an
    exit shim and default filling after parsing, on every world.
  \<^item> Command line (\<open>Clap\<close>, C25--C29): \<open>dotflow\<close> with no arguments panics after
    a successful bootstrap, because the command lacks \<open>subcommand_required\<close>;
    help, version and usage errors leave the file system untouched; the four
    spellings of the path are equivalent; the exit status is 2 exactly for
    usage errors, 1 exactly for bootstrap exits and 101 exactly for a missing
    subcommand after a successful bootstrap; \<open>dotflow link --path V\<close> prints
    the \<open>Debug\<close> form of \<open>V\<close>, which is printable and reads back to \<open>V\<close>,
    and the configured path.
  \<^item> Library lemmas: UTF-8 encodings are valid; the lexers consume input (the
    termination measures of \<open>basic_chars\<close>, \<open>ml_chars\<close>, \<open>dotted_key\<close>,
    \<open>inline_items\<close>, \<open>array_items\<close> and \<open>doc_loop\<close>);
    \<open>basic_chars\<close> reads back \<open>toml_escape\<close>; escaping keeps UTF-8 valid; the
    reader state keeps distinct keys at every depth and typed values after
    every line (both instances of \<open>doc_loop_preserves\<close>); the phase machine
    is deterministic and has no cycle.

  \<^bold>\<open>Bounds.\<close>  No fuel is used: every loop of the reader is a \<open>function\<close>
  whose termination is proved from the length of the remaining input, and
  \<open>undebug\<close> is structurally recursive.  The phase machine's steps strictly
  increase the phase's rank, which is at most four.

  \<^bold>\<open>Not modelled.\<close>  The texts clap prints for help and usage errors (the
  model keeps the kind of error and the status); clap features the command
  does not use.  Output streams are lists of lines.  Rust's \<open>Debug\<close> of a
  string with non-ASCII bytes, whose escapes follow Unicode tables, is left
  undetermined.  A \<open>config\<close> array of two or more elements is \<open>Beyond\<close>:
  toml 0.5 rejects the trailing elements, later versions ignore them, and the
  repository does not fix the version.  The toml crate outside the fragment above is \<open>Beyond\<close>, never a
  claimed result: dates and times, because which out-of-range dates the
  crate rejects is not documented; dotted headers and arrays of tables,
  which need a reader state addressing nested tables by path; nested arrays;
  a CR LF inside a multi-line string, whose normalization depends on the
  crate version; and the \<open>f64\<close> value of a float (kept as its literal).  More than two concurrent invocations, symbolic links in the
  directory components of a path and relative link targets are outside the
  model.
\<close>

end
